theory Spec2Isabelle
  imports Complex_Main
begin

section \<open>Python values and exceptions\<close>

text \<open>
  The model covers \<^verbatim>\<open>src/peridynamics/model.py\<close>. Exceptions are values: every
  function that can raise returns \<open>error + 'a\<close>, with \<open>Inl\<close> for the exception.
  numpy's float64 numbers are modelled by the reals, so rounding is not part of the
  model; Python's unbounded integers are \<open>int\<close>.
\<close>

datatype error =
    InvalidIntegrator
  | DimensionalityError int
  | FamilyError string
  | ValueError
  | TypeError
  | IndexError
  | AttributeError
  | AssertionError
  | UnboundLocalError
  | ZeroDivisionError
  | OverflowError

definition bindE :: "error + 'a \<Rightarrow> ('a \<Rightarrow> error + 'b) \<Rightarrow> error + 'b" where
  "bindE m f = (case m of Inl e \<Rightarrow> Inl e | Inr x \<Rightarrow> f x)"

text \<open>A \<^verbatim>\<open>for\<close> loop whose body can raise: the first exception ends the loop.\<close>

fun for_loop :: "'a list \<Rightarrow> ('a \<Rightarrow> 's \<Rightarrow> error + 's) \<Rightarrow> 's \<Rightarrow> error + 's" where
  "for_loop [] body s = Inr s"
| "for_loop (x # xs) body s =
     (case body x s of Inl e \<Rightarrow> Inl e | Inr s' \<Rightarrow> for_loop xs body s')"

text \<open>\<^verbatim>\<open>range(n)\<close>: empty when \<open>n \<le> 0\<close>.\<close>

definition py_range :: "int \<Rightarrow> int list" where
  "py_range n = map int [0..<nat n]"

text \<open>
  Subscripting a sequence with one integer: an index below zero counts from the end, and
  an index outside the sequence raises IndexError.
\<close>

definition py_index :: "'a list \<Rightarrow> int \<Rightarrow> error + 'a" where
  "py_index xs i =
     (if 0 \<le> i \<and> i < int (length xs) then Inr (xs ! nat i)
      else if i < 0 \<and> - int (length xs) \<le> i then Inr (xs ! nat (int (length xs) + i))
      else Inl IndexError)"

text \<open>Storing at an index follows the same rule.\<close>

definition py_setitem :: "'a list \<Rightarrow> int \<Rightarrow> 'a \<Rightarrow> error + 'a list" where
  "py_setitem xs i v =
     (if 0 \<le> i \<and> i < int (length xs) then Inr (xs[nat i := v])
      else if i < 0 \<and> - int (length xs) \<le> i then Inr (xs[nat (int (length xs) + i) := v])
      else Inl IndexError)"

text \<open>Two subscripts, \<^verbatim>\<open>a[i][j]\<close>, read and stored.\<close>

definition py_index2 :: "'a list list \<Rightarrow> int \<Rightarrow> int \<Rightarrow> error + 'a" where
  "py_index2 a i j = bindE (py_index a i) (\<lambda>row. py_index row j)"

definition py_setitem2 :: "'a list list \<Rightarrow> int \<Rightarrow> int \<Rightarrow> 'a \<Rightarrow> error + 'a list list" where
  "py_setitem2 a i j v =
     bindE (py_index a i) (\<lambda>row.
     bindE (py_setitem row j v) (\<lambda>row'. py_setitem a i row'))"

text \<open>The slice \<^verbatim>\<open>xs[:n]\<close>: a stop below zero counts from the end; nothing raises.\<close>

definition py_slice_to :: "'a list \<Rightarrow> int \<Rightarrow> 'a list" where
  "py_slice_to xs n = (if 0 \<le> n then take (nat n) xs else take (nat (int (length xs) + n)) xs)"

text \<open>
  The numeric arguments of the model: a Python or numpy scalar, a one-dimensional array
  and a two-dimensional array (one row per material). Subscripting a scalar raises
  IndexError, subscripting an array gives an element or a row.
\<close>

datatype ndarray = Scalar real | Vec "real list" | Mat "real list list"

fun np_getitem :: "ndarray \<Rightarrow> int \<Rightarrow> error + ndarray" where
  "np_getitem (Scalar x) i = Inl IndexError"
| "np_getitem (Vec xs) i = bindE (py_index xs i) (\<lambda>x. Inr (Scalar x))"
| "np_getitem (Mat rows) i = bindE (py_index rows i) (\<lambda>r. Inr (Vec r))"

text \<open>
  Elementwise arithmetic with numpy's broadcasting, for operands of at most one dimension
  (all that subscripting the arguments above once can give): a scalar or an array of
  length one is stretched, two arrays of different lengths raise ValueError.
\<close>

fun np_binop :: "(real \<Rightarrow> real \<Rightarrow> real) \<Rightarrow> ndarray \<Rightarrow> ndarray \<Rightarrow> error + ndarray" where
  "np_binop f (Scalar x) (Scalar y) = Inr (Scalar (f x y))"
| "np_binop f (Scalar x) (Vec ys) = Inr (Vec (map (f x) ys))"
| "np_binop f (Vec xs) (Scalar y) = Inr (Vec (map (\<lambda>x. f x y) xs))"
| "np_binop f (Vec xs) (Vec ys) =
     (if length xs = length ys then Inr (Vec (map2 f xs ys))
      else if length xs = 1 then Inr (Vec (map (f (hd xs)) ys))
      else if length ys = 1 then Inr (Vec (map (\<lambda>x. f x (hd ys)) xs))
      else Inl ValueError)"
| "np_binop f a b = Inl ValueError"

section \<open>The intercepts of the damage model: \<^verbatim>\<open>Model._set_plus_cs\<close>\<close>

text \<open>
  One pass of the loop body (lines 739 to 742). The intercept \<open>c_i\<close> is computed from
  \<^verbatim>\<open>bond_stiffness[i - 1]\<close>, \<^verbatim>\<open>critical_stretch[i - 1]\<close> and
  \<^verbatim>\<open>bond_stiffness[i]\<close>, in this order; then line 741,
  \<^verbatim>\<open>plus_cs.append[c_i]\<close>, subscripts the bound method \<^verbatim>\<open>append\<close> instead of
  calling it, which raises TypeError. Nothing is ever appended.
\<close>

definition plus_cs_body ::
  "ndarray \<Rightarrow> ndarray \<Rightarrow> int \<Rightarrow> ndarray \<times> ndarray list \<Rightarrow> error + ndarray \<times> ndarray list" where
  "plus_cs_body bond_stiffness critical_stretch i s =
     (case s of (c_prev, plus_cs) \<Rightarrow>
        bindE (np_getitem bond_stiffness (i - 1)) (\<lambda>k_prev.
        bindE (np_getitem critical_stretch (i - 1)) (\<lambda>s_prev.
        bindE (np_binop (*) k_prev s_prev) (\<lambda>p.
        bindE (np_binop (+) c_prev p) (\<lambda>lhs.
        bindE (np_getitem bond_stiffness i) (\<lambda>k_i.
        bindE (np_getitem critical_stretch (i - 1)) (\<lambda>s_prev'.
        bindE (np_binop (*) k_i s_prev') (\<lambda>q.
        bindE (np_binop (-) lhs q) (\<lambda>c_i.
          Inl TypeError)))))))))"

text \<open>
  \<^verbatim>\<open>np.array(plus_cs, dtype=np.float64)\<close> of a list of scalars; a list that holds an
  array is not flat (it never arises, see above).
\<close>

fun np_array_of_scalars :: "ndarray list \<Rightarrow> error + real list" where
  "np_array_of_scalars [] = Inr []"
| "np_array_of_scalars (Scalar x # xs) = bindE (np_array_of_scalars xs) (\<lambda>r. Inr (x # r))"
| "np_array_of_scalars (_ # xs) = Inl ValueError"

definition set_plus_cs :: "ndarray \<Rightarrow> ndarray \<Rightarrow> int \<Rightarrow> int \<Rightarrow> error + real list" where
  "set_plus_cs bond_stiffness critical_stretch nregimes nmaterials =
     (let c0 = Scalar 0; c_prev = c0; plus_cs = [c0] in
      bindE (if nregimes \<noteq> 1
             then for_loop (py_range (nregimes - 1))
                    (plus_cs_body bond_stiffness critical_stretch) (c_prev, plus_cs)
             else Inr (c_prev, plus_cs))
        (\<lambda>(c_prev, plus_cs).
           if int (length plus_cs) = nregimes then np_array_of_scalars plus_cs
           else Inl AssertionError))"

section \<open>The model object\<close>

text \<open>
  The attributes of a \<^verbatim>\<open>Model\<close> that its methods read. \<^verbatim>\<open>__init__\<close> assigns
  them one after the other; a method called during construction reads only attributes
  assigned before the call. The class never assigns an attribute \<^verbatim>\<open>volume_total\<close>
  (the constructor's argument of that name is only passed on to \<^verbatim>\<open>_volume\<close>); the
  field \<open>volume_total\<close> is \<open>None\<close> while the object has no such attribute, as is the case
  for every object that \<^verbatim>\<open>__init__\<close> builds, and \<open>Some v\<close> had someone set it.
\<close>

record model =
  dimensions :: int
  coords :: "real list list"
  nnodes :: nat
  horizon :: real
  nregimes :: int
  nmaterials :: int
  volume :: "real list"
  family :: "int list"
  max_neighbours :: int
  degrees_freedom :: nat
  tip_types :: "int list list"
  volume_total :: "real option"

text \<open>
  The integrator is an external collaborator (\<^verbatim>\<open>peridynamics.integrators\<close>). It is
  a parameter of the model: its internal state has type \<open>'g\<close>, calling it advances that
  state by one step, and \<^verbatim>\<open>integrator.write\<close> hands back the current arrays.
\<close>

record snapshot =
  snap_u :: "real list list"
  snap_ud :: "real list list"
  snap_force :: "real list list"
  snap_damage :: "real list"
  snap_nlist :: "int list list"
  snap_n_neigh :: "int list"

record 'g integrator =
  context_set :: bool
  call :: "real \<Rightarrow> real \<Rightarrow> 'g \<Rightarrow> 'g"
  write_out :: "'g \<Rightarrow> snapshot"

section \<open>Stiffness corrections: \<^verbatim>\<open>Model._set_stiffness_corrections\<close>\<close>

text \<open>
  Lines 659 to 664, the pass for node \<open>i\<close>: the volumes of the nodes in the first
  \<^verbatim>\<open>family[i]\<close> slots of \<^verbatim>\<open>nlist[i]\<close> are added up and stored in
  \<^verbatim>\<open>family_volumes[i]\<close>.
\<close>

definition family_volume_body ::
  "model \<Rightarrow> int list list \<Rightarrow> int \<Rightarrow> real list \<Rightarrow> error + real list" where
  "family_volume_body self nlist i family_volumes =
     bindE (py_index nlist i) (\<lambda>row.
     bindE (py_index (family self) i) (\<lambda>family_i.
       let neighbour_list = py_slice_to row family_i in
       bindE (for_loop (py_range family_i)
                (\<lambda>j tmp. bindE (py_index neighbour_list j) (\<lambda>n.
                          bindE (py_index (volume self) n) (\<lambda>v. Inr (tmp + v))))
                0) (\<lambda>tmp.
       py_setitem family_volumes i tmp)))"

text \<open>
  Lines 666 to 669. The local \<^verbatim>\<open>family_volume_bulk\<close> is bound only for 2 and 3
  dimensions; in 2 dimensions the code multiplies the disc area by 0.001.
\<close>

definition family_volume_bulk :: "model \<Rightarrow> real \<Rightarrow> real option" where
  "family_volume_bulk self horizon' =
     (if dimensions self = 2 then Some (pi * horizon' ^ 2 * 0.001)
      else if dimensions self = 3 then Some ((4 / 3) * pi * horizon' ^ 3)
      else None)"

text \<open>
  Lines 672 to 679, precise mode, the pass for node \<open>i\<close>. Reading the unbound local
  raises UnboundLocalError. numpy's division of float64 numbers does not raise; the model
  divides reals, and the theorems below say where the divisor is not zero.
\<close>

definition precise_body ::
  "int list list \<Rightarrow> int list \<Rightarrow> real list \<Rightarrow> real option \<Rightarrow> int
     \<Rightarrow> real list list \<Rightarrow> error + real list list" where
  "precise_body nlist n_neigh family_volumes bulk i stiffness_corrections =
     bindE (py_index family_volumes i) (\<lambda>family_volume_i.
     bindE (py_index n_neigh i) (\<lambda>n_neigh_i.
       for_loop (py_range n_neigh_i)
         (\<lambda>neigh sc.
            bindE (py_index2 nlist i neigh) (\<lambda>j.
            bindE (py_index family_volumes j) (\<lambda>family_volume_j.
            bindE (case bulk of None \<Rightarrow> Inl UnboundLocalError | Some b \<Rightarrow> Inr b) (\<lambda>b.
              let stiffness_correction_factor =
                    2 * b / (family_volume_i + family_volume_j)
              in py_setitem2 sc i neigh stiffness_correction_factor))))
         stiffness_corrections))"

text \<open>
  Lines 682 to 693, approximate mode. Line 682 reads \<^verbatim>\<open>self.volume_total\<close>, which
  raises AttributeError on an object without that attribute; with it, and at least one
  node, line 686, \<^verbatim>\<open>for neigh in nnodes_i_family\<close>, iterates over an integer and
  raises TypeError in the first pass. A Python float divided by \<open>nnodes = 0\<close> raises
  ZeroDivisionError.
\<close>

definition approximate_body ::
  "int list list \<Rightarrow> int list \<Rightarrow> real \<Rightarrow> real option \<Rightarrow> int
     \<Rightarrow> real list list \<Rightarrow> error + real list list" where
  "approximate_body nlist n_neigh average_node_volume bulk i stiffness_corrections =
     bindE (py_index n_neigh i) (\<lambda>nnodes_i_family.
       let nodei_family_volume = real_of_int nnodes_i_family * average_node_volume
       in Inl TypeError)"

definition approximate_corrections ::
  "model \<Rightarrow> int list list \<Rightarrow> int list \<Rightarrow> real option \<Rightarrow> real list list
     \<Rightarrow> error + real list list" where
  "approximate_corrections self nlist n_neigh bulk stiffness_corrections =
     (case volume_total self of
        None \<Rightarrow> Inl AttributeError
      | Some vt \<Rightarrow>
          if nnodes self = 0 then Inl ZeroDivisionError
          else
            let average_node_volume = vt / real (nnodes self) in
            for_loop (py_range (int (nnodes self)))
              (approximate_body nlist n_neigh average_node_volume bulk)
              stiffness_corrections)"

text \<open>
  The method; \<open>horizon'\<close> is its argument \<^verbatim>\<open>horizon\<close>.
  \<^verbatim>\<open>precise_stiffness_correction\<close> is \<open>None\<close> or an integer. A negative
  \<^verbatim>\<open>max_neighbours\<close> is no array shape. Writing the array to a file is left out.
\<close>

definition set_stiffness_corrections ::
  "model \<Rightarrow> real \<Rightarrow> int list list \<times> int list \<Rightarrow> int option \<Rightarrow> error + real list list" where
  "set_stiffness_corrections self horizon' connectivity precise_stiffness_correction =
     (case connectivity of (nlist, n_neigh) \<Rightarrow>
        if max_neighbours self < 0 then Inl ValueError
        else
          let stiffness_corrections =
                replicate (nnodes self) (replicate (nat (max_neighbours self)) 1)
          in
          bindE (for_loop (py_range (int (nnodes self))) (family_volume_body self nlist)
                   (replicate (nnodes self) 0)) (\<lambda>family_volumes.
            let bulk = family_volume_bulk self horizon' in
            if precise_stiffness_correction = Some 1 then
              for_loop (py_range (int (nnodes self)))
                (precise_body nlist n_neigh family_volumes bulk) stiffness_corrections
            else if precise_stiffness_correction = Some 0 then
              approximate_corrections self nlist n_neigh bulk stiffness_corrections
            else if precise_stiffness_correction = None then Inr stiffness_corrections
            else Inl ValueError))"

text \<open>
  The sum that lines 659 to 664 form for node \<open>n\<close>: the volumes of the nodes in the first
  \<^verbatim>\<open>family[n]\<close> slots of \<^verbatim>\<open>nlist[n]\<close>, the neighbour list as it is handed to the
  method (in \<^verbatim>\<open>__init__\<close>, after the initial crack has been applied to it).
\<close>

definition family_volume :: "model \<Rightarrow> int list list \<Rightarrow> nat \<Rightarrow> real" where
  "family_volume self nlist n =
     sum_list (map (\<lambda>k. volume self ! nat (nlist ! n ! k)) [0..<nat (family self ! n)])"

text \<open>
  A model and a connectivity of matching shapes: the arrays have \<open>nnodes\<close> rows, the
  neighbour list has \<open>max_neighbours\<close> columns, family sizes and neighbour counts lie
  between 0 and \<open>max_neighbours\<close>, and every slot below the family size or below the
  neighbour count of its row holds a node index.
\<close>

definition shapes_agree :: "model \<Rightarrow> int list list \<Rightarrow> int list \<Rightarrow> bool" where
  "shapes_agree self nlist n_neigh \<longleftrightarrow>
     0 \<le> max_neighbours self \<and>
     length (volume self) = nnodes self \<and>
     length (family self) = nnodes self \<and>
     length nlist = nnodes self \<and>
     length n_neigh = nnodes self \<and>
     list_all (\<lambda>row. length row = nat (max_neighbours self)) nlist \<and>
     list_all (\<lambda>f. 0 \<le> f \<and> f \<le> max_neighbours self) (family self) \<and>
     list_all (\<lambda>c. 0 \<le> c \<and> c \<le> max_neighbours self) n_neigh \<and>
     list_all (\<lambda>i. list_all (\<lambda>k. 0 \<le> nlist ! i ! k \<and> nlist ! i ! k < int (nnodes self))
                  [0..<nat (max (family self ! i) (n_neigh ! i))])
       [0..<nnodes self]"

section \<open>Material types: \<^verbatim>\<open>Model._set_material_types\<close>\<close>

text \<open>
  The array \<^verbatim>\<open>material_types\<close> is created with \<^verbatim>\<open>dtype=np.intc\<close> (line 613), so an
  entry holds 32 bits. Storing a Python integer at \<^verbatim>\<open>a[i][j]\<close> first finds the slot
  (IndexError) and then converts the value: numpy 2 raises OverflowError for a value
  outside \<open>-2\<^sup>3\<^sup>1 \<dots> 2\<^sup>3\<^sup>1 - 1\<close> (earlier versions of numpy wrap such a value around
  instead; the model follows numpy 2).
\<close>

definition fits_intc :: "int \<Rightarrow> bool" where
  "fits_intc v \<longleftrightarrow> - (2 ^ 31) \<le> v \<and> v < 2 ^ 31"

definition store_intc :: "int list list \<Rightarrow> int \<Rightarrow> int \<Rightarrow> int \<Rightarrow> error + int list list" where
  "store_intc a i j v =
     bindE (py_index2 a i j) (\<lambda>_.
       if fits_intc v then py_setitem2 a i j v else Inl OverflowError)"

text \<open>
  The caller's \<^verbatim>\<open>bond_type\<close> maps two coordinates to a material index. To count its
  invocations the model keeps, next to the array, the list of the calls made so far: the
  pair \<open>(i, j)\<close> stands for the call \<^verbatim>\<open>bond_type(coords[i, :], coords[j, :])\<close>.
  Lines 617 to 619, the pass for node \<open>i\<close> and slot \<open>neigh\<close>: the function is called
  and its result is stored.
\<close>

definition material_body ::
  "model \<Rightarrow> int list list \<Rightarrow> (real list \<Rightarrow> real list \<Rightarrow> int) \<Rightarrow> int \<Rightarrow> int
     \<Rightarrow> int list list \<times> (int \<times> int) list \<Rightarrow> error + int list list \<times> (int \<times> int) list" where
  "material_body self nlist bond_type i neigh s =
     (case s of (material_types, calls) \<Rightarrow>
        bindE (py_index2 nlist i neigh) (\<lambda>j.
        bindE (py_index (coords self) i) (\<lambda>x.
        bindE (py_index (coords self) j) (\<lambda>y.
          let m = bond_type x y in
          bindE (store_intc material_types i neigh m) (\<lambda>material_types'.
            Inr (material_types', calls @ [(i, j)]))))))"

definition set_material_types ::
  "model \<Rightarrow> int list list \<times> int list \<Rightarrow> (real list \<Rightarrow> real list \<Rightarrow> int)
     \<Rightarrow> error + int list list \<times> (int \<times> int) list" where
  "set_material_types self connectivity bond_type =
     (case connectivity of (nlist, n_neigh) \<Rightarrow>
        if max_neighbours self < 0 then Inl ValueError
        else
          for_loop (py_range (int (nnodes self)))
            (\<lambda>i s. bindE (py_index n_neigh i) (\<lambda>n_neigh_i.
                      for_loop (py_range n_neigh_i) (material_body self nlist bond_type i) s))
            (replicate (nnodes self) (replicate (nat (max_neighbours self)) 0), []))"

section \<open>The initial crack: \<^verbatim>\<open>initial_crack_helper\<close>\<close>

text \<open>
  Line 1149, the list comprehension: for every row \<open>i\<close> of the neighbour list, the
  entries \<open>j\<close> among its first \<^verbatim>\<open>n_neigh[i]\<close> slots with \<open>i < j\<close>.
\<close>

definition crack_pairs :: "int list list \<Rightarrow> int list \<Rightarrow> error + (int \<times> int) list" where
  "crack_pairs nlist n_neigh =
     for_loop (py_range (int (length nlist)))
       (\<lambda>i pairs.
          bindE (py_index nlist i) (\<lambda>row.
          bindE (py_index n_neigh i) (\<lambda>n_neigh_i.
            Inr (pairs @ map (\<lambda>j. (i, j)) (filter (\<lambda>j. i < j) (py_slice_to row n_neigh_i))))))
       []"

text \<open>
  Lines 1153 to 1156: the crack function is asked about each pair in turn. The state is
  the crack found so far and the list of the calls made, the pair \<open>(i, j)\<close> standing for
  \<^verbatim>\<open>crack_function(coords[i], coords[j])\<close>.
\<close>

definition initial_crack_helper ::
  "(real list \<Rightarrow> real list \<Rightarrow> bool) \<Rightarrow> real list list \<Rightarrow> int list list \<Rightarrow> int list
     \<Rightarrow> error + (int \<times> int) list \<times> (int \<times> int) list" where
  "initial_crack_helper crack_function coords' nlist n_neigh =
     bindE (crack_pairs nlist n_neigh) (\<lambda>pairs.
       for_loop pairs
         (\<lambda>p s. case p of (i, j) \<Rightarrow> case s of (crack, calls) \<Rightarrow>
            bindE (py_index coords' i) (\<lambda>x.
            bindE (py_index coords' j) (\<lambda>y.
              Inr (if crack_function x y then crack @ [(i, j)] else crack,
                   calls @ [(i, j)]))))
         ([], []))"

text \<open>
  The directed bonds of a connectivity, row by row and slot by slot: \<open>(i, nlist[i][k])\<close>
  for \<open>k < n_neigh[i]\<close>. A pair of nodes that are each other's neighbours gives two of
  them; the bonded pairs are the directed bonds \<open>(i, j)\<close> with \<open>i < j\<close>.
\<close>

definition directed_bonds :: "int list list \<Rightarrow> int list \<Rightarrow> (int \<times> int) list" where
  "directed_bonds nlist n_neigh =
     concat (map (\<lambda>i. map (\<lambda>k. (int i, nlist ! i ! k)) [0..<nat (n_neigh ! i)])
               [0..<length nlist])"

definition bonded_pairs :: "int list list \<Rightarrow> int list \<Rightarrow> (int \<times> int) list" where
  "bonded_pairs nlist n_neigh = filter (\<lambda>(i, j). i < j) (directed_bonds nlist n_neigh)"

section \<open>Boundary conditions: \<^verbatim>\<open>Model._set_boundary_conditions\<close>\<close>

text \<open>
  The three boundary functions are supplied by the caller. An argument is either not
  callable or a function from a coordinate to its result; a result is a list with one
  entry per axis, \<open>None\<close> or a number, or it is no list at all.
\<close>

datatype py_result = PyList "real option list" | NotAList

datatype callback = NotCallable | Callable "real list \<Rightarrow> py_result"

text \<open>Lines 790 to 799: the checks on one function, made at the coordinate \<open>[0, 0, 0]\<close>.\<close>

definition check_boundary_function :: "callback \<Rightarrow> error + (real list \<Rightarrow> py_result)" where
  "check_boundary_function function =
     (case function of
        NotCallable \<Rightarrow> Inl TypeError
      | Callable g \<Rightarrow>
          (case g [0, 0, 0] of
             NotAList \<Rightarrow> Inl TypeError
           | PyList xs \<Rightarrow> if length xs \<noteq> 3 then Inl TypeError else Inr g))"

text \<open>Subscripting a result, \<^verbatim>\<open>bnd[j]\<close>.\<close>

definition result_item :: "py_result \<Rightarrow> int \<Rightarrow> error + real option" where
  "result_item r j = (case r of NotAList \<Rightarrow> Inl TypeError | PyList xs \<Rightarrow> py_index xs j)"

text \<open>
  The five arrays the method returns; \<open>bc_tip_types\<close> is its local \<^verbatim>\<open>tip_types\<close>.
\<close>

record bc_arrays =
  bc_types :: "int list list"
  bc_values :: "real list list"
  force_bc_types :: "int list list"
  force_bc_values :: "real list list"
  bc_tip_types :: "int list list"

text \<open>
  Lines 818 to 833, the pass for node \<open>i\<close> and axis \<open>j\<close>; the state is the arrays and
  \<^verbatim>\<open>is_force_node\<close>.
\<close>

definition bc_axis_body ::
  "model \<Rightarrow> int \<Rightarrow> py_result \<Rightarrow> py_result \<Rightarrow> py_result \<Rightarrow> int \<Rightarrow> bc_arrays \<times> int
     \<Rightarrow> error + bc_arrays \<times> int" where
  "bc_axis_body self i bnd forces_bnd tip j s =
     (case s of (st, is_force_node) \<Rightarrow>
        bindE (result_item forces_bnd j) (\<lambda>forces_bnd_j.
        bindE (result_item bnd j) (\<lambda>bnd_j.
        bindE (result_item tip j) (\<lambda>tip_j.
        bindE (case bnd_j of
                 None \<Rightarrow> Inr st
               | Some v \<Rightarrow>
                   bindE (py_setitem2 (bc_types st) i j 1) (\<lambda>a.
                   bindE (py_setitem2 (bc_values st) i j v) (\<lambda>b.
                     Inr (st\<lparr>bc_types := a, bc_values := b\<rparr>)))) (\<lambda>st1.
        bindE (case forces_bnd_j of
                 None \<Rightarrow> Inr (st1, is_force_node)
               | Some f \<Rightarrow>
                   bindE (py_setitem2 (force_bc_types st1) i j 1) (\<lambda>a.
                   bindE (py_index (volume self) i) (\<lambda>volume_i.
                   bindE (py_setitem2 (force_bc_values st1) i j (f / volume_i)) (\<lambda>b.
                     Inr (st1\<lparr>force_bc_types := a, force_bc_values := b\<rparr>, 1))))) (\<lambda>(st2, is_force_node').
        bindE (case tip_j of
                 None \<Rightarrow> Inr st2
               | Some t \<Rightarrow>
                   bindE (py_setitem2 (bc_tip_types st2) i j 1) (\<lambda>a.
                     Inr (st2\<lparr>bc_tip_types := a\<rparr>))) (\<lambda>st3.
          Inr (st3, is_force_node'))))))))"

text \<open>
  Lines 812 to 834, the pass for node \<open>i\<close>; the state is the arrays and
  \<^verbatim>\<open>num_force_bc_nodes\<close>.
\<close>

definition bc_node_body ::
  "model \<Rightarrow> (real list \<Rightarrow> py_result) \<Rightarrow> (real list \<Rightarrow> py_result) \<Rightarrow> (real list \<Rightarrow> py_result)
     \<Rightarrow> int \<Rightarrow> bc_arrays \<times> int \<Rightarrow> error + bc_arrays \<times> int" where
  "bc_node_body self is_displacement_boundary is_forces_boundary is_tip i s =
     (case s of (st, num_force_bc_nodes) \<Rightarrow>
        bindE (py_index (coords self) i) (\<lambda>x.
          let bnd = is_displacement_boundary x;
              forces_bnd = is_forces_boundary x;
              tip = is_tip x
          in
          bindE (for_loop (py_range (int (degrees_freedom self)))
                   (bc_axis_body self i bnd forces_bnd tip) (st, 0)) (\<lambda>(st', is_force_node).
            Inr (st', num_force_bc_nodes + is_force_node))))"

definition set_boundary_conditions ::
  "model \<Rightarrow> callback \<Rightarrow> callback \<Rightarrow> callback \<Rightarrow> error + bc_arrays" where
  "set_boundary_conditions self is_displacement_boundary is_forces_boundary is_tip =
     bindE (check_boundary_function is_displacement_boundary) (\<lambda>disp.
     bindE (check_boundary_function is_forces_boundary) (\<lambda>forces.
     bindE (check_boundary_function is_tip) (\<lambda>tip.
       let zeros_int = replicate (nnodes self) (replicate (degrees_freedom self) 0);
           zeros_real = replicate (nnodes self) (replicate (degrees_freedom self) 0)
       in
       bindE (for_loop (py_range (int (nnodes self))) (bc_node_body self disp forces tip)
                (\<lparr>bc_types = zeros_int, bc_values = zeros_real,
                  force_bc_types = zeros_int, force_bc_values = zeros_real,
                  bc_tip_types = zeros_int\<rparr>, 0)) (\<lambda>(st, num_force_bc_nodes).
         if num_force_bc_nodes \<noteq> 0
         then Inr (st\<lparr>force_bc_values :=
                        map (map (\<lambda>x. x / real_of_int num_force_bc_nodes))
                          (force_bc_values st)\<rparr>)
         else Inr st))))"

text \<open>
  In the words of the specification: a node is force-loaded when its force result has an
  axis that is not \<open>None\<close>, and the count is over all nodes of the model.
\<close>

definition force_loaded :: "py_result \<Rightarrow> bool" where
  "force_loaded r = (case r of NotAList \<Rightarrow> False | PyList xs \<Rightarrow> list_ex (\<lambda>v. v \<noteq> None) xs)"

definition force_loaded_count :: "model \<Rightarrow> (real list \<Rightarrow> py_result) \<Rightarrow> nat" where
  "force_loaded_count self forces =
     length (filter (\<lambda>i. force_loaded (forces (coords self ! i))) [0..<nnodes self])"

text \<open>
  A boundary function is total on a model when it returns a list of three entries at
  \<open>[0, 0, 0]\<close> and at every node.
\<close>

definition three_axes :: "py_result \<Rightarrow> bool" where
  "three_axes r = (case r of NotAList \<Rightarrow> False | PyList xs \<Rightarrow> length xs = 3)"

definition total_on :: "model \<Rightarrow> (real list \<Rightarrow> py_result) \<Rightarrow> bool" where
  "total_on self g \<longleftrightarrow> list_all (\<lambda>x. three_axes (g x)) ([0, 0, 0] # coords self)"

section \<open>The constructor \<^verbatim>\<open>Model.__init__\<close>: its arguments\<close>

text \<open>
  An argument that is \<^verbatim>\<open>None\<close>, a numpy array or something else
  (\<^verbatim>\<open>volume\<close>, \<^verbatim>\<open>family\<close>, \<^verbatim>\<open>material_types\<close>,
  \<^verbatim>\<open>stiffness_corrections\<close>).
\<close>

datatype 'a array_arg = ArgNone | ArgArray 'a | ArgOther

text \<open>
  \<^verbatim>\<open>connectivity\<close>: \<^verbatim>\<open>None\<close>, a tuple of two arrays, a tuple of another length,
  or something else.
\<close>

datatype connectivity_arg =
    ConnNone
  | ConnPair "int list list" "int list"
  | ConnBadTuple
  | ConnOther

text \<open>
  \<^verbatim>\<open>initial_crack\<close>: a list of pairs of nodes, or a function of the coordinates and
  the connectivity that returns such a list. Such a function is either the one that the
  decorator \<^verbatim>\<open>initial_crack_helper\<close> builds from a predicate on two coordinates
  (\<open>CrackHelper\<close>, with the predicate), or a function of the caller's own
  (\<open>CrackFunction\<close>).
\<close>

datatype crack_arg =
    CrackList "(int \<times> int) list"
  | CrackFunction "real list list \<Rightarrow> int list list \<Rightarrow> int list \<Rightarrow> error + (int \<times> int) list"
  | CrackHelper "real list \<Rightarrow> real list \<Rightarrow> bool"

text \<open>
  \<^verbatim>\<open>bond_stiffness\<close> and \<^verbatim>\<open>critical_stretch\<close>: a Python float, a Python list or a
  numpy array, the last two with their content.
\<close>

datatype number_arg = FloatArg real | ListArg ndarray | NdarrayArg ndarray

datatype pytype = TypeFloat | TypeList | TypeNdarray

fun type_of :: "number_arg \<Rightarrow> pytype" where
  "type_of (FloatArg x) = TypeFloat"
| "type_of (ListArg a) = TypeList"
| "type_of (NdarrayArg a) = TypeNdarray"

text \<open>
  Python's \<^verbatim>\<open>a or b\<close> is \<open>a\<close> when \<open>a\<close> is true and \<open>b\<close> otherwise; a class object is
  true.
\<close>

fun truthy_type :: "pytype \<Rightarrow> bool" where
  "truthy_type t = True"

definition py_or :: "pytype \<Rightarrow> pytype \<Rightarrow> pytype" where
  "py_or a b = (if truthy_type a then a else b)"

text \<open>
  \<^verbatim>\<open>np.shape\<close>; an array of rows has the width of its first row, and 0 columns without
  rows. The rows of a \<open>Mat\<close> are taken to have one length, as the rows of an array have;
  a nested Python list with rows of different lengths, for which \<^verbatim>\<open>np.shape\<close>
  raises ValueError, is not among the arguments modelled.
\<close>

fun np_shape :: "ndarray \<Rightarrow> nat list" where
  "np_shape (Scalar x) = []"
| "np_shape (Vec xs) = [length xs]"
| "np_shape (Mat rows) = [length rows, (case rows of [] \<Rightarrow> 0 | r # _ \<Rightarrow> length r)]"

fun content :: "number_arg \<Rightarrow> ndarray" where
  "content (FloatArg x) = Scalar x"
| "content (ListArg a) = a"
| "content (NdarrayArg a) = a"

definition np_shape2 :: "'a list list \<Rightarrow> nat \<times> nat" where
  "np_shape2 a = (length a, (case a of [] \<Rightarrow> 0 | r # _ \<Rightarrow> length r))"

text \<open>
  Lines 252 to 274: the regimes and materials of the damage model. The result is
  \<open>(nregimes, nmaterials, bond_stiffness, critical_stretch)\<close> as stored on the object.
\<close>

definition stiffness_setup ::
  "number_arg \<Rightarrow> number_arg \<Rightarrow> error + int \<times> int \<times> ndarray \<times> ndarray" where
  "stiffness_setup bond_stiffness' critical_stretch' =
     (if type_of bond_stiffness' = py_or TypeList TypeNdarray then
        if np_shape (content bond_stiffness') \<noteq> np_shape (content critical_stretch')
        then Inl ValueError
        else
          bindE (if np_shape (content bond_stiffness') = [1] then Inr (1, 1)
                 else
                   bindE (py_index (np_shape (content bond_stiffness')) 1) (\<lambda>r.
                   bindE (py_index (np_shape (content bond_stiffness')) 0) (\<lambda>m.
                     Inr (int r, int m)))) (\<lambda>(nregimes', nmaterials').
            Inr (nregimes', nmaterials', content bond_stiffness', content critical_stretch'))
      else Inr (1, 1, content bond_stiffness', content critical_stretch'))"

text \<open>
  Lines 1192 to 1197, the message of \<^verbatim>\<open>FamilyError\<close>: the indices at which the family
  array is 0, in increasing order, written in decimal and joined by blanks.
\<close>

definition digit_char :: "nat \<Rightarrow> char" where
  "digit_char d = ''0123456789'' ! d"

fun str_nat :: "nat \<Rightarrow> string" where
  "str_nat n = (if n < 10 then [digit_char n] else str_nat (n div 10) @ [digit_char (n mod 10)])"

declare str_nat.simps [simp del]

fun join_blank :: "string list \<Rightarrow> string" where
  "join_blank [] = []"
| "join_blank [x] = x"
| "join_blank (x # y # ys) = x @ '' '' @ join_blank (y # ys)"

definition np_where_zero :: "int list \<Rightarrow> nat list" where
  "np_where_zero family' = filter (\<lambda>i. family' ! i = 0) [0..<length family']"

definition family_error_message :: "int list \<Rightarrow> string" where
  "family_error_message family' =
     ''The following nodes have no bonds in the initial state, ''
       @ join_blank (map str_nat (np_where_zero family')) @ ''.''"

text \<open>
  The integers of the constructor. \<^verbatim>\<open>np.intc\<close> keeps 32 bits, in two's complement;
  \<^verbatim>\<open>int.bit_length\<close> counts the binary digits of the absolute value;
  \<^verbatim>\<open>family.max()\<close> raises ValueError on an empty array.
\<close>

definition np_intc :: "int \<Rightarrow> int" where
  "np_intc x = (x + 2 ^ 31) mod 2 ^ 32 - 2 ^ 31"

fun bit_length_nat :: "nat \<Rightarrow> nat" where
  "bit_length_nat n = (if n = 0 then 0 else Suc (bit_length_nat (n div 2)))"

declare bit_length_nat.simps [simp del]

definition bit_length :: "int \<Rightarrow> nat" where
  "bit_length x = bit_length_nat (nat \<bar>x\<bar>)"

definition np_max :: "int list \<Rightarrow> error + int" where
  "np_max xs = (case xs of [] \<Rightarrow> Inl ValueError | y # ys \<Rightarrow> Inr (fold max ys y))"

text \<open>Lines 361 to 363: the width of the neighbour list for the OpenCL integrators.\<close>

definition cl_max_neighbours :: "int list \<Rightarrow> error + int" where
  "cl_max_neighbours family' =
     bindE (np_max family') (\<lambda>m. Inr (np_intc (2 ^ bit_length (m - 1))))"

text \<open>
  Lines 378 to 384: the test of a supplied width; \<open>AND\<close> is the bitwise conjunction of
  integers.
\<close>

definition check_power_of_two :: "int \<Rightarrow> error + unit" where
  "check_power_of_two max_neighbours' =
     (let test = max_neighbours' - 1 in
      if and max_neighbours' test \<noteq> 0 then Inl ValueError else Inr ())"

section \<open>Nodal volumes: \<^verbatim>\<open>Model._volume\<close>\<close>

text \<open>
  Coordinates have three components (the mesh points of the data model); a row of
  another length is refused with ValueError here.
\<close>

fun as3 :: "real list \<Rightarrow> error + real \<times> real \<times> real" where
  "as3 [x, y, z] = Inr (x, y, z)"
| "as3 _ = Inl ValueError"

fun sub3 :: "real \<times> real \<times> real \<Rightarrow> real \<times> real \<times> real \<Rightarrow> real \<times> real \<times> real" where
  "sub3 (a1, a2, a3) (b1, b2, b3) = (a1 - b1, a2 - b2, a3 - b3)"

fun cross3 :: "real \<times> real \<times> real \<Rightarrow> real \<times> real \<times> real \<Rightarrow> real \<times> real \<times> real" where
  "cross3 (a1, a2, a3) (b1, b2, b3) = (a2 * b3 - a3 * b2, a3 * b1 - a1 * b3, a1 * b2 - a2 * b1)"

fun dot3 :: "real \<times> real \<times> real \<Rightarrow> real \<times> real \<times> real \<Rightarrow> real" where
  "dot3 (a1, a2, a3) (b1, b2, b3) = a1 * b1 + a2 * b2 + a3 * b3"

fun norm3 :: "real \<times> real \<times> real \<Rightarrow> real" where
  "norm3 (a1, a2, a3) = sqrt (a1 ^ 2 + a2 ^ 2 + a3 ^ 2)"

text \<open>
  \<^verbatim>\<open>self.coords[nodes]\<close>, the rows at a list of indices, and lines 565 to 581, the
  area of a triangle or the volume of a tetrahedron. For another dimensionality the local
  \<^verbatim>\<open>element_volume\<close> is unbound at line 585.
\<close>

fun rows_at :: "'a list \<Rightarrow> int list \<Rightarrow> error + 'a list" where
  "rows_at a [] = Inr []"
| "rows_at a (i # is) = bindE (py_index a i) (\<lambda>x. bindE (rows_at a is) (\<lambda>xs. Inr (x # xs)))"

definition element_volume :: "model \<Rightarrow> int list \<Rightarrow> error + real" where
  "element_volume self nodes =
     (if dimensions self = 2 then
        bindE (rows_at (coords self) nodes) (\<lambda>pts.
          case pts of
            [a, b, c] \<Rightarrow>
              bindE (as3 a) (\<lambda>a. bindE (as3 b) (\<lambda>b. bindE (as3 c) (\<lambda>c.
                let i = sub3 b a; j = sub3 c a in Inr (0.5 * norm3 (cross3 i j)))))
          | _ \<Rightarrow> Inl ValueError)
      else if dimensions self = 3 then
        bindE (rows_at (coords self) nodes) (\<lambda>pts.
          case pts of
            [a, b, c, d] \<Rightarrow>
              bindE (as3 a) (\<lambda>a. bindE (as3 b) (\<lambda>b. bindE (as3 c) (\<lambda>c. bindE (as3 d) (\<lambda>d.
                let i = sub3 a d; j = sub3 b d; k = sub3 c d
                in Inr (\<bar>dot3 i (cross3 j k)\<bar> / 6)))))
          | _ \<Rightarrow> Inl ValueError)
      else Inl UnboundLocalError)"

text \<open>
  Line 585, \<^verbatim>\<open>volume[nodes] += x\<close>: every entry named by \<open>nodes\<close> becomes its value
  before the statement plus \<open>x\<close>.
\<close>

definition add_at :: "real list \<Rightarrow> int list \<Rightarrow> real \<Rightarrow> error + real list" where
  "add_at volume' nodes x =
     for_loop nodes (\<lambda>idx acc. bindE (py_index volume' idx) (\<lambda>v. py_setitem acc idx (v + x)))
       volume'"

definition volume_method ::
  "model \<Rightarrow> int list list \<Rightarrow> bool \<Rightarrow> real option \<Rightarrow> error + real list \<times> real" where
  "volume_method self mesh_connectivity transfinite volume_total' =
     (if transfinite then
        (case volume_total' of
           None \<Rightarrow> Inl TypeError
         | Some vt \<Rightarrow>
             if nnodes self = 0 then Inl ZeroDivisionError
             else Inr (replicate (nnodes self) (vt / real (nnodes self)), vt))
      else
        for_loop mesh_connectivity
          (\<lambda>nodes s. case s of (volume', sum_total_volume) \<Rightarrow>
             bindE (element_volume self nodes) (\<lambda>ev.
               let element_nodes = (if dimensions self = 2 then 3 else 4) in
               bindE (add_at volume' nodes (ev / element_nodes)) (\<lambda>volume''.
                 Inr (volume'', sum_total_volume + ev))))
          (replicate (nnodes self) 0, 0))"

section \<open>The constructor \<^verbatim>\<open>Model.__init__\<close>\<close>

text \<open>
  The module \<^verbatim>\<open>peridynamics.neighbour_list\<close> is an external collaborator; its
  functions are parameters of the model. The two crack functions change the neighbour
  list in place; here they return the changed connectivity.
\<close>

record neighbour_list_module =
  set_family :: "real list list \<Rightarrow> real \<Rightarrow> int list"
  create_neighbour_list_cython :: "real list list \<Rightarrow> real \<Rightarrow> int \<Rightarrow> int list list \<times> int list"
  create_neighbour_list_cl :: "real list list \<Rightarrow> real \<Rightarrow> int \<Rightarrow> int list list \<times> int list"
  create_crack_cython ::
    "(int \<times> int) list \<Rightarrow> int list list \<times> int list \<Rightarrow> int list list \<times> int list"
  create_crack_cl ::
    "(int \<times> int) list \<Rightarrow> int list list \<times> int list \<Rightarrow> int list list \<times> int list"

text \<open>
  The arguments of the constructor. The mesh file is taken as read: its points and its
  cells are arguments. \<open>arg_integrator\<close> is \<open>None\<close> for an object that is no
  \<^verbatim>\<open>Integrator\<close>. Writing arrays to \<^verbatim>\<open>write_path\<close> is output only and left out.
\<close>

record 'g init_args =
  arg_mesh_points :: "real list list"
  arg_mesh_cells :: "int list list"
  arg_integrator :: "'g integrator option"
  arg_horizon :: real
  arg_critical_stretch :: number_arg
  arg_bond_stiffness :: number_arg
  arg_transfinite :: bool
  arg_volume_total :: "real option"
  arg_connectivity :: connectivity_arg
  arg_family :: "int list array_arg"
  arg_volume :: "real list array_arg"
  arg_initial_crack :: crack_arg
  arg_dimensions :: int
  arg_bond_type :: "(real list \<Rightarrow> real list \<Rightarrow> int) option"
  arg_is_displacement_boundary :: "callback option"
  arg_is_forces_boundary :: "callback option"
  arg_is_tip :: "callback option"
  arg_material_types :: "int list list array_arg"
  arg_stiffness_corrections :: "real list list array_arg"
  arg_precise_stiffness_correction :: "int option"

text \<open>
  The invocations of the caller's two functions on pairs of coordinates, in the order
  in which they are made: the pair \<open>(i, j)\<close> stands for a call on the coordinates of the
  nodes \<open>i\<close> and \<open>j\<close>. \<open>bond_type_calls\<close> are the calls of the function bound to
  \<^verbatim>\<open>bond_type\<close>, \<open>crack_calls\<close> those of the predicate given to
  \<^verbatim>\<open>initial_crack_helper\<close>.
\<close>

record call_log =
  bond_type_calls :: "(int \<times> int) list"
  crack_calls :: "(int \<times> int) list"

text \<open>
  What the constructor leaves behind: the attributes that the methods read, and the
  arrays it stores or hands to \<^verbatim>\<open>integrator.build\<close> (an external call, left out).
  \<open>setup_calls\<close> is no attribute of the object: it records the invocations that the
  constructor made.
\<close>

record 'g built_model =
  attributes :: model
  bond_stiffness :: ndarray
  critical_stretch :: ndarray
  sum_total_volume :: "real option"
  initial_connectivity :: "int list list \<times> int list"
  stiffness_corrections :: "real list list"
  material_types :: "int list list"
  boundary_conditions :: bc_arrays
  built_integrator :: "'g integrator"
  setup_calls :: call_log

text \<open>Lines 226 to 246: the integrator and the dimensionality.\<close>

definition check_integrator :: "'g integrator option \<Rightarrow> error + 'g integrator" where
  "check_integrator integrator =
     (case integrator of None \<Rightarrow> Inl InvalidIntegrator | Some g \<Rightarrow> Inr g)"

definition check_dimensions :: "int \<Rightarrow> error + unit" where
  "check_dimensions dimensions' =
     (if dimensions' = 2 then Inr ()
      else if dimensions' = 3 then Inr ()
      else Inl (DimensionalityError dimensions'))"

text \<open>Lines 276 to 297: the volumes, computed or supplied.\<close>

definition volume_setup ::
  "model \<Rightarrow> int list list \<Rightarrow> bool \<Rightarrow> real option \<Rightarrow> real list array_arg
     \<Rightarrow> error + real list \<times> real option" where
  "volume_setup self mesh_connectivity transfinite volume_total' volume' =
     (if transfinite \<and> volume_total' = None then Inl ValueError
      else
        case volume' of
          ArgNone \<Rightarrow>
            bindE (volume_method self mesh_connectivity transfinite volume_total')
              (\<lambda>(v, total). Inr (v, Some total))
        | ArgArray v \<Rightarrow> if length v \<noteq> nnodes self then Inl ValueError else Inr (v, None)
        | ArgOther \<Rightarrow> Inl TypeError)"

text \<open>Lines 301 to 314: the family array, computed or supplied.\<close>

definition family_setup ::
  "neighbour_list_module \<Rightarrow> model \<Rightarrow> real \<Rightarrow> int list array_arg \<Rightarrow> error + int list" where
  "family_setup env self horizon' family' =
     (case family' of
        ArgNone \<Rightarrow> Inr (set_family env (coords self) horizon')
      | ArgArray f \<Rightarrow> if length f \<noteq> nnodes self then Inl ValueError else Inr f
      | ArgOther \<Rightarrow> Inl TypeError)"

text \<open>Lines 315 and 316: a node without neighbours.\<close>

definition family_check :: "int list \<Rightarrow> error + unit" where
  "family_check family' =
     (if list_ex (\<lambda>f. f = 0) family' then Inl (FamilyError (family_error_message family'))
      else Inr ())"

text \<open>
  Lines 353 and 394, \<^verbatim>\<open>np.array(initial_crack, dtype=np.int32)\<close>: the pairs become an
  array of 32-bit integers, and an entry outside their range raises OverflowError (numpy
  2, as for \<open>store_intc\<close>).
\<close>

definition np_array_int32 :: "(int \<times> int) list \<Rightarrow> error + (int \<times> int) list" where
  "np_array_int32 pairs =
     (if list_all (\<lambda>p. fits_intc (fst p) \<and> fits_intc (snd p)) pairs then Inr pairs
      else Inl OverflowError)"

text \<open>
  Lines 348 to 355 and 389 to 396: the initial crack, applied by the crack function of
  the branch. An empty list is false, a function is true. The result is the changed
  connectivity and the calls of the crack predicate that were made.
\<close>

definition crack_setup ::
  "((int \<times> int) list \<Rightarrow> int list list \<times> int list \<Rightarrow> int list list \<times> int list)
     \<Rightarrow> model \<Rightarrow> crack_arg \<Rightarrow> int list list \<times> int list
     \<Rightarrow> error + (int list list \<times> int list) \<times> (int \<times> int) list" where
  "crack_setup create_crack self initial_crack connectivity =
     (case initial_crack of
        CrackList [] \<Rightarrow> Inr (connectivity, [])
      | CrackList pairs \<Rightarrow>
          bindE (np_array_int32 pairs) (\<lambda>a. Inr (create_crack a connectivity, []))
      | CrackFunction f \<Rightarrow>
          bindE (f (coords self) (fst connectivity) (snd connectivity)) (\<lambda>pairs.
          bindE (np_array_int32 pairs) (\<lambda>a. Inr (create_crack a connectivity, [])))
      | CrackHelper crack_function \<Rightarrow>
          bindE (initial_crack_helper crack_function (coords self) (fst connectivity)
                   (snd connectivity)) (\<lambda>(pairs, calls).
          bindE (np_array_int32 pairs) (\<lambda>a. Inr (create_crack a connectivity, calls))))"

text \<open>
  Lines 318 to 346 and 357 to 387: the neighbour list. Without an OpenCL context the
  width is the largest family; with one it is a power of two. The result is
  \<open>(max_neighbours, (nlist, n_neigh))\<close>.
\<close>

definition neighbour_list_setup ::
  "neighbour_list_module \<Rightarrow> model \<Rightarrow> 'g integrator \<Rightarrow> real \<Rightarrow> connectivity_arg
     \<Rightarrow> error + int \<times> int list list \<times> int list" where
  "neighbour_list_setup env self integrator horizon' connectivity =
     (if \<not> context_set integrator then
        (case connectivity of
           ConnNone \<Rightarrow>
             bindE (np_max (family self)) (\<lambda>m.
               let max_neighbours' = np_intc m in
               Inr (max_neighbours',
                    create_neighbour_list_cython env (coords self) horizon' max_neighbours'))
         | ConnPair nlist n_neigh \<Rightarrow>
             let max_neighbours' = np_intc (int (snd (np_shape2 nlist))) in
             bindE (np_max (family self)) (\<lambda>m.
               if max_neighbours' \<noteq> m then Inl ValueError
               else Inr (max_neighbours', (nlist, n_neigh)))
         | ConnBadTuple \<Rightarrow> Inl ValueError
         | ConnOther \<Rightarrow> Inl TypeError)
      else
        (case connectivity of
           ConnNone \<Rightarrow>
             bindE (cl_max_neighbours (family self)) (\<lambda>max_neighbours'.
               Inr (max_neighbours',
                    create_neighbour_list_cl env (coords self) horizon' max_neighbours'))
         | ConnPair nlist n_neigh \<Rightarrow>
             let max_neighbours' = np_intc (int (snd (np_shape2 nlist))) in
             bindE (check_power_of_two max_neighbours') (\<lambda>_.
               Inr (max_neighbours', (nlist, n_neigh)))
         | ConnBadTuple \<Rightarrow> Inl ValueError
         | ConnOther \<Rightarrow> Inl TypeError))"

text \<open>
  Lines 318 to 396: in either branch the neighbour list is followed by the initial crack,
  applied by the crack function of that branch. The result is
  \<open>(max_neighbours, (nlist, n_neigh), calls)\<close>, the connectivity being the one after
  the crack.
\<close>

definition connectivity_setup ::
  "neighbour_list_module \<Rightarrow> model \<Rightarrow> 'g integrator \<Rightarrow> real \<Rightarrow> connectivity_arg \<Rightarrow> crack_arg
     \<Rightarrow> error + int \<times> (int list list \<times> int list) \<times> (int \<times> int) list" where
  "connectivity_setup env self integrator horizon' connectivity initial_crack =
     bindE (neighbour_list_setup env self integrator horizon' connectivity)
       (\<lambda>(max_neighbours', c).
     bindE (if \<not> context_set integrator
            then crack_setup (create_crack_cython env) self initial_crack c
            else crack_setup (create_crack_cl env) self initial_crack c) (\<lambda>(c', calls).
       Inr (max_neighbours', c', calls)))"

text \<open>Lines 401 to 441: the two arrays per bond, computed or supplied.\<close>

definition stiffness_corrections_setup ::
  "model \<Rightarrow> int list list \<times> int list \<Rightarrow> int option \<Rightarrow> real list list array_arg
     \<Rightarrow> error + real list list" where
  "stiffness_corrections_setup self connectivity precise stiffness_corrections' =
     (case stiffness_corrections' of
        ArgNone \<Rightarrow> set_stiffness_corrections self (horizon self) connectivity precise
      | ArgArray a \<Rightarrow>
          if (int (fst (np_shape2 a)), int (snd (np_shape2 a)))
               \<noteq> (int (nnodes self), max_neighbours self)
          then Inl ValueError else Inr a
      | ArgOther \<Rightarrow> Inl TypeError)"

text \<open>
  Lines 421 to 441: a \<^verbatim>\<open>bond_type\<close> left out is the function that is 0 everywhere;
  a supplied array of material types is stored as it is, and no function is called.
\<close>

definition default_bond_type ::
  "(real list \<Rightarrow> real list \<Rightarrow> int) option \<Rightarrow> real list \<Rightarrow> real list \<Rightarrow> int" where
  "default_bond_type bond_type = (case bond_type of None \<Rightarrow> (\<lambda>x y. 0) | Some f \<Rightarrow> f)"

definition material_types_setup ::
  "model \<Rightarrow> int list list \<times> int list \<Rightarrow> (real list \<Rightarrow> real list \<Rightarrow> int) option
     \<Rightarrow> int list list array_arg \<Rightarrow> error + int list list \<times> (int \<times> int) list" where
  "material_types_setup self connectivity bond_type material_types' =
     (let bond_type' = default_bond_type bond_type in
      case material_types' of
        ArgNone \<Rightarrow> set_material_types self connectivity bond_type'
      | ArgArray a \<Rightarrow>
          if (int (fst (np_shape2 a)), int (snd (np_shape2 a)))
               \<noteq> (int (nnodes self), max_neighbours self)
          then Inl ValueError else Inr (a, [])
      | ArgOther \<Rightarrow> Inl TypeError)"

text \<open>Lines 444 to 466: a boundary function left out is the function without conditions.\<close>

definition default_boundary :: "callback option \<Rightarrow> callback" where
  "default_boundary f =
     (case f of None \<Rightarrow> Callable (\<lambda>x. PyList [None, None, None]) | Some g \<Rightarrow> g)"

text \<open>
  The constructor, in three parts. Attributes not yet assigned when a method is called
  hold a placeholder here (\<open>0\<close> or the empty list); no method reads them before they
  are set. Lines 226 to 314, up to the family array: the result is the integrator, the
  object so far, the two arrays of the damage model and the total volume.
\<close>

definition init_arguments ::
  "neighbour_list_module \<Rightarrow> 'g init_args
     \<Rightarrow> error + 'g integrator \<times> model \<times> ndarray \<times> ndarray \<times> real option" where
  "init_arguments env args =
     bindE (check_integrator (arg_integrator args)) (\<lambda>integrator.
     bindE (check_dimensions (arg_dimensions args)) (\<lambda>_.
     bindE (stiffness_setup (arg_bond_stiffness args) (arg_critical_stretch args))
       (\<lambda>(nregimes', nmaterials', bond_stiffness', critical_stretch').
     let self0 = \<lparr>dimensions = arg_dimensions args, coords = arg_mesh_points args,
                   nnodes = length (arg_mesh_points args), horizon = arg_horizon args,
                   nregimes = nregimes', nmaterials = nmaterials', volume = [],
                   family = [], max_neighbours = 0, degrees_freedom = 3, tip_types = [],
                   volume_total = None\<rparr>
     in
     bindE (volume_setup self0 (arg_mesh_cells args) (arg_transfinite args)
              (arg_volume_total args) (arg_volume args)) (\<lambda>(volume', sum_total_volume').
     let self1 = self0\<lparr>volume := volume'\<rparr> in
     bindE (family_setup env self1 (arg_horizon args) (arg_family args)) (\<lambda>family'.
       Inr (integrator, self1\<lparr>family := family'\<rparr>, bond_stiffness', critical_stretch',
            sum_total_volume'))))))"

text \<open>Lines 318 to 473, all that follows the family check.\<close>

definition init_setup ::
  "neighbour_list_module \<Rightarrow> 'g init_args
     \<Rightarrow> 'g integrator \<times> model \<times> ndarray \<times> ndarray \<times> real option
     \<Rightarrow> error + 'g built_model" where
  "init_setup env args p =
     (case p of (integrator, self2, bond_stiffness', critical_stretch', sum_total_volume') \<Rightarrow>
     bindE (connectivity_setup env self2 integrator (arg_horizon args)
              (arg_connectivity args) (arg_initial_crack args))
       (\<lambda>(max_neighbours', connectivity, crack_calls').
     let self3 = self2\<lparr>max_neighbours := max_neighbours'\<rparr> in
     bindE (stiffness_corrections_setup self3 connectivity
              (arg_precise_stiffness_correction args) (arg_stiffness_corrections args))
       (\<lambda>stiffness_corrections'.
     bindE (material_types_setup self3 connectivity (arg_bond_type args)
              (arg_material_types args)) (\<lambda>(material_types', bond_type_calls').
     bindE (set_boundary_conditions self3
              (default_boundary (arg_is_displacement_boundary args))
              (default_boundary (arg_is_forces_boundary args))
              (default_boundary (arg_is_tip args))) (\<lambda>bc.
       Inr \<lparr>attributes = self3\<lparr>tip_types := bc_tip_types bc\<rparr>,
            bond_stiffness = bond_stiffness', critical_stretch = critical_stretch',
            sum_total_volume = sum_total_volume',
            initial_connectivity = connectivity,
            stiffness_corrections = stiffness_corrections',
            material_types = material_types',
            boundary_conditions = bc,
            built_integrator = integrator,
            setup_calls = \<lparr>bond_type_calls = bond_type_calls',
                           crack_calls = crack_calls'\<rparr>\<rparr>)))))"

text \<open>The whole constructor, with the family check of lines 315 and 316 in between.\<close>

definition init :: "neighbour_list_module \<Rightarrow> 'g init_args \<Rightarrow> error + 'g built_model" where
  "init env args =
     bindE (init_arguments env args) (\<lambda>p.
     bindE (family_check (family (fst (snd p)))) (\<lambda>_.
       init_setup env args p))"

section \<open>The simulation driver: \<^verbatim>\<open>Model.simulate\<close>\<close>

datatype warning = Over5Percent | Over7Percent

text \<open>
  The running state of \<^verbatim>\<open>simulate\<close>: the integrator's state, the arrays last
  written, the four lists of recorded data and the warnings emitted so far. A recorded
  value is \<open>None\<close> for Python's \<^verbatim>\<open>None\<close> and \<open>Some x\<close> for a number.
  \<open>callback_calls\<close> is the log of the invocations of the caller's two functions made
  up to this point of the program; a run starts with the log that the constructor left.
\<close>

record 'g sim_state =
  integ :: 'g
  current :: snapshot
  damage_sum_data :: "real list"
  tip_displacement_data :: "real option list"
  tip_velocity_data :: "real option list"
  tip_force_data :: "real option list"
  warnings :: "warning list"
  callback_calls :: call_log

text \<open>
  Lines 940 to 956. The accumulator is \<open>(tmp, tip_displacement, tip_velocity, tip_force)\<close>;
  the arrays are read only where \<^verbatim>\<open>tip_types[i][j] == 1\<close>.
\<close>

definition tip_body ::
  "model \<Rightarrow> snapshot \<Rightarrow> int \<Rightarrow> int \<Rightarrow> int \<times> real \<times> real \<times> real
     \<Rightarrow> error + int \<times> real \<times> real \<times> real" where
  "tip_body self sn i j acc =
     (case acc of (tmp, tip_displacement, tip_velocity, tip_force) \<Rightarrow>
        bindE (py_index2 (tip_types self) i j) (\<lambda>t.
          if t = 1 then
            bindE (py_index2 (snap_u sn) i j) (\<lambda>u_ij.
            bindE (py_index2 (snap_ud sn) i j) (\<lambda>ud_ij.
            bindE (py_index2 (snap_force sn) i j) (\<lambda>force_ij.
              Inr (tmp + 1, tip_displacement + u_ij, tip_velocity + ud_ij,
                   tip_force + force_ij))))
          else Inr acc))"

definition tip_measure ::
  "model \<Rightarrow> snapshot \<Rightarrow> error + real option \<times> real option \<times> real option" where
  "tip_measure self sn =
     bindE (for_loop (py_range (int (nnodes self)))
              (\<lambda>i. for_loop (py_range (int (degrees_freedom self))) (tip_body self sn i))
              (0, 0, 0, 0))
       (\<lambda>(tmp, tip_displacement, tip_velocity, tip_force).
          if tmp \<noteq> 0
          then Inr (Some (tip_displacement / real_of_int tmp),
                    Some (tip_velocity / real_of_int tmp), Some tip_force)
          else Inr (None, None, Some tip_force))"

text \<open>Lines 963 to 968: the two damage warnings, an \<^verbatim>\<open>if\<close> and its \<^verbatim>\<open>elif\<close>.\<close>

definition damage_warning :: "model \<Rightarrow> real \<Rightarrow> warning option" where
  "damage_warning self damage_sum =
     (if damage_sum > 0.05 * real (nnodes self) then Some Over5Percent
      else if damage_sum > 0.7 * real (nnodes self) then Some Over7Percent
      else None)"

text \<open>
  Lines 930 to 968, a write step: fetch the arrays from the integrator, measure the tip,
  record the data and warn. Writing the mesh file (line 938) is output only and is left
  out. \<^verbatim>\<open>warnings.warn\<close> adds to the log and returns.
\<close>

definition write_step :: "model \<Rightarrow> 'g integrator \<Rightarrow> 'g sim_state \<Rightarrow> error + 'g sim_state" where
  "write_step self integrator s =
     (let sn = write_out integrator (integ s) in
      bindE (tip_measure self sn) (\<lambda>(tip_displacement, tip_velocity, tip_force).
        let damage_sum = sum_list (snap_damage sn) in
        Inr (s\<lparr>current := sn,
                tip_displacement_data := tip_displacement_data s @ [tip_displacement],
                tip_velocity_data := tip_velocity_data s @ [tip_velocity],
                tip_force_data := tip_force_data s @ [tip_force],
                damage_sum_data := damage_sum_data s @ [damage_sum],
                warnings := warnings s @
                  (case damage_warning self damage_sum of None \<Rightarrow> [] | Some w \<Rightarrow> [w])\<rparr>)))"

text \<open>
  Lines 920 to 968, one pass of the time loop. \<^verbatim>\<open>write\<close> is \<open>None\<close> or an integer;
  \<^verbatim>\<open>if write\<close> is false for \<open>None\<close> and for 0.
\<close>

definition simulate_body ::
  "model \<Rightarrow> 'g integrator \<Rightarrow> real list \<Rightarrow> real list \<Rightarrow> int option \<Rightarrow> int
     \<Rightarrow> 'g sim_state \<Rightarrow> error + 'g sim_state" where
  "simulate_body self integrator displacement_bc_magnitudes force_bc_magnitudes write step s =
     bindE (py_index displacement_bc_magnitudes (step - 1)) (\<lambda>d.
     bindE (py_index force_bc_magnitudes (step - 1)) (\<lambda>f.
       let s1 = s\<lparr>integ := call integrator d f (integ s)\<rparr> in
       case write of
         None \<Rightarrow> Inr s1
       | Some w \<Rightarrow>
           if w \<noteq> 0 \<and> step mod w = 0 then write_step self integrator s1 else Inr s1))"

text \<open>
  The loop of \<^verbatim>\<open>simulate\<close> over \<^verbatim>\<open>range(first_step, first_step + steps)\<close>, from
  the state that \<^verbatim>\<open>_simulate_initialise\<close> prepared.
\<close>

definition simulate ::
  "model \<Rightarrow> 'g integrator \<Rightarrow> int \<Rightarrow> real list \<Rightarrow> real list \<Rightarrow> int \<Rightarrow> int option
     \<Rightarrow> 'g sim_state \<Rightarrow> error + 'g sim_state" where
  "simulate self integrator steps displacement_bc_magnitudes force_bc_magnitudes
     first_step write s0 =
     for_loop (map (\<lambda>k. first_step + k) (py_range steps))
       (simulate_body self integrator displacement_bc_magnitudes force_bc_magnitudes write) s0"

text \<open>
  Auxiliary notions for the proofs: an array of \<open>n\<close> rows and \<open>m\<close> columns, the five
  arrays having that shape, and the entries of a result.
\<close>

definition has_shape :: "nat \<Rightarrow> nat \<Rightarrow> 'a list list \<Rightarrow> bool" where
  "has_shape n m a \<longleftrightarrow> length a = n \<and> list_all (\<lambda>row. length row = m) a"

definition bc_shapes :: "nat \<Rightarrow> nat \<Rightarrow> bc_arrays \<Rightarrow> bool" where
  "bc_shapes n m st \<longleftrightarrow>
     has_shape n m (bc_types st) \<and> has_shape n m (bc_values st) \<and>
     has_shape n m (force_bc_types st) \<and> has_shape n m (force_bc_values st) \<and>
     has_shape n m (bc_tip_types st)"

definition axes :: "py_result \<Rightarrow> real option list" where
  "axes r = (case r of NotAList \<Rightarrow> [] | PyList xs \<Rightarrow> xs)"

text \<open>
  For the proofs: every neighbour count lies within its row of the neighbour list.
\<close>

definition counts_in_rows :: "int list list \<Rightarrow> int list \<Rightarrow> bool" where
  "counts_in_rows nlist n_neigh \<longleftrightarrow>
     list_all (\<lambda>i. 0 \<le> n_neigh ! i \<and> n_neigh ! i \<le> int (length (nlist ! i)))
       [0..<length nlist]"

text \<open>For the proofs: from one state of the run to a later one, only the first warning was added.\<close>

definition only_first_warning :: "'g sim_state \<Rightarrow> 'g sim_state \<Rightarrow> bool" where
  "only_first_warning s s' \<longleftrightarrow>
     (\<exists>ws. warnings s' = warnings s @ ws \<and> list_all (\<lambda>w. w = Over5Percent) ws)"

section \<open>Example inputs\<close>

definition example_model :: model where
  "example_model =
     \<lparr>dimensions = 2, coords = [[0, 0, 0], [1, 0, 0]], nnodes = 2, horizon = 1,
      nregimes = 1, nmaterials = 1, volume = [1, 1], family = [1, 1], max_neighbours = 1,
      degrees_freedom = 3, tip_types = [[0, 0, 0], [0, 0, 0]], volume_total = None\<rparr>"

definition example_nlist :: "int list list" where
  "example_nlist = [[1], [0]]"

definition example_n_neigh :: "int list" where
  "example_n_neigh = [1, 1]"

definition example_snapshot :: snapshot where
  "example_snapshot =
     \<lparr>snap_u = [[1, 0, 0], [2, 0, 0]], snap_ud = [[3, 0, 0], [4, 0, 0]],
      snap_force = [[5, 0, 0], [6, 0, 0]], snap_damage = [1, 1],
      snap_nlist = [[1], [0]], snap_n_neigh = [1, 1]\<rparr>"

definition example_integrator :: "nat integrator" where
  "example_integrator =
     \<lparr>context_set = True, call = (\<lambda>d f g. Suc g), write_out = (\<lambda>g. example_snapshot)\<rparr>"

text \<open>
  A state at the start of a run on the two nodes; its log of invocations is the one that
  the construction of the third example below leaves.
\<close>

definition example_state :: "nat sim_state" where
  "example_state =
     \<lparr>integ = 0, current = example_snapshot, damage_sum_data = [],
      tip_displacement_data = [], tip_velocity_data = [], tip_force_data = [],
      warnings = [],
      callback_calls = \<lparr>bond_type_calls = [(0, 1), (1, 0)], crack_calls = [(0, 1)]\<rparr>\<rparr>"

text \<open>
  A bar of three nodes; the two nodes at \<open>x \<ge> 1\<close> are loaded along the first axis with
  magnitude 1.
\<close>

definition example_bar :: model where
  "example_bar =
     \<lparr>dimensions = 3, coords = [[0, 0, 0], [1, 0, 0], [2, 0, 0]], nnodes = 3, horizon = 1,
      nregimes = 1, nmaterials = 1, volume = [2, 2, 4], family = [1, 2, 1],
      max_neighbours = 2, degrees_freedom = 3,
      tip_types = [[0, 0, 0], [0, 0, 0], [0, 0, 0]], volume_total = None\<rparr>"

definition example_unconstrained :: "real list \<Rightarrow> py_result" where
  "example_unconstrained x = PyList [None, None, None]"

definition example_forces :: "real list \<Rightarrow> py_result" where
  "example_forces x = (if 1 \<le> hd x then PyList [Some 1, None, None]
                       else PyList [None, None, None])"

text \<open>
  A neighbour-list module for the examples: the family of a node is counted by
  distances, the neighbour lists are filled with zeros and the crack functions change
  nothing. The first example mesh has a node out of reach of the others; its remaining
  arguments are ones that later setup would refuse. The second example supplies a
  neighbour list without columns, together with the arrays per bond. The third example
  is a construction that computes the arrays per bond: two nodes of volume 1 at distance
  1 that are each other's only neighbour, horizon 1, 2 dimensions, precise stiffness
  corrections, a bond type that is 0 everywhere and, through
  \<^verbatim>\<open>initial_crack_helper\<close>, a crack predicate that is false everywhere (no crack).
\<close>

definition example_env :: neighbour_list_module where
  "example_env =
     \<lparr>set_family = (\<lambda>cs h. map (\<lambda>x. int (length (filter (\<lambda>y. y \<noteq> x \<and>
          (hd x - hd y) ^ 2 + (x ! 1 - y ! 1) ^ 2 + (x ! 2 - y ! 2) ^ 2 \<le> h ^ 2) cs))) cs),
      create_neighbour_list_cython =
        (\<lambda>cs h m. (replicate (length cs) (replicate (nat m) 0), replicate (length cs) 0)),
      create_neighbour_list_cl =
        (\<lambda>cs h m. (replicate (length cs) (replicate (nat m) 0), replicate (length cs) 0)),
      create_crack_cython = (\<lambda>pairs c. c),
      create_crack_cl = (\<lambda>pairs c. c)\<rparr>"

definition example_args :: "nat init_args" where
  "example_args =
     \<lparr>arg_mesh_points = [[0, 0, 0], [1, 0, 0], [5, 0, 0]], arg_mesh_cells = [],
      arg_integrator = Some example_integrator, arg_horizon = 3 / 2,
      arg_critical_stretch = FloatArg 1, arg_bond_stiffness = FloatArg 1,
      arg_transfinite = False, arg_volume_total = None,
      arg_connectivity = ConnOther, arg_family = ArgNone, arg_volume = ArgArray [1, 1, 1],
      arg_initial_crack = CrackList [], arg_dimensions = 2, arg_bond_type = None,
      arg_is_displacement_boundary = Some NotCallable, arg_is_forces_boundary = None,
      arg_is_tip = None, arg_material_types = ArgOther, arg_stiffness_corrections = ArgOther,
      arg_precise_stiffness_correction = None\<rparr>"

definition example_args_no_columns :: "nat init_args" where
  "example_args_no_columns =
     \<lparr>arg_mesh_points = [[0, 0, 0], [1, 0, 0]], arg_mesh_cells = [],
      arg_integrator = Some example_integrator, arg_horizon = 3 / 2,
      arg_critical_stretch = FloatArg 1, arg_bond_stiffness = FloatArg 1,
      arg_transfinite = False, arg_volume_total = None,
      arg_connectivity = ConnPair [[], []] [0, 0], arg_family = ArgArray [1, 1],
      arg_volume = ArgArray [1, 1],
      arg_initial_crack = CrackList [], arg_dimensions = 2, arg_bond_type = None,
      arg_is_displacement_boundary = None, arg_is_forces_boundary = None,
      arg_is_tip = None, arg_material_types = ArgArray [[], []],
      arg_stiffness_corrections = ArgArray [[], []],
      arg_precise_stiffness_correction = None\<rparr>"

definition example_args_pair :: "nat init_args" where
  "example_args_pair =
     \<lparr>arg_mesh_points = [[0, 0, 0], [1, 0, 0]], arg_mesh_cells = [],
      arg_integrator = Some example_integrator, arg_horizon = 1,
      arg_critical_stretch = FloatArg 1, arg_bond_stiffness = FloatArg 1,
      arg_transfinite = False, arg_volume_total = None,
      arg_connectivity = ConnPair example_nlist example_n_neigh,
      arg_family = ArgArray [1, 1], arg_volume = ArgArray [1, 1],
      arg_initial_crack = CrackHelper (\<lambda>x y. False), arg_dimensions = 2,
      arg_bond_type = Some (\<lambda>x y. 0),
      arg_is_displacement_boundary = None, arg_is_forces_boundary = None,
      arg_is_tip = None, arg_material_types = ArgNone,
      arg_stiffness_corrections = ArgNone,
      arg_precise_stiffness_correction = Some 1\<rparr>"

section \<open>Properties of \<^verbatim>\<open>_set_plus_cs\<close>\<close>

lemma bindE_simps [simp]:
  "bindE (Inl e) f = Inl e"
  "bindE (Inr x) f = f x"
  by (simp_all add: bindE_def)

lemma bindE_eq_Inr:
  "bindE m f = Inr y \<longleftrightarrow> (\<exists>x. m = Inr x \<and> f x = Inr y)"
  by (cases m) simp_all

lemma upt_0_Suc_map: "[0..<Suc m] = 0 # map Suc [0..<m]"
  by (simp only: map_Suc_upt upt_conv_Cons [of 0 "Suc m", OF zero_less_Suc])

lemma py_range_simps:
  "n \<le> 0 \<Longrightarrow> py_range n = []"
  "0 < n \<Longrightarrow> py_range n = 0 # map (\<lambda>k. k + 1) (py_range (n - 1))"
proof -
  assume "n \<le> 0"
  then show "py_range n = []" by (simp add: py_range_def)
next
  assume "0 < n"
  then obtain m where m: "nat n = Suc m" by (cases "nat n") auto
  then have m': "nat (n - 1) = m" by simp
  have "map int [0..<Suc m] = 0 # map (\<lambda>k. k + 1) (map int [0..<m])"
    by (simp only: upt_0_Suc_map list.map map_map o_def of_nat_0 of_nat_Suc add.commute)
  then show "py_range n = 0 # map (\<lambda>k. k + 1) (py_range (n - 1))"
    by (simp only: py_range_def m m')
qed

lemma plus_cs_body_raises: "plus_cs_body k s i st \<noteq> Inr st'"
  by (cases st) (simp add: plus_cs_body_def bindE_def split: sum.splits)

text \<open>With one regime the function returns the single intercept 0.\<close>

lemma set_plus_cs_single_regime: "set_plus_cs k s 1 m = Inr [0]"
  by (simp add: set_plus_cs_def)

text \<open>It returns in no other case: two or more regimes always end in an exception.\<close>

lemma set_plus_cs_returns_only_single_regime:
  assumes "set_plus_cs k s n m = Inr r"
  shows "n = 1 \<and> r = [0]"
proof (cases "n = 1")
  case True
  with assms show ?thesis by (simp add: set_plus_cs_def)
next
  case False
  show ?thesis
  proof (cases "n \<le> 1")
    case True
    with False have "py_range (n - 1) = []" by (simp add: py_range_simps)
    with assms False True show ?thesis
      by (simp add: set_plus_cs_def split: if_splits)
  next
    case gt: False
    then have "py_range (n - 1) = 0 # map (\<lambda>k. k + 1) (py_range (n - 1 - 1))"
      by (simp add: py_range_simps)
    moreover obtain e where "plus_cs_body k s 0 (Scalar 0, [Scalar 0]) = Inl e"
      using plus_cs_body_raises [of k s 0 "(Scalar 0, [Scalar 0])"]
      by (cases "plus_cs_body k s 0 (Scalar 0, [Scalar 0])") auto
    ultimately have "for_loop (py_range (n - 1)) (plus_cs_body k s) (Scalar 0, [Scalar 0]) = Inl e"
      by simp
    with assms False show ?thesis by (simp add: set_plus_cs_def)
  qed
qed

text \<open>
  Claim C2. The claim says that for every number of regimes the function returns that
  many intercepts, the first one 0 and each later one making its segment meet the
  previous segment at the breakpoint. With two regimes, one material with stiffnesses
  1 and 2 and critical stretches 1 and 2 (the two-dimensional arrays that
  \<^verbatim>\<open>Model.__init__\<close> accepts for two regimes), the code returns nothing: it raises
  TypeError at line 741.
\<close>

theorem set_plus_cs_two_regimes_raises:
  "set_plus_cs (Mat [[1, 2]]) (Mat [[1, 2]]) 2 1 = Inl TypeError"
  by (simp add: set_plus_cs_def py_range_simps plus_cs_body_def py_index_def)

section \<open>Properties of the write step\<close>

lemma for_loop_stationary:
  "(\<And>x. x \<in> set xs \<Longrightarrow> body x s = Inr s) \<Longrightarrow> for_loop xs body s = Inr s"
  by (induction xs) simp_all

lemma set_py_range: "set (py_range n) = {0..<n}"
proof (rule set_eqI)
  fix x
  show "x \<in> set (py_range n) \<longleftrightarrow> x \<in> {0..<n}"
  proof
    assume "x \<in> set (py_range n)"
    then obtain k where "k < nat n" "x = int k" by (auto simp: py_range_def)
    then show "x \<in> {0..<n}" by simp
  next
    assume "x \<in> {0..<n}"
    then have "nat x < nat n" "x = int (nat x)" by simp_all
    then show "x \<in> set (py_range n)" unfolding py_range_def set_map set_upt
      by (intro image_eqI [of x int "nat x"]) simp_all
  qed
qed

lemma py_index_in_range:
  "0 \<le> i \<Longrightarrow> i < int (length xs) \<Longrightarrow> py_index xs i = Inr (xs ! nat i)"
  by (simp add: py_index_def)

lemma tip_body_skip:
  assumes "0 \<le> i" "i < int (length (tip_types self))"
    and "0 \<le> j" "j < int (length (tip_types self ! nat i))"
    and "tip_types self ! nat i ! nat j \<noteq> 1"
  shows "tip_body self sn i j acc = Inr acc"
  using assms by (cases acc) (simp add: tip_body_def py_index2_def py_index_in_range)

lemma tip_measure_no_tip:
  assumes shape: "length (tip_types self) = nnodes self"
      "list_all (\<lambda>row. length row = degrees_freedom self) (tip_types self)"
    and none: "list_all (list_all (\<lambda>t. t \<noteq> 1)) (tip_types self)"
  shows "tip_measure self sn = Inr (None, None, Some 0)"
proof -
  have inner: "for_loop (py_range (int (degrees_freedom self))) (tip_body self sn i) acc = Inr acc"
    if "i \<in> set (py_range (int (nnodes self)))" for i acc
  proof (rule for_loop_stationary)
    fix j assume j: "j \<in> set (py_range (int (degrees_freedom self)))"
    from that shape have i: "0 \<le> i" "i < int (length (tip_types self))"
      by (simp_all add: set_py_range)
    then have row: "tip_types self ! nat i \<in> set (tip_types self)" by simp
    with shape none have len: "length (tip_types self ! nat i) = degrees_freedom self"
      and ne: "list_all (\<lambda>t. t \<noteq> 1) (tip_types self ! nat i)"
      by (simp_all add: list_all_iff)
    from j len have jr: "0 \<le> j" "j < int (length (tip_types self ! nat i))"
      by (simp_all add: set_py_range)
    then have "tip_types self ! nat i ! nat j \<in> set (tip_types self ! nat i)" by simp
    with ne have "tip_types self ! nat i ! nat j \<noteq> 1" by (simp add: list_all_iff)
    with i jr show "tip_body self sn i j acc = Inr acc" by (rule tip_body_skip)
  qed
  have "for_loop (py_range (int (nnodes self)))
          (\<lambda>i. for_loop (py_range (int (degrees_freedom self))) (tip_body self sn i))
          (0, 0, 0, 0) = Inr (0, 0, 0, 0)"
    by (rule for_loop_stationary) (rule inner)
  then show ?thesis by (simp add: tip_measure_def)
qed

lemma damage_warning_cases:
  "damage_warning self damage_sum = None \<or> damage_warning self damage_sum = Some Over5Percent"
  by (simp add: damage_warning_def)

lemma damage_warning_over:
  "0 < nnodes self \<Longrightarrow> 0.7 * real (nnodes self) < damage_sum \<Longrightarrow>
     damage_warning self damage_sum = Some Over5Percent"
  by (simp add: damage_warning_def)

lemma for_loop_relation:
  assumes step: "\<And>x s s'. body x s = Inr s' \<Longrightarrow> R s s'"
    and refl: "\<And>s. R s s"
    and trans: "\<And>s s' s''. R s s' \<Longrightarrow> R s' s'' \<Longrightarrow> R s s''"
  shows "for_loop xs body s = Inr s' \<Longrightarrow> R s s'"
proof (induction xs arbitrary: s)
  case Nil
  then show ?case using refl by simp
next
  case (Cons x xs)
  then obtain s1 where s1: "body x s = Inr s1" "for_loop xs body s1 = Inr s'"
    by (cases "body x s") simp_all
  from step [OF s1(1)] Cons.IH [OF s1(2)] show ?case by (rule trans)
qed

lemma write_step_only_first_warning:
  assumes "write_step self integrator s = Inr s'"
  shows "only_first_warning s s'"
proof -
  let ?ds = "sum_list (snap_damage (write_out integrator (integ s)))"
  from assms obtain t where t: "tip_measure self (write_out integrator (integ s)) = Inr t"
    by (auto simp: write_step_def Let_def bindE_eq_Inr)
  obtain a b c where abc: "t = (a, b, c)" by (cases t)
  from damage_warning_cases [of self ?ds] assms t abc show ?thesis
    by (auto simp: write_step_def Let_def only_first_warning_def)
qed

lemma simulate_body_only_first_warning:
  assumes "simulate_body self integrator dbm fbm w step s = Inr s'"
  shows "only_first_warning s s'"
proof -
  from assms obtain d f where
    r: "(case w of None \<Rightarrow> Inr (s\<lparr>integ := call integrator d f (integ s)\<rparr>)
         | Some w \<Rightarrow> if w \<noteq> 0 \<and> step mod w = 0
             then write_step self integrator (s\<lparr>integ := call integrator d f (integ s)\<rparr>)
             else Inr (s\<lparr>integ := call integrator d f (integ s)\<rparr>)) = Inr s'"
    by (auto simp: simulate_body_def Let_def bindE_eq_Inr)
  let ?s1 = "s\<lparr>integ := call integrator d f (integ s)\<rparr>"
  have "s' = ?s1 \<or> write_step self integrator ?s1 = Inr s'"
    using r by (auto split: option.splits if_splits)
  then show ?thesis
  proof
    assume "s' = ?s1"
    then show ?thesis by (simp add: only_first_warning_def)
  next
    assume "write_step self integrator ?s1 = Inr s'"
    from write_step_only_first_warning [OF this] show ?thesis
      by (simp add: only_first_warning_def)
  qed
qed

lemma simulate_only_first_warning:
  assumes "simulate self integrator steps dbm fbm first_step w s0 = Inr s'"
  shows "\<exists>ws. warnings s' = warnings s0 @ ws \<and> list_all (\<lambda>w. w = Over5Percent) ws"
proof -
  have "only_first_warning s0 s'"
  proof (rule for_loop_relation [where R = only_first_warning, OF _ _ _ assms [unfolded simulate_def]])
    show "\<And>x s s'. simulate_body self integrator dbm fbm w x s = Inr s' \<Longrightarrow> only_first_warning s s'"
      by (rule simulate_body_only_first_warning)
    show "\<And>s. only_first_warning s (s :: 'a sim_state)" by (simp add: only_first_warning_def)
    show "\<And>s s' s''. only_first_warning s s' \<Longrightarrow> only_first_warning s' s'' \<Longrightarrow> only_first_warning s (s'' :: 'a sim_state)"
      by (auto simp: only_first_warning_def)
  qed
  then show ?thesis by (simp add: only_first_warning_def)
qed

text \<open>
  Claim C7, as amended. At a write step where no entry of \<^verbatim>\<open>tip_types\<close> is 1 (the
  array has its shape \<open>(nnodes, degrees_freedom)\<close>), the tip-averaged displacement and the
  tip-averaged velocity are recorded as \<^verbatim>\<open>None\<close>, and the tip-summed force is recorded
  as the number 0: the \<^verbatim>\<open>else\<close> branch at lines 954 to 956 resets the two averages
  only, the sum stays at its initial value.
\<close>

theorem write_step_no_tip:
  assumes "length (tip_types self) = nnodes self"
    and "list_all (\<lambda>row. length row = degrees_freedom self) (tip_types self)"
    and "list_all (list_all (\<lambda>t. t \<noteq> 1)) (tip_types self)"
  shows "\<exists>s'. write_step self integrator s = Inr s' \<and>
           tip_displacement_data s' = tip_displacement_data s @ [None] \<and>
           tip_velocity_data s' = tip_velocity_data s @ [None] \<and>
           tip_force_data s' = tip_force_data s @ [Some 0]"
  using tip_measure_no_tip [OF assms] by (simp add: write_step_def Let_def)

theorem write_step_no_tip_witness:
  "length (tip_types example_model) = nnodes example_model \<and>
   list_all (\<lambda>row. length row = degrees_freedom example_model) (tip_types example_model) \<and>
   list_all (list_all (\<lambda>t. t \<noteq> 1)) (tip_types example_model) \<and>
   (\<exists>s'. write_step example_model example_integrator example_state = Inr s' \<and>
      tip_displacement_data s' = [None] \<and> tip_velocity_data s' = [None] \<and>
      tip_force_data s' = [Some 0])"
proof -
  have h: "length (tip_types example_model) = nnodes example_model"
      "list_all (\<lambda>row. length row = degrees_freedom example_model) (tip_types example_model)"
      "list_all (list_all (\<lambda>t. t \<noteq> 1)) (tip_types example_model)"
    by (simp_all add: example_model_def)
  from write_step_no_tip [OF h, of example_integrator example_state] h
  show ?thesis by (simp add: example_state_def)
qed

text \<open>
  Claim C7 as stated fails: with two nodes and no tip entry, the force recorded at the
  write step is the number 0, not \<^verbatim>\<open>None\<close>.
\<close>

theorem tip_force_reported_as_zero:
  "bindE (write_step example_model example_integrator example_state)
     (\<lambda>s'. Inr (tip_displacement_data s', tip_velocity_data s', tip_force_data s'))
   = Inr ([None], [None], [Some 0]) \<and>
   bindE (write_step example_model example_integrator example_state)
     (\<lambda>s'. Inr (tip_displacement_data s', tip_velocity_data s', tip_force_data s'))
   \<noteq> Inr ([None], [None], [None])"
proof -
  have "tip_measure example_model example_snapshot = Inr (None, None, Some 0)"
    by (rule tip_measure_no_tip) (simp_all add: example_model_def)
  then show ?thesis
    by (simp add: write_step_def Let_def example_integrator_def example_state_def)
qed

text \<open>
  Claim C10. For a model with at least one node, at every write step (whose tip
  measurement completes) the second warning branch is not taken: the step returns
  normally, so the loop goes on, and it emits either no warning or the first one; a
  damage sum above \<open>0.7 * nnodes\<close> is above \<open>0.05 * nnodes\<close> too and emits the first.
  (Over a whole run, lemma \<open>simulate_only_first_warning\<close>: every warning of a run that
  returns is the first one.)
\<close>

theorem second_damage_warning_never_taken:
  assumes "0 < nnodes self"
    and "tip_measure self (write_out integrator (integ s)) = Inr t"
  shows "\<exists>s'. write_step self integrator s = Inr s' \<and>
           (warnings s' = warnings s \<or> warnings s' = warnings s @ [Over5Percent]) \<and>
           damage_warning self (sum_list (snap_damage (write_out integrator (integ s))))
             \<noteq> Some Over7Percent \<and>
           (0.7 * real (nnodes self) < sum_list (snap_damage (write_out integrator (integ s)))
              \<longrightarrow> warnings s' = warnings s @ [Over5Percent])"
proof -
  let ?ds = "sum_list (snap_damage (write_out integrator (integ s)))"
  from damage_warning_cases [of self ?ds]
  have c: "damage_warning self ?ds = None \<or> damage_warning self ?ds = Some Over5Percent" .
  have o: "0.7 * real (nnodes self) < ?ds \<Longrightarrow> damage_warning self ?ds = Some Over5Percent"
    using assms(1) by (rule damage_warning_over)
  obtain a b c where t: "t = (a, b, c)" by (cases t)
  from c show ?thesis
  proof
    assume n: "damage_warning self ?ds = None"
    with o assms(2) show ?thesis by (auto simp: write_step_def Let_def t)
  next
    assume n: "damage_warning self ?ds = Some Over5Percent"
    with assms(2) show ?thesis by (auto simp: write_step_def Let_def t)
  qed
qed


theorem second_damage_warning_never_taken_witness:
  "0 < nnodes example_model \<and>
   tip_measure example_model (write_out example_integrator (integ example_state))
     = Inr (None, None, Some 0) \<and>
   (\<exists>s'. write_step example_model example_integrator example_state = Inr s' \<and>
      warnings s' = [Over5Percent])"
proof -
  have n: "0 < nnodes example_model" by (simp add: example_model_def)
  have t: "tip_measure example_model (write_out example_integrator (integ example_state))
             = Inr (None, None, Some 0)"
    by (rule tip_measure_no_tip) (simp_all add: example_model_def)
  have d: "0.7 * real (nnodes example_model)
             < sum_list (snap_damage (write_out example_integrator (integ example_state)))"
    by (simp add: example_model_def example_integrator_def example_snapshot_def)
  from second_damage_warning_never_taken [OF n t] d n t
  show ?thesis by (auto simp: example_state_def)
qed

section \<open>Loops that fill arrays\<close>

lemma for_loop_append:
  "for_loop (xs @ ys) body s = bindE (for_loop xs body s) (for_loop ys body)"
  by (induction xs arbitrary: s) (simp_all split: sum.splits)

lemma py_range_Suc: "py_range (int (Suc n)) = py_range (int n) @ [int n]"
  unfolding py_range_def nat_int by simp

lemma py_range_0: "py_range 0 = []"
  by (simp add: py_range_def)

lemma for_loop_states:
  assumes "\<And>k. k < n \<Longrightarrow> body (int k) (st k) = Inr (st (Suc k))"
  shows "for_loop (py_range (int n)) body (st 0) = Inr (st n)"
  using assms
proof (induction n)
  case 0
  then show ?case by (simp add: py_range_def)
next
  case (Suc n)
  then have "for_loop (py_range (int n)) body (st 0) = Inr (st n)" by simp
  moreover have "body (int n) (st n) = Inr (st (Suc n))" using Suc.prems by simp
  ultimately show ?case by (simp add: py_range_Suc for_loop_append del: of_nat_Suc)
qed

lemma fill_step:
  "i < n \<Longrightarrow> (map g [0..<i] @ replicate (n - i) c)[i := g i]
     = map g [0..<Suc i] @ replicate (n - Suc i) c"
  by (rule nth_equalityI) (auto simp: nth_append nth_list_update less_Suc_eq)

lemma py_setitem_in_range:
  "0 \<le> i \<Longrightarrow> i < int (length xs) \<Longrightarrow> py_setitem xs i v = Inr (xs[nat i := v])"
  by (simp add: py_setitem_def)


lemma py_index_nat: "k < length xs \<Longrightarrow> py_index xs (int k) = Inr (xs ! k)"
  by (simp add: py_index_def)

lemma py_setitem_nat: "k < length xs \<Longrightarrow> py_setitem xs (int k) v = Inr (xs[k := v])"
  by (simp add: py_setitem_def)

lemma py_index2_nat:
  "i < length a \<Longrightarrow> k < length (a ! i) \<Longrightarrow> py_index2 a (int i) (int k) = Inr (a ! i ! k)"
  by (simp add: py_index2_def py_index_nat)

lemma py_setitem2_nat:
  "i < length a \<Longrightarrow> k < length (a ! i) \<Longrightarrow>
     py_setitem2 a (int i) (int k) v = Inr (a[i := (a ! i)[k := v]])"
  by (simp add: py_setitem2_def py_index_nat py_setitem_nat)

lemma for_loop_invariant:
  assumes "P 0 s0"
    and "\<And>k s. k < n \<Longrightarrow> P k s \<Longrightarrow> \<exists>s'. body (int k) s = Inr s' \<and> P (Suc k) s'"
  shows "\<exists>s'. for_loop (py_range (int n)) body s0 = Inr s' \<and> P n s'"
  using assms(2)
proof (induction n)
  case 0
  with assms(1) show ?case by (simp add: py_range_0)
next
  case (Suc n)
  then obtain s where s: "for_loop (py_range (int n)) body s0 = Inr s" "P n s"
    by (metis less_Suc_eq)
  from Suc.prems [of n s] s(2) obtain s' where "body (int n) s = Inr s'" "P (Suc n) s'"
    by auto
  with s(1) show ?case by (simp add: py_range_Suc for_loop_append del: of_nat_Suc)
qed

lemma has_shape_replicate: "has_shape n m (replicate n (replicate m c))"
  by (simp add: has_shape_def list_all_iff)

lemma has_shape_row: "has_shape n m a \<Longrightarrow> i < n \<Longrightarrow> length (a ! i) = m"
  by (simp add: has_shape_def list_all_length)

lemma has_shape_update:
  assumes "has_shape n m a"
  shows "has_shape n m (a[i := (a ! i)[j := v]])"
proof (cases "i < n")
  case True
  with assms show ?thesis
    by (auto simp: has_shape_def list_all_length nth_list_update)
next
  case False
  with assms have "length a \<le> i" by (simp add: has_shape_def)
  then have "a[i := (a ! i)[j := v]] = a" by (rule list_update_beyond)
  with assms show ?thesis by simp
qed

lemma py_setitem2_shape:
  "has_shape n m a \<Longrightarrow> i < n \<Longrightarrow> j < m \<Longrightarrow>
     py_setitem2 a (int i) (int j) v = Inr (a[i := (a ! i)[j := v]])"
  by (rule py_setitem2_nat) (simp_all add: has_shape_def list_all_length)

lemma nth_update2:
  "has_shape n m a \<Longrightarrow> i < n \<Longrightarrow> j < m \<Longrightarrow> i' < n \<Longrightarrow>
     a[i := (a ! i)[j := v]] ! i' ! j' = (if i' = i \<and> j' = j then v else a ! i' ! j')"
  by (auto simp: has_shape_def list_all_length nth_list_update)

section \<open>Properties of the stiffness corrections\<close>

lemma shapes_agree_lengths:
  assumes "shapes_agree self nlist n_neigh"
  shows "0 \<le> max_neighbours self" "length (volume self) = nnodes self"
    "length (family self) = nnodes self" "length nlist = nnodes self"
    "length n_neigh = nnodes self"
  using assms by (simp_all add: shapes_agree_def)

lemma shapes_agree_row:
  assumes "shapes_agree self nlist n_neigh" "i < nnodes self"
  shows "length (nlist ! i) = nat (max_neighbours self)"
    "0 \<le> family self ! i" "family self ! i \<le> max_neighbours self"
    "0 \<le> n_neigh ! i" "n_neigh ! i \<le> max_neighbours self"
  using assms by (simp_all add: shapes_agree_def list_all_length)

lemma shapes_agree_slot:
  assumes "shapes_agree self nlist n_neigh" "i < nnodes self"
    and "k < nat (family self ! i) \<or> k < nat (n_neigh ! i)"
  shows "0 \<le> nlist ! i ! k" "nlist ! i ! k < int (nnodes self)"
proof -
  from assms(1) have "list_all (\<lambda>i. list_all (\<lambda>k. 0 \<le> nlist ! i ! k \<and> nlist ! i ! k < int (nnodes self))
                  [0..<nat (max (family self ! i) (n_neigh ! i))]) [0..<nnodes self]"
    by (simp add: shapes_agree_def)
  with assms(2) have "list_all (\<lambda>k. 0 \<le> nlist ! i ! k \<and> nlist ! i ! k < int (nnodes self))
                  [0..<nat (max (family self ! i) (n_neigh ! i))]"
    by (simp add: list_all_iff)
  moreover from assms(3) have "k < nat (max (family self ! i) (n_neigh ! i))" by auto
  ultimately show "0 \<le> nlist ! i ! k" "nlist ! i ! k < int (nnodes self)"
    by (simp_all add: list_all_iff)
qed

lemma family_volume_body_ok:
  assumes sh: "shapes_agree self nlist n_neigh" and i: "i < nnodes self"
    and len: "length fv = nnodes self"
  shows "family_volume_body self nlist (int i) fv = Inr (fv[i := family_volume self nlist i])"
proof -
  let ?f = "nat (family self ! i)"
  let ?g = "\<lambda>k. volume self ! nat (nlist ! i ! k)"
  let ?nl = "take ?f (nlist ! i)"
  let ?body = "\<lambda>j tmp. bindE (py_index ?nl j) (\<lambda>n. bindE (py_index (volume self) n) (\<lambda>v. Inr (tmp + v)))"
  note L = shapes_agree_lengths [OF sh]
  note R = shapes_agree_row [OF sh i]
  have step: "?body (int k) (sum_list (map ?g [0..<k])) = Inr (sum_list (map ?g [0..<Suc k]))"
    if "k < ?f" for k
  proof -
    from that R have "k < length ?nl" by simp
    then have a: "py_index ?nl (int k) = Inr (nlist ! i ! k)" using that
      by (simp add: py_index_nat)
    from shapes_agree_slot [OF sh i, of k] that
    have "0 \<le> nlist ! i ! k" "nlist ! i ! k < int (nnodes self)" by simp_all
    then have b: "py_index (volume self) (nlist ! i ! k) = Inr (?g k)"
      using L by (simp add: py_index_in_range)
    show ?thesis by (simp add: a b)
  qed
  have "for_loop (py_range (int ?f)) ?body (sum_list (map ?g [0..<0]))
          = Inr (sum_list (map ?g [0..<?f]))"
    by (rule for_loop_states [where st = "\<lambda>k. sum_list (map ?g [0..<k])"]) (rule step)
  then have loop: "for_loop (py_range (family self ! i)) ?body 0 = Inr (family_volume self nlist i)"
    using R by (simp add: family_volume_def)
  have sl: "py_slice_to (nlist ! i) (family self ! i) = ?nl"
    using R by (simp add: py_slice_to_def)
  show ?thesis
    using i L len
    by (simp add: family_volume_body_def py_index_nat sl Let_def loop py_setitem_nat)
qed

lemma family_volumes_loop:
  assumes sh: "shapes_agree self nlist n_neigh"
  shows "for_loop (py_range (int (nnodes self))) (family_volume_body self nlist)
           (replicate (nnodes self) 0)
         = Inr (map (family_volume self nlist) [0..<nnodes self])"
proof -
  let ?st = "\<lambda>k. map (family_volume self nlist) [0..<k] @ replicate (nnodes self - k) (0::real)"
  have "for_loop (py_range (int (nnodes self))) (family_volume_body self nlist) (?st 0)
          = Inr (?st (nnodes self))"
  proof (rule for_loop_states [where st = ?st])
    fix k assume k: "k < nnodes self"
    then have "length (?st k) = nnodes self" by simp
    from family_volume_body_ok [OF sh k this]
    show "family_volume_body self nlist (int k) (?st k) = Inr (?st (Suc k))"
      using k by (simp only: fill_step)
  qed
  then show ?thesis by simp
qed


lemma precise_body_ok:
  assumes sh: "shapes_agree self nlist n_neigh" and i: "i < nnodes self"
    and len: "length sc = nnodes self"
    and row: "sc ! i = replicate (nat (max_neighbours self)) 1"
    and fvs: "length fvs = nnodes self"
  shows "precise_body nlist n_neigh fvs (Some b) (int i) sc =
     Inr (sc[i := map (\<lambda>k. 2 * b / (fvs ! i + fvs ! nat (nlist ! i ! k))) [0..<nat (n_neigh ! i)]
                  @ replicate (nat (max_neighbours self) - nat (n_neigh ! i)) 1])"
proof -
  let ?M = "nat (max_neighbours self)"
  let ?n = "nat (n_neigh ! i)"
  let ?fac = "\<lambda>k. 2 * b / (fvs ! i + fvs ! nat (nlist ! i ! k))"
  let ?st = "\<lambda>k. sc[i := map ?fac [0..<k] @ replicate (?M - k) 1]"
  let ?body = "\<lambda>neigh sc.
            bindE (py_index2 nlist (int i) neigh) (\<lambda>j.
            bindE (py_index fvs j) (\<lambda>family_volume_j.
            bindE (case Some b of None \<Rightarrow> Inl UnboundLocalError | Some b \<Rightarrow> Inr b) (\<lambda>b.
              let stiffness_correction_factor = 2 * b / (fvs ! i + family_volume_j)
              in py_setitem2 sc (int i) neigh stiffness_correction_factor)))"
  note L = shapes_agree_lengths [OF sh]
  note R = shapes_agree_row [OF sh i]
  have step: "?body (int k) (?st k) = Inr (?st (Suc k))" if k: "k < ?n" for k
  proof -
    from k R have kM: "k < ?M" by linarith
    from i L R kM have a: "py_index2 nlist (int i) (int k) = Inr (nlist ! i ! k)"
      by (simp add: py_index2_nat)
    from shapes_agree_slot [OF sh i, of k] k
    have "0 \<le> nlist ! i ! k" "nlist ! i ! k < int (nnodes self)" by simp_all
    then have c: "py_index fvs (nlist ! i ! k) = Inr (fvs ! nat (nlist ! i ! k))"
      using fvs by (simp add: py_index_in_range)
    have d: "py_setitem2 (?st k) (int i) (int k) v
               = Inr (sc[i := (map ?fac [0..<k] @ replicate (?M - k) 1)[k := v]])" for v
      using i len kM by (simp add: py_setitem2_nat)
    from kM have e: "(map ?fac [0..<k] @ replicate (?M - k) 1)[k := ?fac k]
        = map ?fac [0..<Suc k] @ replicate (?M - Suc k) 1"
      by (rule fill_step)
    show ?thesis
      by (simp only: a c d e bindE_simps option.case Let_def)
  qed
  have "for_loop (py_range (int ?n)) ?body (?st 0) = Inr (?st ?n)"
    by (rule for_loop_states [where st = ?st]) (rule step)
  moreover have "?st 0 = sc" using row [symmetric] by simp
  ultimately have loop: "for_loop (py_range (n_neigh ! i)) ?body sc = Inr (?st ?n)"
    using R by simp
  have p1: "py_index fvs (int i) = Inr (fvs ! i)" using i fvs by (simp add: py_index_nat)
  have p2: "py_index n_neigh (int i) = Inr (n_neigh ! i)" using i L by (simp add: py_index_nat)
  show ?thesis unfolding precise_body_def p1 p2 bindE_simps by (rule loop)
qed


lemma precise_loop:
  assumes sh: "shapes_agree self nlist n_neigh" and fvs: "length fvs = nnodes self"
  shows "for_loop (py_range (int (nnodes self))) (precise_body nlist n_neigh fvs (Some b))
           (replicate (nnodes self) (replicate (nat (max_neighbours self)) 1))
         = Inr (map (\<lambda>i. map (\<lambda>k. 2 * b / (fvs ! i + fvs ! nat (nlist ! i ! k)))
                            [0..<nat (n_neigh ! i)]
                          @ replicate (nat (max_neighbours self) - nat (n_neigh ! i)) 1)
                  [0..<nnodes self])"
proof -
  let ?M = "nat (max_neighbours self)"
  let ?row = "\<lambda>i. map (\<lambda>k. 2 * b / (fvs ! i + fvs ! nat (nlist ! i ! k))) [0..<nat (n_neigh ! i)]
                  @ replicate (?M - nat (n_neigh ! i)) (1::real)"
  let ?st = "\<lambda>i. map ?row [0..<i] @ replicate (nnodes self - i) (replicate ?M (1::real))"
  have "for_loop (py_range (int (nnodes self))) (precise_body nlist n_neigh fvs (Some b)) (?st 0)
          = Inr (?st (nnodes self))"
  proof (rule for_loop_states [where st = ?st])
    fix i assume i: "i < nnodes self"
    then have len: "length (?st i) = nnodes self" by simp
    from i have row: "?st i ! i = replicate ?M 1" by (simp add: nth_append)
    from i have e: "(?st i)[i := ?row i] = ?st (Suc i)" by (rule fill_step)
    from precise_body_ok [OF sh i len row fvs, of b]
    show "precise_body nlist n_neigh fvs (Some b) (int i) (?st i) = Inr (?st (Suc i))"
      by (simp only: e)
  qed
  then show ?thesis by simp
qed

lemma precise_corrections:
  assumes sh: "shapes_agree self nlist n_neigh"
    and b: "family_volume_bulk self h = Some b"
  shows "set_stiffness_corrections self h (nlist, n_neigh) (Some 1)
         = Inr (map (\<lambda>i. map (\<lambda>k. 2 * b / (family_volume self nlist i
                                            + family_volume self nlist (nat (nlist ! i ! k))))
                            [0..<nat (n_neigh ! i)]
                          @ replicate (nat (max_neighbours self) - nat (n_neigh ! i)) 1)
                  [0..<nnodes self])"
proof -
  let ?fvs = "map (family_volume self nlist) [0..<nnodes self]"
  note L = shapes_agree_lengths [OF sh]
  have len: "length ?fvs = nnodes self" by simp
  have rows: "map (\<lambda>k. 2 * b / (?fvs ! i + ?fvs ! nat (nlist ! i ! k))) [0..<nat (n_neigh ! i)]
      = map (\<lambda>k. 2 * b / (family_volume self nlist i
                              + family_volume self nlist (nat (nlist ! i ! k))))
          [0..<nat (n_neigh ! i)]" if i: "i < nnodes self" for i
  proof (rule map_cong [OF refl])
    fix k assume "k \<in> set [0..<nat (n_neigh ! i)]"
    then have "k < nat (n_neigh ! i)" by simp
    with shapes_agree_slot [OF sh i, of k]
    have "0 \<le> nlist ! i ! k" "nlist ! i ! k < int (nnodes self)" by simp_all
    then have "nat (nlist ! i ! k) < nnodes self" by simp
    with i show "2 * b / (?fvs ! i + ?fvs ! nat (nlist ! i ! k))
        = 2 * b / (family_volume self nlist i + family_volume self nlist (nat (nlist ! i ! k)))"
      by simp
  qed
  have "for_loop (py_range (int (nnodes self))) (precise_body nlist n_neigh ?fvs (Some b))
           (replicate (nnodes self) (replicate (nat (max_neighbours self)) 1))
         = Inr (map (\<lambda>i. map (\<lambda>k. 2 * b / (family_volume self nlist i
                                            + family_volume self nlist (nat (nlist ! i ! k))))
                            [0..<nat (n_neigh ! i)]
                          @ replicate (nat (max_neighbours self) - nat (n_neigh ! i)) 1)
                  [0..<nnodes self])"
    unfolding precise_loop [OF sh len, of b] sum.inject
  proof (rule map_cong [OF refl])
    fix i assume "i \<in> set [0..<nnodes self]"
    then have "i < nnodes self" by simp
    then show "map (\<lambda>k. 2 * b / (?fvs ! i + ?fvs ! nat (nlist ! i ! k))) [0..<nat (n_neigh ! i)]
          @ replicate (nat (max_neighbours self) - nat (n_neigh ! i)) 1
        = map (\<lambda>k. 2 * b / (family_volume self nlist i
                              + family_volume self nlist (nat (nlist ! i ! k))))
            [0..<nat (n_neigh ! i)]
          @ replicate (nat (max_neighbours self) - nat (n_neigh ! i)) 1"
      by (simp only: rows)
  qed
  with L b show ?thesis
    by (simp add: set_stiffness_corrections_def family_volumes_loop [OF sh])
qed

lemma precise_correction_slot:
  assumes sh: "shapes_agree self nlist n_neigh"
    and b: "family_volume_bulk self h = Some b"
    and i: "i < nnodes self" and k: "int k < n_neigh ! i"
  shows "\<exists>sc. set_stiffness_corrections self h (nlist, n_neigh) (Some 1) = Inr sc \<and>
           sc ! i ! k = 2 * b / (family_volume self nlist i
                                  + family_volume self nlist (nat (nlist ! i ! k)))"
proof -
  from k have "k < nat (n_neigh ! i)" by simp
  with i show ?thesis
    unfolding precise_corrections [OF sh b] by (simp add: nth_append)
qed

lemma none_corrections:
  assumes sh: "shapes_agree self nlist n_neigh"
  shows "set_stiffness_corrections self h (nlist, n_neigh) None
         = Inr (replicate (nnodes self) (replicate (nat (max_neighbours self)) 1))"
  using shapes_agree_lengths [OF sh]
  by (simp add: set_stiffness_corrections_def family_volumes_loop [OF sh])

lemma approximate_body_raises:
  "approximate_body nlist n_neigh a bulk i sc \<noteq> Inr sc'"
  by (simp add: approximate_body_def bindE_def split: sum.splits)

lemma approximate_corrections_raises:
  "approximate_corrections self nlist n_neigh bulk sc \<noteq> Inr sc'"
proof (cases "volume_total self")
  case None
  then show ?thesis by (simp add: approximate_corrections_def)
next
  case (Some vt)
  show ?thesis
  proof (cases "nnodes self = 0")
    case True
    with Some show ?thesis by (simp add: approximate_corrections_def)
  next
    case False
    then obtain xs where xs: "py_range (int (nnodes self)) = 0 # xs"
      using py_range_simps(2) [of "int (nnodes self)"] by simp
    obtain e where "approximate_body nlist n_neigh (vt / real (nnodes self)) bulk 0 sc = Inl e"
      using approximate_body_raises [of nlist n_neigh "vt / real (nnodes self)" bulk 0 sc]
      by (cases "approximate_body nlist n_neigh (vt / real (nnodes self)) bulk 0 sc") auto
    with Some False xs show ?thesis by (simp add: approximate_corrections_def)
  qed
qed

lemma approximate_mode_never_returns:
  "set_stiffness_corrections self h connectivity (Some 0) \<noteq> Inr sc"
  by (cases connectivity)
     (simp add: set_stiffness_corrections_def bindE_eq_Inr approximate_corrections_raises)

lemma precise_correction_positive:
  assumes sh: "shapes_agree self nlist n_neigh"
    and d: "dimensions self = 2 \<or> dimensions self = 3" and h: "0 < h"
    and i: "i < nnodes self" and k: "int k < n_neigh ! i"
    and pos: "0 < family_volume self nlist i + family_volume self nlist (nat (nlist ! i ! k))"
  shows "\<exists>sc. set_stiffness_corrections self h (nlist, n_neigh) (Some 1) = Inr sc \<and>
           0 < sc ! i ! k"
proof -
  have "\<exists>b. family_volume_bulk self h = Some b \<and> 0 < b"
  proof (cases "dimensions self = 2")
    case True
    then have "family_volume_bulk self h = Some (pi * h ^ 2 * 0.001)"
      by (simp add: family_volume_bulk_def)
    moreover from h have "0 < pi * h ^ 2 * 0.001" by simp
    ultimately show ?thesis by blast
  next
    case False
    with d have "family_volume_bulk self h = Some ((4 / 3) * pi * h ^ 3)"
      by (simp add: family_volume_bulk_def)
    moreover from h have "0 < (4 / 3) * pi * h ^ 3" by simp
    ultimately show ?thesis by blast
  qed
  then obtain b where b: "family_volume_bulk self h = Some b" and "0 < b" by blast
  with precise_correction_slot [OF sh b i k] pos show ?thesis by auto
qed

lemma example_shapes_agree: "shapes_agree example_model example_nlist example_n_neigh"
  by (simp add: shapes_agree_def example_model_def example_nlist_def example_n_neigh_def
      upt_conv_Cons)

text \<open>
  Claim C5. The claim says that in approximate mode
  (\<^verbatim>\<open>precise_stiffness_correction = 0\<close>) every factor is greater than 0. On a model as
  \<^verbatim>\<open>__init__\<close> builds it the code stores no factor at all in that mode: line 682 raises
  AttributeError. (The lemmas above show that the call returns in no case, that precise
  mode gives the quotient of \<open>precise_correction_slot\<close>, and that mode \<^verbatim>\<open>None\<close>
  gives 1 in every slot.)
\<close>

theorem approximate_mode_raises:
  "set_stiffness_corrections example_model 1 (example_nlist, example_n_neigh) (Some 0)
   = Inl AttributeError"
proof -
  have "length (volume example_model) = nnodes example_model"
    "\<not> max_neighbours example_model < 0" "volume_total example_model = None"
    by (simp_all add: example_model_def)
  then show ?thesis
    by (simp add: set_stiffness_corrections_def family_volumes_loop [OF example_shapes_agree]
        approximate_corrections_def)
qed

section \<open>Properties of the boundary conditions\<close>

lemma bc_axis_body_ok:
  assumes sh: "bc_shapes n 3 st" and i: "i < n" and j: "j < 3"
    and b: "bnd = PyList bs" "length bs = 3"
    and f: "forces_bnd = PyList fs" "length fs = 3"
    and t: "tip = PyList ts" "length ts = 3"
    and v: "length (volume self) = n"
  shows "\<exists>st'. bc_axis_body self (int i) bnd forces_bnd tip (int j) (st, fl)
             = Inr (st', if fs ! j = None then fl else 1) \<and>
           bc_shapes n 3 st' \<and>
           force_bc_values st' =
             (case fs ! j of
                None \<Rightarrow> force_bc_values st
              | Some m \<Rightarrow> (force_bc_values st)
                  [i := (force_bc_values st ! i)[j := m / volume self ! i]])"
proof -
  from sh have s: "has_shape n 3 (bc_types st)" "has_shape n 3 (bc_values st)"
    "has_shape n 3 (force_bc_types st)" "has_shape n 3 (force_bc_values st)"
    "has_shape n 3 (bc_tip_types st)"
    by (simp_all add: bc_shapes_def)
  note set = s [THEN py_setitem2_shape, OF i j]
  note upd = s [THEN has_shape_update]
  from b f t j have items: "result_item forces_bnd (int j) = Inr (fs ! j)"
    "result_item bnd (int j) = Inr (bs ! j)" "result_item tip (int j) = Inr (ts ! j)"
    by (simp_all add: result_item_def py_index_nat)
  from i v have vol: "py_index (volume self) (int i) = Inr (volume self ! i)"
    by (simp add: py_index_nat)
  show ?thesis
    unfolding bc_axis_body_def
    by (cases "bs ! j"; cases "fs ! j"; cases "ts ! j")
       (simp_all add: items vol set upd bc_shapes_def s)
qed


lemma three_axesE:
  assumes "three_axes r"
  obtains xs where "r = PyList xs" "length xs = 3"
  using assms by (cases r) (simp_all add: three_axes_def)

lemma bc_node_body_ok:
  assumes sh: "bc_shapes n 3 st" and i: "i < n"
    and dof: "degrees_freedom self = 3"
    and c: "length (coords self) = n" and v: "length (volume self) = n"
    and tot: "three_axes (d (coords self ! i))" "three_axes (f (coords self ! i))"
      "three_axes (t (coords self ! i))"
  shows "\<exists>st'. bc_node_body self d f t (int i) (st, num)
             = Inr (st', num + (if force_loaded (f (coords self ! i)) then 1 else 0)) \<and>
           bc_shapes n 3 st' \<and>
           (\<forall>i'<n. \<forall>j'<3. force_bc_values st' ! i' ! j' =
              (if i' = i
               then (case axes (f (coords self ! i)) ! j' of
                       None \<Rightarrow> force_bc_values st ! i' ! j'
                     | Some m \<Rightarrow> m / volume self ! i)
               else force_bc_values st ! i' ! j'))"
proof -
  from tot obtain bs fs ts where
    b: "d (coords self ! i) = PyList bs" "length bs = 3" and
    f: "f (coords self ! i) = PyList fs" "length fs = 3" and
    t: "t (coords self ! i) = PyList ts" "length ts = 3"
    by (elim three_axesE) blast
  let ?F = "force_bc_values st"
  let ?vol = "volume self ! i"
  let ?Q = "\<lambda>j s. case s of (st', fl) \<Rightarrow>
      bc_shapes n 3 st' \<and> fl = (if \<exists>j'<j. fs ! j' \<noteq> None then 1 else (0::int)) \<and>
      (\<forall>i'<n. \<forall>j'<3. force_bc_values st' ! i' ! j' =
         (if i' = i \<and> j' < j
          then (case fs ! j' of None \<Rightarrow> ?F ! i' ! j' | Some m \<Rightarrow> m / ?vol)
          else ?F ! i' ! j'))"
  let ?body = "bc_axis_body self (int i) (d (coords self ! i)) (f (coords self ! i))
                 (t (coords self ! i))"
  have "\<exists>s'. for_loop (py_range (int 3)) ?body (st, 0) = Inr s' \<and> ?Q 3 s'"
  proof (rule for_loop_invariant [where P = ?Q])
    show "?Q 0 (st, 0)" using sh by simp
  next
    fix j s assume j: "j < (3::nat)" and Q: "?Q j s"
    obtain st1 fl where s: "s = (st1, fl)" by (cases s)
    from Q s have sh1: "bc_shapes n 3 st1"
      and fl: "fl = (if \<exists>j'<j. fs ! j' \<noteq> None then 1 else 0)"
      and val: "\<And>i' j'. i' < n \<Longrightarrow> j' < 3 \<Longrightarrow> force_bc_values st1 ! i' ! j' =
         (if i' = i \<and> j' < j
          then (case fs ! j' of None \<Rightarrow> ?F ! i' ! j' | Some m \<Rightarrow> m / ?vol)
          else ?F ! i' ! j')"
      by simp_all
    from sh1 have hs: "has_shape n 3 (force_bc_values st1)" by (simp add: bc_shapes_def)
    from bc_axis_body_ok [OF sh1 i j b f t v, of fl]
    obtain st2 where r: "?body (int j) (st1, fl) = Inr (st2, if fs ! j = None then fl else 1)"
      and sh2: "bc_shapes n 3 st2"
      and F2: "force_bc_values st2 =
             (case fs ! j of
                None \<Rightarrow> force_bc_values st1
              | Some m \<Rightarrow> (force_bc_values st1)
                  [i := (force_bc_values st1 ! i)[j := m / ?vol]])"
      by blast
    have fl2: "(if fs ! j = None then fl else 1) = (if \<exists>j'<Suc j. fs ! j' \<noteq> None then 1 else 0)"
      unfolding fl by (auto simp: less_Suc_eq)
    have val2: "force_bc_values st2 ! i' ! j' =
         (if i' = i \<and> j' < Suc j
          then (case fs ! j' of None \<Rightarrow> ?F ! i' ! j' | Some m \<Rightarrow> m / ?vol)
          else ?F ! i' ! j')" if "i' < n" "j' < 3" for i' j'
    proof (cases "fs ! j")
      case None
      with F2 val [OF that] show ?thesis by (auto simp: less_Suc_eq)
    next
      case (Some m)
      with F2 have "force_bc_values st2 ! i' ! j' =
          (if i' = i \<and> j' = j then m / ?vol else force_bc_values st1 ! i' ! j')"
        using nth_update2 [OF hs i j that(1)] by simp
      with Some val [OF that] show ?thesis by (auto simp: less_Suc_eq)
    qed
    show "\<exists>s'. ?body (int j) s = Inr s' \<and> ?Q (Suc j) s'"
      unfolding s r using sh2 fl2 val2 by simp
  qed
  then obtain st' fl where
    loop: "for_loop (py_range (int 3)) ?body (st, 0) = Inr (st', fl)"
    and sh': "bc_shapes n 3 st'"
    and fl: "fl = (if \<exists>j'<3. fs ! j' \<noteq> None then 1 else 0)"
    and val: "\<forall>i'<n. \<forall>j'<3. force_bc_values st' ! i' ! j' =
         (if i' = i \<and> j' < 3
          then (case fs ! j' of None \<Rightarrow> ?F ! i' ! j' | Some m \<Rightarrow> m / ?vol)
          else ?F ! i' ! j')"
    by auto
  have ld: "force_loaded (f (coords self ! i)) \<longleftrightarrow> (\<exists>j'<3. fs ! j' \<noteq> None)"
    using f by (simp add: force_loaded_def list_ex_length)
  have ax: "axes (f (coords self ! i)) = fs" using f by (simp add: axes_def)
  from i c have x: "py_index (coords self) (int i) = Inr (coords self ! i)"
    by (simp add: py_index_nat)
  have "bc_node_body self d f t (int i) (st, num)
          = Inr (st', num + (if force_loaded (f (coords self ! i)) then 1 else 0))"
    using loop by (simp add: bc_node_body_def x dof Let_def fl ld)
  moreover from val have "\<forall>i'<n. \<forall>j'<3. force_bc_values st' ! i' ! j' =
              (if i' = i
               then (case axes (f (coords self ! i)) ! j' of
                       None \<Rightarrow> force_bc_values st ! i' ! j'
                     | Some m \<Rightarrow> m / volume self ! i)
               else force_bc_values st ! i' ! j')"
    unfolding ax by simp
  ultimately show ?thesis using sh' by blast
qed


lemma total_on_node:
  "total_on self g \<Longrightarrow> i < length (coords self) \<Longrightarrow> three_axes (g (coords self ! i))"
  by (auto simp: total_on_def list_all_iff)

lemma total_on_check:
  "total_on self g \<Longrightarrow> check_boundary_function (Callable g) = Inr g"
  by (cases "g [0, 0, 0]") (simp_all add: total_on_def check_boundary_function_def three_axes_def)

lemma bc_loop_ok:
  assumes dof: "degrees_freedom self = 3"
    and c: "length (coords self) = nnodes self" and v: "length (volume self) = nnodes self"
    and tot: "total_on self d" "total_on self f" "total_on self t"
    and sh: "bc_shapes (nnodes self) 3 st0"
    and z: "\<forall>i<nnodes self. \<forall>j<3. force_bc_values st0 ! i ! j = 0"
  shows "\<exists>st. for_loop (py_range (int (nnodes self))) (bc_node_body self d f t) (st0, 0)
             = Inr (st, int (force_loaded_count self f)) \<and>
           bc_shapes (nnodes self) 3 st \<and>
           (\<forall>i<nnodes self. \<forall>j<3. force_bc_values st ! i ! j =
              (case axes (f (coords self ! i)) ! j of
                 None \<Rightarrow> 0 | Some m \<Rightarrow> m / volume self ! i))"
proof -
  let ?n = "nnodes self"
  let ?ld = "\<lambda>i. force_loaded (f (coords self ! i))"
  let ?val = "\<lambda>i j. case axes (f (coords self ! i)) ! j of
                 None \<Rightarrow> (0::real) | Some m \<Rightarrow> m / volume self ! i"
  let ?P = "\<lambda>k s. case s of (st, num) \<Rightarrow>
      bc_shapes ?n 3 st \<and> num = int (length (filter ?ld [0..<k])) \<and>
      (\<forall>i<?n. \<forall>j<3. force_bc_values st ! i ! j = (if i < k then ?val i j else 0))"
  have "\<exists>s'. for_loop (py_range (int ?n)) (bc_node_body self d f t) (st0, 0) = Inr s' \<and> ?P ?n s'"
  proof (rule for_loop_invariant [where P = ?P])
    show "?P 0 (st0, 0)" using sh z by simp
  next
    fix k s assume k: "k < ?n" and P: "?P k s"
    obtain st num where s: "s = (st, num)" by (cases s)
    from P s have sh1: "bc_shapes ?n 3 st"
      and num: "num = int (length (filter ?ld [0..<k]))"
      and val: "\<And>i j. i < ?n \<Longrightarrow> j < 3 \<Longrightarrow>
                 force_bc_values st ! i ! j = (if i < k then ?val i j else 0)"
      by simp_all
    from k c have kc: "k < length (coords self)" by simp
    have t3: "three_axes (d (coords self ! k))" "three_axes (f (coords self ! k))"
      "three_axes (t (coords self ! k))"
      using tot kc by (simp_all add: total_on_node)
    from bc_node_body_ok [where self = self and d = d and f = f and t = t and num = num,
        OF sh1 k dof c v t3]
    obtain st' where r: "bc_node_body self d f t (int k) (st, num)
             = Inr (st', num + (if ?ld k then 1 else 0))"
      and sh2: "bc_shapes ?n 3 st'"
      and val2: "\<And>i' j'. i' < ?n \<Longrightarrow> j' < 3 \<Longrightarrow> force_bc_values st' ! i' ! j' =
              (if i' = k
               then (case axes (f (coords self ! k)) ! j' of
                       None \<Rightarrow> force_bc_values st ! i' ! j'
                     | Some m \<Rightarrow> m / volume self ! k)
               else force_bc_values st ! i' ! j')"
      by blast
    have num2: "num + (if ?ld k then 1 else 0) = int (length (filter ?ld [0..<Suc k]))"
      unfolding num by simp
    have val3: "force_bc_values st' ! i ! j = (if i < Suc k then ?val i j else 0)"
      if "i < ?n" "j < 3" for i j
      using val2 [OF that] val [OF that]
      by (auto simp: less_Suc_eq split: option.splits)
    show "\<exists>s'. bc_node_body self d f t (int k) s = Inr s' \<and> ?P (Suc k) s'"
      unfolding s r using sh2 num2 val3 by simp
  qed
  then show ?thesis unfolding force_loaded_count_def by auto
qed

lemma force_bc_value_slot:
  assumes dof: "degrees_freedom self = 3"
    and c: "length (coords self) = nnodes self" and v: "length (volume self) = nnodes self"
    and tot: "total_on self d" "total_on self f" "total_on self t"
    and i: "i < nnodes self" and j: "j < 3"
    and fs: "f (coords self ! i) = PyList fs" and m: "fs ! j = Some m"
  shows "\<exists>r. set_boundary_conditions self (Callable d) (Callable f) (Callable t) = Inr r \<and>
           0 < force_loaded_count self f \<and>
           force_bc_values r ! i ! j
             = m / volume self ! i / real (force_loaded_count self f)"
proof -
  let ?z = "\<lparr>bc_types = replicate (nnodes self) (replicate (degrees_freedom self) 0),
             bc_values = replicate (nnodes self) (replicate (degrees_freedom self) 0),
             force_bc_types = replicate (nnodes self) (replicate (degrees_freedom self) 0),
             force_bc_values = replicate (nnodes self) (replicate (degrees_freedom self) 0),
             bc_tip_types = replicate (nnodes self) (replicate (degrees_freedom self) 0)\<rparr>"
  have sh: "bc_shapes (nnodes self) 3 ?z"
    by (simp add: bc_shapes_def dof has_shape_replicate)
  have z: "\<forall>i<nnodes self. \<forall>j<3. force_bc_values ?z ! i ! j = 0"
    by (simp add: dof)
  from bc_loop_ok [OF dof c v tot sh z] obtain st where
    loop: "for_loop (py_range (int (nnodes self))) (bc_node_body self d f t) (?z, 0)
             = Inr (st, int (force_loaded_count self f))"
    and sh': "bc_shapes (nnodes self) 3 st"
    and val: "\<And>i j. i < nnodes self \<Longrightarrow> j < 3 \<Longrightarrow> force_bc_values st ! i ! j =
              (case axes (f (coords self ! i)) ! j of
                 None \<Rightarrow> 0 | Some m \<Rightarrow> m / volume self ! i)"
    by blast
  from tot(2) [THEN total_on_node] i c have "three_axes (f (coords self ! i))" by simp
  with fs have len: "length fs = 3" by (simp add: three_axes_def)
  with j m have "list_ex (\<lambda>v. v \<noteq> None) fs" by (auto simp: list_ex_length)
  with fs have "force_loaded (f (coords self ! i))" by (simp add: force_loaded_def)
  with i have "i \<in> set (filter (\<lambda>i. force_loaded (f (coords self ! i))) [0..<nnodes self])"
    by simp
  then have pos: "0 < force_loaded_count self f"
    unfolding force_loaded_count_def by (rule length_pos_if_in_set)
  from sh' have hs: "has_shape (nnodes self) 3 (force_bc_values st)"
    by (simp add: bc_shapes_def)
  from val [OF i j] fs m have vij: "force_bc_values st ! i ! j = m / volume self ! i"
    by (simp add: axes_def)
  from hs i have li: "i < length (force_bc_values st)" by (simp add: has_shape_def)
  from has_shape_row [OF hs i] j have lj: "j < length (force_bc_values st ! i)" by simp
  have "set_boundary_conditions self (Callable d) (Callable f) (Callable t)
      = Inr (st\<lparr>force_bc_values :=
                   map (map (\<lambda>x. x / real_of_int (int (force_loaded_count self f))))
                     (force_bc_values st)\<rparr>)"
    using pos
    by (simp add: set_boundary_conditions_def tot [THEN total_on_check] Let_def loop)
  with pos li lj vij show ?thesis by simp
qed

lemma set_boundary_conditions_returns:
  assumes dof: "degrees_freedom self = 3"
    and c: "length (coords self) = nnodes self" and v: "length (volume self) = nnodes self"
    and tot: "total_on self d" "total_on self f" "total_on self t"
  shows "\<exists>r. set_boundary_conditions self (Callable d) (Callable f) (Callable t) = Inr r"
proof -
  let ?z = "\<lparr>bc_types = replicate (nnodes self) (replicate (degrees_freedom self) 0),
             bc_values = replicate (nnodes self) (replicate (degrees_freedom self) 0),
             force_bc_types = replicate (nnodes self) (replicate (degrees_freedom self) 0),
             force_bc_values = replicate (nnodes self) (replicate (degrees_freedom self) 0),
             bc_tip_types = replicate (nnodes self) (replicate (degrees_freedom self) 0)\<rparr>"
  have sh: "bc_shapes (nnodes self) 3 ?z"
    by (simp add: bc_shapes_def dof has_shape_replicate)
  have z: "\<forall>i<nnodes self. \<forall>j<3. force_bc_values ?z ! i ! j = 0"
    by (simp add: dof)
  from bc_loop_ok [OF dof c v tot sh z] obtain st where
    "for_loop (py_range (int (nnodes self))) (bc_node_body self d f t) (?z, 0)
       = Inr (st, int (force_loaded_count self f))"
    by blast
  then show ?thesis
    by (simp add: set_boundary_conditions_def tot [THEN total_on_check] Let_def)
qed

text \<open>
  Claim C6. Let the three boundary functions be total on the model (arrays of matching
  sizes, three degrees of freedom), and let the force function return the magnitude \<open>m\<close>
  for node \<open>i\<close> on axis \<open>j\<close>, so that at least one node is force-loaded; the volume of
  node \<open>i\<close> is not zero. Then the method returns, and the force boundary value at
  \<open>(i, j)\<close> is \<open>m\<close> divided by the volume of node \<open>i\<close> and by the number of nodes that
  have a force axis other than \<open>None\<close>.
\<close>

theorem force_bc_value_normalised:
  assumes "degrees_freedom self = 3"
    and "length (coords self) = nnodes self" and "length (volume self) = nnodes self"
    and "total_on self d" and "total_on self f" and "total_on self t"
    and "i < nnodes self" and "j < 3"
    and "f (coords self ! i) = PyList fs" and "fs ! j = Some m"
    and "volume self ! i \<noteq> 0"
  shows "\<exists>r. set_boundary_conditions self (Callable d) (Callable f) (Callable t) = Inr r \<and>
           0 < force_loaded_count self f \<and>
           force_bc_values r ! i ! j
             = m / volume self ! i / real (force_loaded_count self f)"
  using assms(1-10) by (rule force_bc_value_slot)

theorem force_bc_value_normalised_witness:
  "degrees_freedom example_bar = 3 \<and>
   length (coords example_bar) = nnodes example_bar \<and>
   length (volume example_bar) = nnodes example_bar \<and>
   total_on example_bar example_unconstrained \<and> total_on example_bar example_forces \<and>
   (2::nat) < nnodes example_bar \<and>
   example_forces (coords example_bar ! 2) = PyList [Some 1, None, None] \<and>
   volume example_bar ! 2 \<noteq> 0 \<and>
   force_loaded_count example_bar example_forces = 2 \<and>
   (\<exists>r. set_boundary_conditions example_bar (Callable example_unconstrained)
           (Callable example_forces) (Callable example_unconstrained) = Inr r \<and>
         force_bc_values r ! 2 ! 0 = 1 / 8)"
proof -
  have h: "degrees_freedom example_bar = 3"
      "length (coords example_bar) = nnodes example_bar"
      "length (volume example_bar) = nnodes example_bar"
      "total_on example_bar example_unconstrained" "total_on example_bar example_forces"
      "(2::nat) < nnodes example_bar"
      "example_forces (coords example_bar ! 2) = PyList [Some 1, None, None]"
      "volume example_bar ! 2 \<noteq> 0"
    by (simp_all add: example_bar_def total_on_def three_axes_def example_unconstrained_def
        example_forces_def)
  have c: "force_loaded_count example_bar example_forces = 2"
    by (simp add: force_loaded_count_def example_bar_def example_forces_def force_loaded_def
        upt_conv_Cons)
  have v: "volume example_bar ! 2 = 4" by (simp add: example_bar_def)
  have j: "(0::nat) < 3" and m: "[Some (1::real), None, None] ! 0 = Some 1" by simp_all
  from force_bc_value_normalised [OF h(1) h(2) h(3) h(4) h(5) h(4) h(6) j h(7) m h(8)]
  show ?thesis using h c by (simp add: v)
qed

section \<open>Invocations of the caller's bond functions\<close>

lemma material_inner:
  assumes sh: "shapes_agree self nlist n_neigh" and c: "length (coords self) = nnodes self"
    and i: "i < nnodes self"
    and hs: "has_shape (nnodes self) (nat (max_neighbours self)) mt"
    and fit: "\<And>k. k < nat (n_neigh ! i) \<Longrightarrow>
                fits_intc (bond_type (coords self ! i) (coords self ! nat (nlist ! i ! k)))"
  shows "\<exists>mt'. for_loop (py_range (n_neigh ! i)) (material_body self nlist bond_type (int i))
             (mt, calls)
           = Inr (mt', calls @ map (\<lambda>k. (int i, nlist ! i ! k)) [0..<nat (n_neigh ! i)]) \<and>
         has_shape (nnodes self) (nat (max_neighbours self)) mt'"
proof -
  let ?M = "nat (max_neighbours self)"
  let ?n = "nat (n_neigh ! i)"
  let ?Q = "\<lambda>k s. case s of (mt', calls') \<Rightarrow>
      has_shape (nnodes self) ?M (mt' :: int list list) \<and>
      calls' = calls @ map (\<lambda>k. (int i, nlist ! i ! k)) [0..<k]"
  note L = shapes_agree_lengths [OF sh]
  note R = shapes_agree_row [OF sh i]
  have "\<exists>s'. for_loop (py_range (int ?n)) (material_body self nlist bond_type (int i)) (mt, calls)
           = Inr s' \<and> ?Q ?n s'"
  proof (rule for_loop_invariant [where P = ?Q])
    show "?Q 0 (mt, calls)" using hs by simp
  next
    fix k s assume k: "k < ?n" and Q: "?Q k s"
    obtain mt1 calls1 where s: "s = (mt1, calls1)" by (cases s)
    from Q s have hs1: "has_shape (nnodes self) ?M mt1"
      and c1: "calls1 = calls @ map (\<lambda>k. (int i, nlist ! i ! k)) [0..<k]"
      by simp_all
    from k R have kM: "k < ?M" by linarith
    from i L R kM have a: "py_index2 nlist (int i) (int k) = Inr (nlist ! i ! k)"
      by (simp add: py_index2_nat)
    from i c have x: "py_index (coords self) (int i) = Inr (coords self ! i)"
      by (simp add: py_index_nat)
    from shapes_agree_slot [OF sh i, of k] k
    have "0 \<le> nlist ! i ! k" "nlist ! i ! k < int (nnodes self)" by simp_all
    then have y: "py_index (coords self) (nlist ! i ! k) = Inr (coords self ! nat (nlist ! i ! k))"
      using c by (simp add: py_index_in_range)
    note set = py_setitem2_shape [OF hs1 i kM]
    from hs1 i kM have rd: "py_index2 mt1 (int i) (int k) = Inr (mt1 ! i ! k)"
      by (simp add: py_index2_nat has_shape_def list_all_length)
    from fit [OF k] have st: "store_intc mt1 (int i) (int k)
        (bond_type (coords self ! i) (coords self ! nat (nlist ! i ! k)))
      = Inr (mt1[i := (mt1 ! i)[k := bond_type (coords self ! i)
                                        (coords self ! nat (nlist ! i ! k))]])"
      by (simp add: store_intc_def rd set)
    show "\<exists>s'. material_body self nlist bond_type (int i) (int k) s = Inr s' \<and> ?Q (Suc k) s'"
      unfolding s using has_shape_update [OF hs1] c1
      by (simp add: material_body_def a x y st)
  qed
  then show ?thesis using R by auto
qed

lemma directed_bonds_Suc:
  "k < length nlist \<Longrightarrow>
     concat (map (\<lambda>i. map (\<lambda>k. (int i, nlist ! i ! k)) [0..<nat (n_neigh ! i)]) [0..<Suc k])
     = concat (map (\<lambda>i. map (\<lambda>k. (int i, nlist ! i ! k)) [0..<nat (n_neigh ! i)]) [0..<k])
       @ map (\<lambda>j. (int k, nlist ! k ! j)) [0..<nat (n_neigh ! k)]"
  by simp

lemma material_types_calls:
  assumes sh: "shapes_agree self nlist n_neigh" and c: "length (coords self) = nnodes self"
    and fit: "\<And>i k. i < nnodes self \<Longrightarrow> k < nat (n_neigh ! i) \<Longrightarrow>
                fits_intc (bond_type (coords self ! i) (coords self ! nat (nlist ! i ! k)))"
  shows "\<exists>mt. set_material_types self (nlist, n_neigh) bond_type
           = Inr (mt, directed_bonds nlist n_neigh)"
proof -
  let ?M = "nat (max_neighbours self)"
  let ?calls = "\<lambda>k. concat (map (\<lambda>i. map (\<lambda>k. (int i, nlist ! i ! k)) [0..<nat (n_neigh ! i)])
                          [0..<k])"
  let ?P = "\<lambda>k s. case s of (mt, calls) \<Rightarrow>
      has_shape (nnodes self) ?M (mt :: int list list) \<and> calls = ?calls k"
  let ?body = "\<lambda>i s. bindE (py_index n_neigh i) (\<lambda>n_neigh_i.
                      for_loop (py_range n_neigh_i) (material_body self nlist bond_type i) s)"
  note L = shapes_agree_lengths [OF sh]
  have "\<exists>s'. for_loop (py_range (int (nnodes self))) ?body
                (replicate (nnodes self) (replicate ?M 0), []) = Inr s' \<and> ?P (nnodes self) s'"
  proof (rule for_loop_invariant [where P = ?P])
    show "?P 0 (replicate (nnodes self) (replicate ?M 0), [])"
      by (simp add: has_shape_replicate)
  next
    fix k s assume k: "k < nnodes self" and P: "?P k s"
    obtain mt calls where s: "s = (mt, calls)" by (cases s)
    from P s have hs: "has_shape (nnodes self) ?M mt" and cl: "calls = ?calls k" by simp_all
    from material_inner [where bond_type = bond_type and calls = calls, OF sh c k hs fit [OF k]]
    obtain mt' where
      "for_loop (py_range (n_neigh ! k)) (material_body self nlist bond_type (int k)) (mt, calls)
           = Inr (mt', calls @ map (\<lambda>j. (int k, nlist ! k ! j)) [0..<nat (n_neigh ! k)])"
      and "has_shape (nnodes self) ?M mt'"
      by blast
    moreover from k L have "py_index n_neigh (int k) = Inr (n_neigh ! k)"
      by (simp add: py_index_nat)
    ultimately show "\<exists>s'. ?body (int k) s = Inr s' \<and> ?P (Suc k) s'"
      unfolding s cl by simp
  qed
  with L show ?thesis
    by (auto simp: set_material_types_def directed_bonds_def)
qed


lemma take_as_map: "n \<le> length xs \<Longrightarrow> take n xs = map (\<lambda>k. xs ! k) [0..<n]"
  by (rule nth_equalityI) simp_all

lemma crack_row:
  assumes "n \<le> length row"
  shows "map (\<lambda>j. (i, j)) (filter (\<lambda>j. i < j) (take n row))
         = filter (\<lambda>(i, j). i < j) (map (\<lambda>k. (i, row ! k)) [0..<n])"
proof -
  have "filter (\<lambda>(i, j). i < j) (map (\<lambda>k. (i, row ! k)) [0..<n])
      = filter (\<lambda>(i, j). i < j) (map (\<lambda>j. (i, j)) (map (\<lambda>k. row ! k) [0..<n]))"
    by (simp add: o_def)
  also have "\<dots> = map (\<lambda>j. (i, j)) (filter (\<lambda>j. i < j) (map (\<lambda>k. row ! k) [0..<n]))"
    by (simp add: filter_map o_def)
  finally show ?thesis using assms by (simp add: take_as_map)
qed

lemma crack_pairs_ok:
  assumes sh: "shapes_agree self nlist n_neigh"
  shows "crack_pairs nlist n_neigh = Inr (bonded_pairs nlist n_neigh)"
proof -
  let ?row = "\<lambda>i. filter (\<lambda>(i, j). i < j)
                   (map (\<lambda>k. (int i, nlist ! i ! k)) [0..<nat (n_neigh ! i)])"
  let ?st = "\<lambda>k. concat (map ?row [0..<k])"
  let ?body = "\<lambda>i pairs.
          bindE (py_index nlist i) (\<lambda>row.
          bindE (py_index n_neigh i) (\<lambda>n_neigh_i.
            Inr (pairs @ map (\<lambda>j. (i, j)) (filter (\<lambda>j. i < j) (py_slice_to row n_neigh_i)))))"
  note L = shapes_agree_lengths [OF sh]
  have "for_loop (py_range (int (length nlist))) ?body (?st 0) = Inr (?st (length nlist))"
  proof (rule for_loop_states [where st = ?st])
    fix k assume k: "k < length nlist"
    with L have kn: "k < nnodes self" by simp
    note R = shapes_agree_row [OF sh kn]
    from R have le: "nat (n_neigh ! k) \<le> length (nlist ! k)" by simp
    from R have sl: "py_slice_to (nlist ! k) (n_neigh ! k) = take (nat (n_neigh ! k)) (nlist ! k)"
      by (simp add: py_slice_to_def)
    from k kn L show "?body (int k) (?st k) = Inr (?st (Suc k))"
      by (simp add: py_index_nat sl crack_row [OF le])
  qed
  then show ?thesis
    by (simp add: crack_pairs_def bonded_pairs_def directed_bonds_def filter_concat o_def)
qed

lemma crack_loop:
  assumes "\<And>i j. (i, j) \<in> set ps \<Longrightarrow>
     0 \<le> i \<and> i < int (length cs) \<and> 0 \<le> j \<and> j < int (length cs)"
  shows "\<exists>crack. for_loop ps
           (\<lambda>p s. case p of (i, j) \<Rightarrow> case s of (crack, calls) \<Rightarrow>
              bindE (py_index cs i) (\<lambda>x.
              bindE (py_index cs j) (\<lambda>y.
                Inr (if crack_function x y then crack @ [(i, j)] else crack,
                     calls @ [(i, j)]))))
           (crack0, calls0) = Inr (crack, calls0 @ ps)"
  using assms
proof (induction ps arbitrary: crack0 calls0)
  case Nil
  then show ?case by simp
next
  case (Cons p ps)
  obtain i j where p: "p = (i, j)" by (cases p)
  from Cons.prems [of i j] p
  have "py_index cs i = Inr (cs ! nat i)" "py_index cs j = Inr (cs ! nat j)"
    by (simp_all add: py_index_in_range)
  moreover from Cons.IH [of "if crack_function (cs ! nat i) (cs ! nat j)
        then crack0 @ [(i, j)] else crack0" "calls0 @ [(i, j)]"] Cons.prems
  obtain crack where "for_loop ps
           (\<lambda>p s. case p of (i, j) \<Rightarrow> case s of (crack, calls) \<Rightarrow>
              bindE (py_index cs i) (\<lambda>x.
              bindE (py_index cs j) (\<lambda>y.
                Inr (if crack_function x y then crack @ [(i, j)] else crack,
                     calls @ [(i, j)]))))
           (if crack_function (cs ! nat i) (cs ! nat j) then crack0 @ [(i, j)] else crack0,
            calls0 @ [(i, j)]) = Inr (crack, (calls0 @ [(i, j)]) @ ps)"
    by auto
  ultimately show ?case unfolding p by simp
qed

lemma bonded_pairs_in_range:
  assumes sh: "shapes_agree self nlist n_neigh"
    and p: "(i, j) \<in> set (bonded_pairs nlist n_neigh)"
  shows "0 \<le> i \<and> i < int (nnodes self) \<and> 0 \<le> j \<and> j < int (nnodes self)"
proof -
  note L = shapes_agree_lengths [OF sh]
  from p obtain a k where a: "a < length nlist" "k < nat (n_neigh ! a)"
    "i = int a" "j = nlist ! a ! k"
    by (auto simp: bonded_pairs_def directed_bonds_def)
  with L have an: "a < nnodes self" by simp
  from shapes_agree_slot [OF sh an, of k] a an show ?thesis by simp
qed

lemma initial_crack_calls:
  assumes sh: "shapes_agree self nlist n_neigh" and c: "length (coords self) = nnodes self"
  shows "\<exists>crack. initial_crack_helper crack_function (coords self) nlist n_neigh
           = Inr (crack, bonded_pairs nlist n_neigh)"
proof -
  have r: "0 \<le> i \<and> i < int (length (coords self)) \<and> 0 \<le> j \<and> j < int (length (coords self))"
    if "(i, j) \<in> set (bonded_pairs nlist n_neigh)" for i j
    using bonded_pairs_in_range [OF sh that] c by simp
  from crack_loop [of "bonded_pairs nlist n_neigh" "coords self" crack_function "[]" "[]", OF r]
  show ?thesis
    by (simp add: initial_crack_helper_def crack_pairs_ok [OF sh])
qed

lemma example_bonds:
  "directed_bonds example_nlist example_n_neigh = [(0, 1), (1, 0)]"
  "bonded_pairs example_nlist example_n_neigh = [(0, 1)]"
  by (simp_all add: bonded_pairs_def directed_bonds_def example_nlist_def example_n_neigh_def
      upt_conv_Cons)

text \<open>
  The converse direction: whatever the shapes, a loop that has returned has made the
  calls below, each once and in this order.
\<close>

lemma for_loop_range_post:
  assumes run: "for_loop (py_range (int n)) body s0 = Inr s'"
    and init: "P 0 s0"
    and step: "\<And>k s t. k < n \<Longrightarrow> P k s \<Longrightarrow> body (int k) s = Inr t \<Longrightarrow> P (Suc k) t"
  shows "P n s'"
  using run step
proof (induction n arbitrary: s')
  case 0
  with init show ?case by (simp add: py_range_0)
next
  case (Suc n)
  from Suc.prems(1)
  have "bindE (for_loop (py_range (int n)) body s0) (for_loop [int n] body) = Inr s'"
    by (simp only: py_range_Suc for_loop_append)
  then obtain s where s: "for_loop (py_range (int n)) body s0 = Inr s"
    and l: "for_loop [int n] body s = Inr s'"
    by (auto simp: bindE_eq_Inr)
  from l have b: "body (int n) s = Inr s'" by (cases "body (int n) s") simp_all
  have "P n s"
  proof (rule Suc.IH [OF s])
    fix k s t assume "k < n" "P k s" "body (int k) s = Inr t"
    with Suc.prems(2) [of k s t] show "P (Suc k) t" by simp
  qed
  from Suc.prems(2) [OF _ this b] show ?case by simp
qed

lemma py_index_nat_Inr:
  "py_index xs (int k) = Inr v \<Longrightarrow> k < length xs \<and> v = xs ! k"
  by (auto simp: py_index_def split: if_splits)

lemma py_index2_nat_Inr:
  "py_index2 a (int i) (int k) = Inr v \<Longrightarrow> v = a ! i ! k"
  by (auto simp: py_index2_def bindE_eq_Inr dest!: py_index_nat_Inr)

lemma material_body_call:
  assumes "material_body self nlist bond_type (int i) (int k) s = Inr t"
  shows "snd t = snd s @ [(int i, nlist ! i ! k)]"
proof -
  obtain mt calls where s: "s = (mt, calls)" by (cases s)
  from assms obtain j where j: "py_index2 nlist (int i) (int k) = Inr j"
    and t: "snd t = calls @ [(int i, j)]"
    unfolding s material_body_def by (auto simp: bindE_eq_Inr Let_def)
  from py_index2_nat_Inr [OF j] t s show ?thesis by simp
qed

lemma material_inner_post:
  assumes "for_loop (py_range c) (material_body self nlist bond_type (int i)) s = Inr t"
  shows "snd t = snd s @ map (\<lambda>k. (int i, nlist ! i ! k)) [0..<nat c]"
proof -
  let ?P = "\<lambda>k (u :: int list list \<times> (int \<times> int) list).
              snd u = snd s @ map (\<lambda>k. (int i, nlist ! i ! k)) [0..<k]"
  have "py_range (int (nat c)) = py_range c" by (simp add: py_range_def)
  with assms have run: "for_loop (py_range (int (nat c)))
      (material_body self nlist bond_type (int i)) s = Inr t"
    by (simp only:)
  show ?thesis
  proof (rule for_loop_range_post [where P = ?P, OF run])
    show "?P 0 s" by simp
  next
    fix k u v assume "k < nat c" and P: "?P k u"
      and b: "material_body self nlist bond_type (int i) (int k) u = Inr v"
    from material_body_call [OF b] P show "?P (Suc k) v" by simp
  qed
qed

lemma material_types_post:
  assumes "set_material_types self (nlist, n_neigh) bond_type = Inr (mt, calls)"
    and len: "length nlist = nnodes self"
  shows "calls = directed_bonds nlist n_neigh"
proof -
  let ?body = "\<lambda>i s. bindE (py_index n_neigh i) (\<lambda>n_neigh_i.
                      for_loop (py_range n_neigh_i) (material_body self nlist bond_type i) s)"
  let ?calls = "\<lambda>k. concat (map (\<lambda>i. map (\<lambda>k. (int i, nlist ! i ! k)) [0..<nat (n_neigh ! i)])
                          [0..<k])"
  let ?P = "\<lambda>k (u :: int list list \<times> (int \<times> int) list). snd u = ?calls k"
  from assms(1) have run: "for_loop (py_range (int (nnodes self))) ?body
       (replicate (nnodes self) (replicate (nat (max_neighbours self)) 0), []) = Inr (mt, calls)"
    by (simp add: set_material_types_def split: if_splits)
  have "?P (nnodes self) (mt, calls)"
  proof (rule for_loop_range_post [where P = ?P, OF run])
    show "?P 0 (replicate (nnodes self) (replicate (nat (max_neighbours self)) 0), [])"
      by simp
  next
    fix k u v assume k: "k < nnodes self" and P: "?P k u" and b: "?body (int k) u = Inr v"
    from b obtain c where c: "py_index n_neigh (int k) = Inr c"
      and l: "for_loop (py_range c) (material_body self nlist bond_type (int k)) u = Inr v"
      by (auto simp: bindE_eq_Inr)
    from py_index_nat_Inr [OF c] have "c = n_neigh ! k" by simp
    with material_inner_post [OF l] P show "?P (Suc k) v" by simp
  qed
  with len show ?thesis by (simp add: directed_bonds_def)
qed

lemma crack_pairs_post:
  assumes run: "crack_pairs nlist n_neigh = Inr ps"
    and counts: "counts_in_rows nlist n_neigh"
  shows "ps = bonded_pairs nlist n_neigh"
proof -
  let ?row = "\<lambda>i. filter (\<lambda>(i, j). i < j)
                   (map (\<lambda>k. (int i, nlist ! i ! k)) [0..<nat (n_neigh ! i)])"
  let ?P = "\<lambda>k (u :: (int \<times> int) list). u = concat (map ?row [0..<k])"
  let ?body = "\<lambda>i pairs.
          bindE (py_index nlist i) (\<lambda>row.
          bindE (py_index n_neigh i) (\<lambda>n_neigh_i.
            Inr (pairs @ map (\<lambda>j. (i, j)) (filter (\<lambda>j. i < j) (py_slice_to row n_neigh_i)))))"
  from run have run': "for_loop (py_range (int (length nlist))) ?body [] = Inr ps"
    by (simp add: crack_pairs_def)
  have "?P (length nlist) ps"
  proof (rule for_loop_range_post [where P = ?P, OF run'])
    show "?P 0 []" by simp
  next
    fix k u v assume k: "k < length nlist" and P: "?P k u" and b: "?body (int k) u = Inr v"
    from b obtain row c where r: "py_index nlist (int k) = Inr row"
      and c: "py_index n_neigh (int k) = Inr c"
      and v: "v = u @ map (\<lambda>j. (int k, j)) (filter (\<lambda>j. int k < j) (py_slice_to row c))"
      by (auto simp: bindE_eq_Inr)
    from py_index_nat_Inr [OF r] py_index_nat_Inr [OF c]
    have row: "row = nlist ! k" and cc: "c = n_neigh ! k" by simp_all
    from counts k have b0: "0 \<le> n_neigh ! k" and b1: "n_neigh ! k \<le> int (length (nlist ! k))"
      by (simp_all add: counts_in_rows_def list_all_iff)
    from b1 b0 have le: "nat (n_neigh ! k) \<le> length (nlist ! k)" by simp
    from b0 have sl: "py_slice_to (nlist ! k) (n_neigh ! k) = take (nat (n_neigh ! k)) (nlist ! k)"
      by (simp add: py_slice_to_def)
    from v P show "?P (Suc k) v"
      by (simp add: row cc sl crack_row [OF le])
  qed
  then show ?thesis
    by (simp add: bonded_pairs_def directed_bonds_def filter_concat o_def)
qed

lemma crack_loop_post:
  "for_loop ps
     (\<lambda>p s. case p of (i, j) \<Rightarrow> case s of (crack, calls) \<Rightarrow>
        bindE (py_index cs i) (\<lambda>x.
        bindE (py_index cs j) (\<lambda>y.
          Inr (if crack_function x y then crack @ [(i, j)] else crack,
               calls @ [(i, j)]))))
     (crack0, calls0) = Inr (crack, calls) \<Longrightarrow> calls = calls0 @ ps"
proof (induction ps arbitrary: crack0 calls0)
  case Nil
  then show ?case by simp
next
  case (Cons p ps)
  obtain i j where p: "p = (i, j)" by (cases p)
  from Cons.prems obtain crack1 where "for_loop ps
     (\<lambda>p s. case p of (i, j) \<Rightarrow> case s of (crack, calls) \<Rightarrow>
        bindE (py_index cs i) (\<lambda>x.
        bindE (py_index cs j) (\<lambda>y.
          Inr (if crack_function x y then crack @ [(i, j)] else crack,
               calls @ [(i, j)]))))
     (crack1, calls0 @ [(i, j)]) = Inr (crack, calls)"
    unfolding p by (auto simp: bindE_eq_Inr split: sum.splits)
  from Cons.IH [OF this] show ?case by (simp add: p)
qed

lemma initial_crack_post:
  assumes "initial_crack_helper crack_function cs nlist n_neigh = Inr (crack, calls)"
    and "counts_in_rows nlist n_neigh"
  shows "calls = bonded_pairs nlist n_neigh"
proof -
  from assms(1) obtain ps where ps: "crack_pairs nlist n_neigh = Inr ps"
    and l: "for_loop ps
     (\<lambda>p s. case p of (i, j) \<Rightarrow> case s of (crack, calls) \<Rightarrow>
        bindE (py_index cs i) (\<lambda>x.
        bindE (py_index cs j) (\<lambda>y.
          Inr (if crack_function x y then crack @ [(i, j)] else crack,
               calls @ [(i, j)]))))
     ([], []) = Inr (crack, calls)"
    by (auto simp: initial_crack_helper_def bindE_eq_Inr)
  from crack_loop_post [OF l] crack_pairs_post [OF ps assms(2)] show ?thesis by simp
qed

lemma crack_setup_calls:
  assumes "crack_setup create_crack self initial_crack (nlist, n_neigh) = Inr (c, calls)"
    and "counts_in_rows nlist n_neigh"
  shows "calls = (case initial_crack of CrackHelper f \<Rightarrow> bonded_pairs nlist n_neigh
                  | _ \<Rightarrow> [])"
proof (cases initial_crack)
  case (CrackList pairs)
  with assms(1) show ?thesis
    by (cases pairs) (auto simp: crack_setup_def bindE_eq_Inr)
next
  case (CrackFunction f)
  with assms(1) show ?thesis by (auto simp: crack_setup_def bindE_eq_Inr)
next
  case (CrackHelper f)
  with assms(1) obtain crack where
    "initial_crack_helper f (coords self) nlist n_neigh = Inr (crack, calls)"
    by (auto simp: crack_setup_def bindE_eq_Inr)
  from initial_crack_post [OF this assms(2)] CrackHelper show ?thesis by simp
qed

lemma material_types_setup_calls:
  assumes "material_types_setup self (nlist, n_neigh) bond_type material_types' = Inr (mt, calls)"
    and "length nlist = nnodes self"
  shows "calls = (if material_types' = ArgNone then directed_bonds nlist n_neigh else [])"
proof (cases material_types')
  case ArgNone
  with assms(1) have "set_material_types self (nlist, n_neigh) (default_bond_type bond_type)
      = Inr (mt, calls)"
    by (simp add: material_types_setup_def)
  from material_types_post [OF this assms(2)] ArgNone show ?thesis by simp
next
  case (ArgArray a)
  with assms(1) show ?thesis by (auto simp: material_types_setup_def split: if_splits)
next
  case ArgOther
  with assms(1) show ?thesis by (simp add: material_types_setup_def)
qed

lemma simulate_body_keeps_calls:
  assumes "simulate_body self integrator dbm fbm w step s = Inr s'"
  shows "callback_calls s' = callback_calls s"
proof -
  from assms obtain d f where
    r: "(case w of None \<Rightarrow> Inr (s\<lparr>integ := call integrator d f (integ s)\<rparr>)
         | Some w \<Rightarrow> if w \<noteq> 0 \<and> step mod w = 0
             then write_step self integrator (s\<lparr>integ := call integrator d f (integ s)\<rparr>)
             else Inr (s\<lparr>integ := call integrator d f (integ s)\<rparr>)) = Inr s'"
    by (auto simp: simulate_body_def Let_def bindE_eq_Inr)
  let ?s1 = "s\<lparr>integ := call integrator d f (integ s)\<rparr>"
  have "s' = ?s1 \<or> write_step self integrator ?s1 = Inr s'"
    using r by (auto split: option.splits if_splits)
  then show ?thesis
  proof
    assume "s' = ?s1"
    then show ?thesis by simp
  next
    assume "write_step self integrator ?s1 = Inr s'"
    then show ?thesis by (auto simp: write_step_def Let_def bindE_eq_Inr)
  qed
qed

lemma simulate_keeps_calls:
  assumes "simulate self integrator steps dbm fbm first_step w s0 = Inr s'"
  shows "callback_calls s' = callback_calls s0"
proof (rule for_loop_relation [where R = "\<lambda>s t. callback_calls t = callback_calls s",
      OF _ _ _ assms [unfolded simulate_def]])
  show "\<And>x s s'. simulate_body self integrator dbm fbm w x s = Inr s' \<Longrightarrow>
          callback_calls s' = callback_calls s"
    by (rule simulate_body_keeps_calls)
qed simp_all


lemma init_setup_parts:
  assumes "init_setup env args (g, self2, bs, cs, tv) = Inr b"
  shows "\<exists>mn c cc mt bcalls.
           connectivity_setup env self2 g (arg_horizon args) (arg_connectivity args)
             (arg_initial_crack args) = Inr (mn, c, cc) \<and>
           material_types_setup (self2\<lparr>max_neighbours := mn\<rparr>) c (arg_bond_type args)
             (arg_material_types args) = Inr (mt, bcalls) \<and>
           initial_connectivity b = c \<and> nnodes (attributes b) = nnodes self2 \<and>
           setup_calls b = \<lparr>bond_type_calls = bcalls, crack_calls = cc\<rparr>"
  using assms by (auto simp: init_setup_def bindE_eq_Inr Let_def)

lemma connectivity_setup_parts:
  assumes "connectivity_setup env self g h conn ic = Inr (mn', c, cc)"
    and "neighbour_list_setup env self g h conn = Inr (mn, nlist0, n0)"
  shows "\<exists>create_crack. crack_setup create_crack self ic (nlist0, n0) = Inr (c, cc)"
  using assms by (auto simp: connectivity_setup_def bindE_eq_Inr split: if_splits)

section \<open>A construction of two nodes\<close>

lemma example_pair_arguments:
  "init_arguments example_env example_args_pair = Inr (example_integrator,
     \<lparr>dimensions = 2, coords = [[0, 0, 0], [1, 0, 0]], nnodes = 2, horizon = 1,
      nregimes = 1, nmaterials = 1, volume = [1, 1], family = [1, 1], max_neighbours = 0,
      degrees_freedom = 3, tip_types = [], volume_total = None\<rparr>, Scalar 1, Scalar 1, None)"
  by (simp add: init_arguments_def example_args_pair_def example_env_def check_integrator_def
      check_dimensions_def stiffness_setup_def py_or_def volume_setup_def family_setup_def)

lemma example_pair_neighbour_list:
  "neighbour_list_setup example_env self example_integrator h
     (ConnPair example_nlist example_n_neigh) = Inr (1, example_nlist, example_n_neigh)"
  by (simp add: neighbour_list_setup_def example_integrator_def np_shape2_def
      example_nlist_def np_intc_def check_power_of_two_def)

lemma example_counts_in_rows: "counts_in_rows example_nlist example_n_neigh"
  by (simp add: counts_in_rows_def example_nlist_def example_n_neigh_def upt_conv_Cons)

lemma example_pair_shapes_agree:
  "shapes_agree (example_model\<lparr>tip_types := []\<rparr>) example_nlist example_n_neigh"
  using example_shapes_agree by (simp add: shapes_agree_def)

lemma example_pair_crack:
  "initial_crack_helper (\<lambda>x y. False) [[0, 0, 0], [1, 0, 0]] example_nlist example_n_neigh
   = Inr ([], [(0, 1)])"
  by (simp add: initial_crack_helper_def crack_pairs_ok [OF example_shapes_agree]
      example_bonds py_index_def)

lemma example_pair_connectivity:
  "connectivity_setup example_env
     \<lparr>dimensions = 2, coords = [[0, 0, 0], [1, 0, 0]], nnodes = 2, horizon = 1,
      nregimes = 1, nmaterials = 1, volume = [1, 1], family = [1, 1], max_neighbours = 0,
      degrees_freedom = 3, tip_types = [], volume_total = None\<rparr>
     example_integrator 1 (ConnPair example_nlist example_n_neigh)
     (CrackHelper (\<lambda>x y. False))
   = Inr (1, (example_nlist, example_n_neigh), [(0, 1)])"
proof -
  have e: "context_set example_integrator" "create_crack_cl example_env = (\<lambda>pairs c. c)"
    by (simp_all add: example_integrator_def example_env_def)
  show ?thesis
    by (simp add: connectivity_setup_def example_pair_neighbour_list crack_setup_def
        example_pair_crack np_array_int32_def e)
qed

lemma example_pair_corrections:
  "set_stiffness_corrections (example_model\<lparr>tip_types := []\<rparr>) 1
     (example_nlist, example_n_neigh) (Some 1) = Inr [[pi / 1000], [pi / 1000]]"
proof -
  have b: "family_volume_bulk (example_model\<lparr>tip_types := []\<rparr>) 1 = Some (pi / 1000)"
    by (simp add: family_volume_bulk_def example_model_def)
  have fv: "family_volume (example_model\<lparr>tip_types := []\<rparr>) example_nlist 0 = 1"
    "family_volume (example_model\<lparr>tip_types := []\<rparr>) example_nlist (Suc 0) = 1"
    by (simp_all add: family_volume_def example_model_def example_nlist_def)
  have n: "nnodes (example_model\<lparr>tip_types := []\<rparr>) = 2"
    "max_neighbours (example_model\<lparr>tip_types := []\<rparr>) = 1"
    by (simp_all add: example_model_def)
  have l: "example_n_neigh ! 0 = 1" "example_n_neigh ! Suc 0 = 1"
    "nat (example_nlist ! 0 ! 0) = Suc 0" "nat (example_nlist ! Suc 0 ! 0) = 0"
    by (simp_all add: example_n_neigh_def example_nlist_def)
  show ?thesis
    unfolding precise_corrections [OF example_pair_shapes_agree b] n
    by (simp add: upt_conv_Cons l fv)
qed

lemma example_pair_material_types:
  "\<exists>mt. set_material_types (example_model\<lparr>tip_types := []\<rparr>)
          (example_nlist, example_n_neigh) (\<lambda>x y. 0) = Inr (mt, [(0, 1), (1, 0)])"
proof -
  have c: "length (coords (example_model\<lparr>tip_types := []\<rparr>))
             = nnodes (example_model\<lparr>tip_types := []\<rparr>)"
    by (simp add: example_model_def)
  from material_types_calls [where bond_type = "\<lambda>x y. 0", OF example_pair_shapes_agree c]
  show ?thesis by (simp add: example_bonds fits_intc_def)
qed

lemma example_pair_built:
  "\<exists>b. init example_env example_args_pair = Inr b \<and>
       nnodes (attributes b) = 2 \<and> horizon (attributes b) = 1 \<and>
       volume (attributes b) = [1, 1] \<and> family (attributes b) = [1, 1] \<and>
       built_integrator b = example_integrator \<and>
       initial_connectivity b = (example_nlist, example_n_neigh) \<and>
       stiffness_corrections b = [[pi / 1000], [pi / 1000]] \<and>
       setup_calls b = \<lparr>bond_type_calls = [(0, 1), (1, 0)], crack_calls = [(0, 1)]\<rparr>"
proof -
  let ?self = "example_model\<lparr>tip_types := []\<rparr>"
  let ?none = "\<lambda>x::real list. PyList [None, None, None]"
  have s3: "\<lparr>dimensions = 2, coords = [[0, 0, 0], [1, 0, 0]], nnodes = 2, horizon = 1,
      nregimes = 1, nmaterials = 1, volume = [1, 1], family = [1, 1], max_neighbours = 1,
      degrees_freedom = 3, tip_types = [], volume_total = None\<rparr> = ?self"
    by (simp add: example_model_def)
  have tot: "total_on ?self ?none" by (simp add: total_on_def three_axes_def list_all_iff)
  have "\<exists>r. set_boundary_conditions ?self (Callable ?none) (Callable ?none) (Callable ?none)
          = Inr r"
    by (rule set_boundary_conditions_returns [OF _ _ _ tot tot tot])
       (simp_all add: example_model_def)
  then obtain r where r: "set_boundary_conditions ?self (Callable ?none) (Callable ?none)
      (Callable ?none) = Inr r" ..
  from example_pair_material_types obtain mt where
    mt: "set_material_types ?self (example_nlist, example_n_neigh) (\<lambda>x y. 0)
          = Inr (mt, [(0, 1), (1, 0)])" ..
  have d: "default_boundary (arg_is_displacement_boundary example_args_pair) = Callable ?none"
    "default_boundary (arg_is_forces_boundary example_args_pair) = Callable ?none"
    "default_boundary (arg_is_tip example_args_pair) = Callable ?none"
    "default_bond_type (arg_bond_type example_args_pair) = (\<lambda>x y. 0)"
    by (simp_all add: default_boundary_def default_bond_type_def example_args_pair_def)
  have a: "arg_connectivity example_args_pair = ConnPair example_nlist example_n_neigh"
    "arg_initial_crack example_args_pair = CrackHelper (\<lambda>x y. False)"
    "arg_stiffness_corrections example_args_pair = ArgNone"
    "arg_material_types example_args_pair = ArgNone"
    "arg_precise_stiffness_correction example_args_pair = Some 1"
    "arg_horizon example_args_pair = 1"
    by (simp_all add: example_args_pair_def)
  have h: "horizon ?self = 1" "volume ?self = [1, 1]" "family ?self = [1, 1]"
    "nnodes ?self = 2"
    by (simp_all add: example_model_def)
  show ?thesis
    by (simp add: init_def example_pair_arguments family_check_def init_setup_def a
        example_pair_connectivity s3 stiffness_corrections_setup_def h
        example_pair_corrections material_types_setup_def d mt r)
qed

text \<open>
  Claim C1. The claim gives the factor of a bond slot in precise mode and 2 dimensions as
  \<open>2 * (pi * horizon\<^sup>2) / (family_volume i + family_volume j)\<close>. The code computes the bulk
  family volume of 2 dimensions as \<^verbatim>\<open>np.pi*np.power(horizon, 2) * 0.001\<close> (line 667),
  while the nodal volumes of 2 dimensions are plain areas (\<^verbatim>\<open>_volume\<close>) and the bulk
  volume of 3 dimensions carries no such factor. For the construction of two nodes of
  volume 1 that are each other's only neighbour, with horizon 1 and no crack, the family
  of either node is the other node, both family volumes are 1 and the factor of the claim
  is \<open>2 * pi / 2 = pi\<close>; the constructed model holds \<open>pi / 1000\<close> in slot \<open>(0, 0)\<close>.
  (In general the slot holds twice the bulk family volume of \<open>family_volume_bulk\<close> over
  the sum of the two family volumes, lemma \<open>precise_correction_slot\<close>.)
\<close>

theorem precise_correction_2d_thousandth:
  "bindE (init example_env example_args_pair)
     (\<lambda>b. py_index2 (stiffness_corrections b) 0 0) = Inr (pi / 1000) \<and>
   bindE (init example_env example_args_pair)
     (\<lambda>b. Inr (2 * (pi * (horizon (attributes b)) ^ 2)
               / (family_volume (attributes b) (fst (initial_connectivity b)) 0
                  + family_volume (attributes b) (fst (initial_connectivity b))
                      (nat (fst (initial_connectivity b) ! 0 ! 0))))) = Inr pi \<and>
   pi / 1000 \<noteq> pi"
proof -
  from example_pair_built obtain b where b: "init example_env example_args_pair = Inr b"
    "horizon (attributes b) = 1" "volume (attributes b) = [1, 1]"
    "family (attributes b) = [1, 1]"
    "initial_connectivity b = (example_nlist, example_n_neigh)"
    "stiffness_corrections b = [[pi / 1000], [pi / 1000]]" by blast
  have "family_volume (attributes b) example_nlist 0 = 1"
    "family_volume (attributes b) example_nlist (Suc 0) = 1"
    by (simp_all add: family_volume_def b example_nlist_def)
  moreover have "nat (example_nlist ! 0 ! 0) = Suc 0" by (simp add: example_nlist_def)
  ultimately show ?thesis by (simp add: b py_index2_def py_index_def)
qed

text \<open>
  Claim C8, as amended. Let the construction complete, with an initial neighbour list of
  one row per node; let the neighbour list before the crack have its neighbour counts
  within its rows. Then the function bound to \<^verbatim>\<open>bond_type\<close> has been invoked exactly
  once per directed bond of the initial connectivity, that is once per slot \<open>(i, k)\<close>
  with \<open>k < n_neigh[i]\<close> and so twice for two nodes that are each other's neighbours,
  when no array of material types is supplied, and not at all when one is supplied. The
  predicate given to \<^verbatim>\<open>initial_crack_helper\<close> has been invoked exactly once per entry
  \<open>(i, j)\<close> with \<open>i < j\<close> of the neighbour list before the crack, and not at all when the
  initial crack is a list or a function of the caller's own. Both lists of calls are
  given in the order of the calls. A run of \<^verbatim>\<open>simulate\<close> on the constructed model
  that returns has added no call of either function.
\<close>

theorem callbacks_invoked_during_setup_only:
  assumes "init_arguments env args = Inr (g, self2, bs, cs, tv)"
    and "neighbour_list_setup env self2 g (arg_horizon args) (arg_connectivity args)
           = Inr (mn, nlist0, n0)"
    and "counts_in_rows nlist0 n0"
    and "init env args = Inr b"
    and "length (fst (initial_connectivity b)) = nnodes (attributes b)"
    and "simulate (attributes b) (built_integrator b) steps dbm fbm first_step w s0 = Inr s'"
  shows "bond_type_calls (setup_calls b)
           = (if arg_material_types args = ArgNone
              then directed_bonds (fst (initial_connectivity b)) (snd (initial_connectivity b))
              else []) \<and>
         crack_calls (setup_calls b)
           = (case arg_initial_crack args of
                CrackHelper crack_function \<Rightarrow> bonded_pairs nlist0 n0
              | _ \<Rightarrow> []) \<and>
         callback_calls s' = callback_calls s0"
proof -
  from assms(4) assms(1) have "init_setup env args (g, self2, bs, cs, tv) = Inr b"
    by (auto simp: init_def bindE_eq_Inr)
  from init_setup_parts [OF this] obtain mn' c cc mt bcalls where
    cs: "connectivity_setup env self2 g (arg_horizon args) (arg_connectivity args)
             (arg_initial_crack args) = Inr (mn', c, cc)"
    and m: "material_types_setup (self2\<lparr>max_neighbours := mn'\<rparr>) c (arg_bond_type args)
             (arg_material_types args) = Inr (mt, bcalls)"
    and ic: "initial_connectivity b = c" and n: "nnodes (attributes b) = nnodes self2"
    and sc: "setup_calls b = \<lparr>bond_type_calls = bcalls, crack_calls = cc\<rparr>"
    by blast
  obtain nlist n_neigh where c: "c = (nlist, n_neigh)" by (cases c)
  from assms(5) ic c n have len: "length nlist = nnodes (self2\<lparr>max_neighbours := mn'\<rparr>)"
    by simp
  from connectivity_setup_parts [OF cs assms(2)] obtain create_crack where
    "crack_setup create_crack self2 (arg_initial_crack args) (nlist0, n0) = Inr (c, cc)"
    by blast
  from crack_setup_calls [OF this assms(3)]
  have 1: "cc = (case arg_initial_crack args of
                   CrackHelper crack_function \<Rightarrow> bonded_pairs nlist0 n0 | _ \<Rightarrow> [])" .
  from material_types_setup_calls [OF m [unfolded c] len]
  have 2: "bcalls = (if arg_material_types args = ArgNone then directed_bonds nlist n_neigh
                     else [])" .
  from simulate_keeps_calls [OF assms(6)] 1 2 show ?thesis
    by (simp add: sc ic c)
qed

theorem callbacks_invoked_during_setup_only_witness:
  "init_arguments example_env example_args_pair = Inr (example_integrator,
     \<lparr>dimensions = 2, coords = [[0, 0, 0], [1, 0, 0]], nnodes = 2, horizon = 1,
      nregimes = 1, nmaterials = 1, volume = [1, 1], family = [1, 1], max_neighbours = 0,
      degrees_freedom = 3, tip_types = [], volume_total = None\<rparr>, Scalar 1, Scalar 1, None) \<and>
   neighbour_list_setup example_env
     \<lparr>dimensions = 2, coords = [[0, 0, 0], [1, 0, 0]], nnodes = 2, horizon = 1,
      nregimes = 1, nmaterials = 1, volume = [1, 1], family = [1, 1], max_neighbours = 0,
      degrees_freedom = 3, tip_types = [], volume_total = None\<rparr>
     example_integrator (arg_horizon example_args_pair) (arg_connectivity example_args_pair)
     = Inr (1, example_nlist, example_n_neigh) \<and>
   counts_in_rows example_nlist example_n_neigh \<and>
   (\<exists>b s'. init example_env example_args_pair = Inr b \<and>
      length (fst (initial_connectivity b)) = nnodes (attributes b) \<and>
      simulate (attributes b) (built_integrator b) 2 [0, 0] [0, 0] 1 None example_state
        = Inr s' \<and>
      bond_type_calls (setup_calls b) = [(0, 1), (1, 0)] \<and>
      crack_calls (setup_calls b) = [(0, 1)] \<and>
      callback_calls example_state = setup_calls b \<and>
      callback_calls s' = setup_calls b)"
proof -
  from example_pair_built obtain b where b: "init example_env example_args_pair = Inr b"
    "nnodes (attributes b) = 2" "built_integrator b = example_integrator"
    "initial_connectivity b = (example_nlist, example_n_neigh)"
    "setup_calls b = \<lparr>bond_type_calls = [(0, 1), (1, 0)], crack_calls = [(0, 1)]\<rparr>"
    by blast
  have a: "arg_connectivity example_args_pair = ConnPair example_nlist example_n_neigh"
    "arg_initial_crack example_args_pair = CrackHelper (\<lambda>x y. False)"
    "arg_material_types example_args_pair = ArgNone"
    by (simp_all add: example_args_pair_def)
  have n: "neighbour_list_setup example_env
     \<lparr>dimensions = 2, coords = [[0, 0, 0], [1, 0, 0]], nnodes = 2, horizon = 1,
      nregimes = 1, nmaterials = 1, volume = [1, 1], family = [1, 1], max_neighbours = 0,
      degrees_freedom = 3, tip_types = [], volume_total = None\<rparr>
     example_integrator (arg_horizon example_args_pair) (arg_connectivity example_args_pair)
     = Inr (1, example_nlist, example_n_neigh)"
    by (simp add: a example_pair_neighbour_list)
  have l: "length (fst (initial_connectivity b)) = nnodes (attributes b)"
    by (simp add: b example_nlist_def)
  have r2: "py_range 2 = [0, 1]" by (simp add: py_range_def upt_conv_Cons)
  have s: "simulate (attributes b) (built_integrator b) 2 [0, 0] [0, 0] 1 None example_state
        = Inr (example_state\<lparr>integ := 2\<rparr>)"
    by (simp add: simulate_def r2 simulate_body_def py_index_def b example_integrator_def
        example_state_def)
  from callbacks_invoked_during_setup_only [OF example_pair_arguments n
      example_counts_in_rows b(1) l s]
  show ?thesis using example_pair_arguments n example_counts_in_rows b(1) l s
    by (auto simp: a b example_bonds example_state_def)
qed

text \<open>
  Claim C8 as stated fails for \<^verbatim>\<open>bond_type\<close>: in the construction of two nodes that
  are each other's only neighbour there is one bonded pair, and \<^verbatim>\<open>bond_type\<close> is
  invoked twice, once for \<open>(0, 1)\<close> and once for \<open>(1, 0)\<close>.
\<close>

theorem bond_type_invoked_twice_for_pair:
  "bindE (init example_env example_args_pair)
     (\<lambda>b. Inr (bond_type_calls (setup_calls b))) = Inr [(0, 1), (1, 0)] \<and>
   bindE (init example_env example_args_pair)
     (\<lambda>b. Inr (length (bond_type_calls (setup_calls b))))
     \<noteq> Inr (length (bonded_pairs example_nlist example_n_neigh))"
proof -
  from example_pair_built obtain b where "init example_env example_args_pair = Inr b"
    "setup_calls b = \<lparr>bond_type_calls = [(0, 1), (1, 0)], crack_calls = [(0, 1)]\<rparr>"
    by blast
  then show ?thesis by (simp add: example_bonds)
qed

section \<open>Properties of the constructor\<close>

lemma list_shape_mismatch_raises:
  "np_shape a \<noteq> np_shape (content cs) \<Longrightarrow> stiffness_setup (ListArg a) cs = Inl ValueError"
  by (simp add: stiffness_setup_def py_or_def)

text \<open>
  Claim C9. For a \<^verbatim>\<open>bond_stiffness\<close> that is a numpy array the test
  \<^verbatim>\<open>type(bond_stiffness) is (list or np.ndarray)\<close> is false, since
  \<^verbatim>\<open>(list or np.ndarray)\<close> is \<^verbatim>\<open>list\<close>: whatever the array's shape and whatever
  \<^verbatim>\<open>critical_stretch\<close> is, the scalar branch sets \<open>nregimes = nmaterials = 1\<close> and
  no ValueError for differing shapes is raised. (A Python list of another shape than
  \<^verbatim>\<open>critical_stretch\<close> does raise it, lemma \<open>list_shape_mismatch_raises\<close>.)
\<close>

theorem ndarray_bond_stiffness_takes_scalar_branch:
  "stiffness_setup (NdarrayArg a) cs = Inr (1, 1, a, content cs)"
  by (simp add: stiffness_setup_def py_or_def)

theorem ndarray_bond_stiffness_takes_scalar_branch_witness:
  "stiffness_setup (NdarrayArg (Mat [[1, 2], [3, 4]])) (FloatArg 1)
     = Inr (1, 1, Mat [[1, 2], [3, 4]], Scalar 1)"
  using ndarray_bond_stiffness_takes_scalar_branch [of "Mat [[1, 2], [3, 4]]" "FloatArg 1"]
  by simp

lemma set_np_where_zero:
  "set (np_where_zero f) = {i. i < length f \<and> f ! i = 0}"
  by (auto simp: np_where_zero_def)

lemma sorted_np_where_zero: "sorted (np_where_zero f)" "distinct (np_where_zero f)"
  by (simp_all add: np_where_zero_def sorted_wrt_filter)

lemma digit_char_inj:
  assumes "a < 10" "b < 10" "digit_char a = digit_char b"
  shows "a = b"
proof -
  have d: "distinct ''0123456789''" by simp
  have l: "length ''0123456789'' = 10" by simp
  from assms show ?thesis
    unfolding digit_char_def using nth_eq_iff_index_eq [OF d, of a b] l by simp
qed

lemma digit_char_not_blank: "d < 10 \<Longrightarrow> digit_char d \<noteq> CHR '' ''"
proof -
  assume "d < 10"
  then have "digit_char d \<in> set ''0123456789''"
    unfolding digit_char_def by (intro nth_mem) simp
  then show ?thesis by auto
qed

lemma str_nat_not_empty: "str_nat n \<noteq> []"
  by (subst str_nat.simps) simp

lemma str_nat_no_blank: "CHR '' '' \<notin> set (str_nat n)"
proof (induction n rule: str_nat.induct)
  case (1 n)
  show ?case
  proof (cases "n < 10")
    case True
    then show ?thesis using digit_char_not_blank [of n] by (subst str_nat.simps) auto
  next
    case False
    with 1 have "CHR '' '' \<notin> set (str_nat (n div 10))" by simp
    moreover have "digit_char (n mod 10) \<noteq> CHR '' ''" by (rule digit_char_not_blank) simp
    ultimately show ?thesis using False by (subst str_nat.simps) auto
  qed
qed

lemma str_nat_inj: "str_nat n = str_nat m \<Longrightarrow> n = m"
proof (induction n arbitrary: m rule: str_nat.induct)
  case (1 n)
  show ?case
  proof (cases "n < 10")
    case n: True
    show ?thesis
    proof (cases "m < 10")
      case True
      with n "1.prems" have "digit_char n = digit_char m"
        by (simp add: str_nat.simps [of n] str_nat.simps [of m])
      with n True show ?thesis by (rule digit_char_inj)
    next
      case False
      with n "1.prems" have "[digit_char n] = str_nat (m div 10) @ [digit_char (m mod 10)]"
        by (simp add: str_nat.simps [of n] str_nat.simps [of m])
      then have "str_nat (m div 10) = []" by simp
      with str_nat_not_empty show ?thesis by blast
    qed
  next
    case n: False
    show ?thesis
    proof (cases "m < 10")
      case True
      with n "1.prems" have "str_nat (n div 10) @ [digit_char (n mod 10)] = [digit_char m]"
        by (simp add: str_nat.simps [of n] str_nat.simps [of m])
      then have "str_nat (n div 10) = []" by simp
      with str_nat_not_empty show ?thesis by blast
    next
      case False
      with n "1.prems" have "str_nat (n div 10) @ [digit_char (n mod 10)]
          = str_nat (m div 10) @ [digit_char (m mod 10)]"
        by (simp add: str_nat.simps [of n] str_nat.simps [of m])
      then have a: "str_nat (n div 10) = str_nat (m div 10)"
        and b: "digit_char (n mod 10) = digit_char (m mod 10)"
        by simp_all
      from "1.IH" [OF n a] have "n div 10 = m div 10" .
      moreover have "n mod 10 = m mod 10" by (rule digit_char_inj [OF _ _ b]) simp_all
      ultimately show ?thesis by (metis div_mult_mod_eq)
    qed
  qed
qed

lemma join_blank_Cons:
  "join_blank (x # xs) = (if xs = [] then x else x @ '' '' @ join_blank xs)"
  by (cases xs) simp_all

lemma join_blank_inj:
  assumes "\<And>x. x \<in> set xs \<Longrightarrow> x \<noteq> [] \<and> CHR '' '' \<notin> set x"
    and "\<And>y. y \<in> set ys \<Longrightarrow> y \<noteq> [] \<and> CHR '' '' \<notin> set y"
    and "join_blank xs = join_blank ys"
  shows "xs = ys"
  using assms
proof (induction xs arbitrary: ys)
  case Nil
  show ?case
  proof (cases ys)
    case Nil
    then show ?thesis by simp
  next
    case (Cons y ys')
    with Nil.prems(2) [of y] have "y \<noteq> []" by simp
    with Nil.prems(3) Cons show ?thesis by (simp add: join_blank_Cons split: if_splits)
  qed
next
  case (Cons x xs)
  from Cons.prems(1) [of x] have x: "x \<noteq> []" "CHR '' '' \<notin> set x" by simp_all
  show ?case
  proof (cases ys)
    case Nil
    with Cons.prems(3) x show ?thesis by (simp add: join_blank_Cons split: if_splits)
  next
    case ys: (Cons y ys')
    from Cons.prems(2) [of y] ys have y: "y \<noteq> []" "CHR '' '' \<notin> set y" by simp_all
    have tw: "takeWhile (\<lambda>c. c \<noteq> CHR '' '') (join_blank (z # zs)) = z"
      if z: "CHR '' '' \<notin> set z" for z zs
    proof -
      from z have all: "\<And>c. c \<in> set z \<Longrightarrow> c \<noteq> CHR '' ''" by blast
      have "takeWhile (\<lambda>c. c \<noteq> CHR '' '') (z @ CHR '' '' # join_blank zs) = z"
        using takeWhile_append2 [of z "\<lambda>c. c \<noteq> CHR '' ''" "CHR '' '' # join_blank zs"] all
        by simp
      moreover have "takeWhile (\<lambda>c. c \<noteq> CHR '' '') z = z"
        using all by (simp add: takeWhile_eq_all_conv)
      ultimately show ?thesis by (simp add: join_blank_Cons)
    qed
    from Cons.prems(3) ys have "takeWhile (\<lambda>c. c \<noteq> CHR '' '') (join_blank (x # xs))
        = takeWhile (\<lambda>c. c \<noteq> CHR '' '') (join_blank (y # ys'))"
      by simp
    then have xy: "x = y" by (simp only: tw [OF x(2)] tw [OF y(2)])
    have rest: "xs = ys'"
    proof (cases "xs = []")
      case True
      show ?thesis
      proof (cases "ys' = []")
        case True
        with \<open>xs = []\<close> show ?thesis by simp
      next
        case False
        with True Cons.prems(3) ys xy have "y = y @ '' '' @ join_blank ys'"
          by (simp add: join_blank_Cons)
        then show ?thesis by simp
      qed
    next
      case False
      show ?thesis
      proof (cases "ys' = []")
        case True
        with False Cons.prems(3) ys xy have "y @ '' '' @ join_blank xs = y"
          by (simp add: join_blank_Cons)
        then show ?thesis by simp
      next
        case ne: False
        with False Cons.prems(3) ys xy have "join_blank xs = join_blank ys'"
          by (simp add: join_blank_Cons)
        moreover have "\<And>x. x \<in> set xs \<Longrightarrow> x \<noteq> [] \<and> CHR '' '' \<notin> set x"
          using Cons.prems(1) by simp
        moreover have "\<And>y. y \<in> set ys' \<Longrightarrow> y \<noteq> [] \<and> CHR '' '' \<notin> set y"
          using Cons.prems(2) ys by simp
        ultimately show ?thesis using Cons.IH by blast
      qed
    qed
    with xy ys show ?thesis by simp
  qed
qed

lemma family_error_message_inj:
  assumes "family_error_message f = family_error_message g"
  shows "np_where_zero f = np_where_zero g"
proof -
  from assms have "join_blank (map str_nat (np_where_zero f))
      = join_blank (map str_nat (np_where_zero g))"
    unfolding family_error_message_def by (simp only: same_append_eq append_same_eq)
  then have "map str_nat (np_where_zero f) = map str_nat (np_where_zero g)"
    by (intro join_blank_inj) (auto simp: str_nat_not_empty str_nat_no_blank)
  moreover have "inj str_nat" by (rule injI) (rule str_nat_inj)
  ultimately show ?thesis by (simp add: inj_map_eq_map)
qed

lemma example_arguments_accepted: "init_arguments example_env example_args = Inr (example_integrator,
   \<lparr>dimensions = 2, coords = [[0, 0, 0], [1, 0, 0], [5, 0, 0]],
                   nnodes = 3, horizon = 3 / 2,
                   nregimes = 1, nmaterials = 1, volume = [1, 1, 1],
                   family = [1, 1, 0], max_neighbours = 0, degrees_freedom = 3, tip_types = [],
                   volume_total = None\<rparr>, Scalar 1, Scalar 1, None)"
  by (simp add: init_arguments_def example_args_def example_env_def check_integrator_def
      check_dimensions_def stiffness_setup_def py_or_def volume_setup_def family_setup_def
      power2_eq_square)

lemma example_family_message: "family_error_message [1, 1, 0] =
    ''The following nodes have no bonds in the initial state, 2.''"
  by (simp add: family_error_message_def np_where_zero_def upt_conv_Cons digit_char_def
      str_nat.simps)

text \<open>
  Claim C3. Let the constructor reach the family array without an error in its arguments
  (the integrator, the dimensionality, the damage model, the volumes and the family array
  itself are accepted), and let a node have family count 0. Then the constructor raises
  FamilyError, whatever the connectivity, the crack, the arrays per bond and the boundary
  functions are: no setup after line 316 has a part in the result. The message is the
  fixed sentence with the decimal indices, joined by blanks, of \<^verbatim>\<open>np.where(family == 0)\<close>,
  which lists every index with family count 0 once, in increasing order, and no other;
  two family arrays with the same message have the same such indices.
\<close>

theorem zero_family_raises_family_error:
  assumes "init_arguments env args = Inr (g, self, bs, cs, tv)"
    and "list_ex (\<lambda>f. f = 0) (family self)"
  shows "init env args = Inl (FamilyError (family_error_message (family self))) \<and>
         family_error_message (family self) =
           ''The following nodes have no bonds in the initial state, ''
             @ join_blank (map str_nat (np_where_zero (family self))) @ ''.'' \<and>
         set (np_where_zero (family self))
           = {i. i < length (family self) \<and> family self ! i = 0} \<and>
         distinct (np_where_zero (family self)) \<and> sorted (np_where_zero (family self)) \<and>
         (\<forall>family'. family_error_message family' = family_error_message (family self)
            \<longrightarrow> np_where_zero family' = np_where_zero (family self))"
proof -
  from assms have a: "init env args = Inl (FamilyError (family_error_message (family self)))"
    by (simp add: init_def family_check_def)
  have b: "family_error_message (family self) =
           ''The following nodes have no bonds in the initial state, ''
             @ join_blank (map str_nat (np_where_zero (family self))) @ ''.''"
    by (simp only: family_error_message_def)
  have c: "set (np_where_zero (family self))
           = {i. i < length (family self) \<and> family self ! i = 0}"
    by (rule set_np_where_zero)
  have d: "distinct (np_where_zero (family self))" and e: "sorted (np_where_zero (family self))"
    by (rule sorted_np_where_zero)+
  have f: "\<forall>family'. family_error_message family' = family_error_message (family self)
            \<longrightarrow> np_where_zero family' = np_where_zero (family self)"
    using family_error_message_inj by blast
  show ?thesis
    by (rule conjI [OF a conjI [OF b conjI [OF c conjI [OF d conjI [OF e f]]]]])
qed

theorem zero_family_raises_family_error_witness:
  "init_arguments example_env example_args = Inr (example_integrator,
     \<lparr>dimensions = 2, coords = [[0, 0, 0], [1, 0, 0], [5, 0, 0]],
       nnodes = 3, horizon = 3 / 2, nregimes = 1, nmaterials = 1, volume = [1, 1, 1],
       family = [1, 1, 0], max_neighbours = 0, degrees_freedom = 3, tip_types = [],
       volume_total = None\<rparr>, Scalar 1, Scalar 1, None) \<and>
   list_ex (\<lambda>f. f = 0) [1, 1, 0 :: int] \<and>
   init example_env example_args
     = Inl (FamilyError ''The following nodes have no bonds in the initial state, 2.'') \<and>
   np_where_zero [1, 1, 0] = [2]"
proof -
  have z: "list_ex (\<lambda>f. f = 0)
     (family \<lparr>dimensions = 2, coords = [[0, 0, 0], [1, 0, 0], [5, 0, 0]],
       nnodes = 3, horizon = 3 / 2, nregimes = 1, nmaterials = 1, volume = [1, 1, 1],
       family = [1, 1, 0], max_neighbours = 0, degrees_freedom = 3, tip_types = [],
       volume_total = None\<rparr>)"
    by simp
  have w: "np_where_zero [1, 1, 0] = [2]"
    by (simp add: np_where_zero_def upt_conv_Cons)
  from zero_family_raises_family_error [OF example_arguments_accepted z] example_arguments_accepted w
  show ?thesis by (simp add: example_family_message)
qed

lemma pow2_double: "0 < m \<Longrightarrow> (\<exists>k. (m::nat) = 2 ^ k) = (\<exists>k. 2 * m = 2 ^ k)"
proof
  assume "\<exists>k. m = 2 ^ k"
  then obtain k where "m = 2 ^ k" ..
  then have "2 * m = 2 ^ Suc k" by simp
  then show "\<exists>k. 2 * m = 2 ^ k" ..
next
  assume "0 < m" and "\<exists>k. 2 * m = 2 ^ k"
  then obtain k where k: "2 * m = 2 ^ k" by blast
  show "\<exists>k. m = 2 ^ k"
  proof (cases k)
    case 0
    with k have "2 * m = 1" by simp
    then show ?thesis by presburger
  next
    case (Suc k')
    with k have "m = 2 ^ k'" by simp
    then show ?thesis ..
  qed
qed

lemma pow2_odd: "(m = 0) = (\<exists>k. 2 * (m::nat) + 1 = 2 ^ k)"
proof
  assume "m = 0"
  then have "2 * m + 1 = 2 ^ 0" by simp
  then show "\<exists>k. 2 * m + 1 = 2 ^ k" ..
next
  assume "\<exists>k. 2 * m + 1 = 2 ^ k"
  then obtain k where k: "2 * m + 1 = 2 ^ k" ..
  show "m = 0"
  proof (cases k)
    case 0
    with k show ?thesis by simp
  next
    case (Suc k')
    with k have "2 * m + 1 = 2 * 2 ^ k'" by simp
    then show ?thesis by presburger
  qed
qed

lemma and_even_pred: "0 < m \<Longrightarrow> and (2 * m) (2 * m - 1) = 2 * and m (m - 1)" for m :: nat
proof -
  assume m: "0 < m"
  then have "(2 * m - 1) div 2 = m - 1" by presburger
  then show ?thesis by (subst and_nat_rec) simp
qed

lemma and_odd_pred: "and (2 * m + 1) (2 * m) = 2 * m" for m :: nat
  by (subst and_nat_rec) simp

lemma and_pred_nat:
  fixes n :: nat
  shows "0 < n \<Longrightarrow> (and n (n - 1) = 0) = (\<exists>k. n = 2 ^ k)"
proof (induction n rule: less_induct)
  case (less n)
  show ?case
  proof (cases "even n")
    case True
    with less.prems obtain m where m: "n = 2 * m" "0 < m" by (auto elim: evenE)
    then have "m < n" by simp
    from less.IH [OF this m(2)] have "(and m (m - 1) = 0) = (\<exists>k. m = 2 ^ k)" .
    then show ?thesis
      unfolding m(1) and_even_pred [OF m(2)] pow2_double [OF m(2), symmetric] by simp
  next
    case False
    then obtain m where m: "n = 2 * m + 1" by (auto elim: oddE)
    have "and (2 * m + 1) (2 * m + 1 - 1) = 2 * m" using and_odd_pred [of m] by simp
    then show ?thesis unfolding m pow2_odd [of m, symmetric] by simp
  qed
qed

lemma and_pred_int:
  fixes n :: int
  assumes "0 < n"
  shows "(and n (n - 1) = 0) = (\<exists>k. n = 2 ^ k)"
proof -
  from assms obtain a where a: "n = int a" "0 < a" by (metis nat_0_le order_less_imp_le zero_less_nat_eq)
  then have "n - 1 = int (a - 1)" by simp
  then have "and n (n - 1) = int (and a (a - 1))" unfolding a(1) by (simp only: of_nat_and_eq)
  moreover have "(\<exists>k. n = 2 ^ k) = (\<exists>k. a = 2 ^ k)"
    unfolding a(1) by (metis of_nat_eq_iff of_nat_numeral of_nat_power)
  ultimately show ?thesis using and_pred_nat [OF a(2)] by simp
qed

lemma bit_length_nat_upper: "n < 2 ^ bit_length_nat n"
proof (induction n rule: bit_length_nat.induct)
  case (1 n)
  show ?case
  proof (cases "n = 0")
    case True
    then show ?thesis by simp
  next
    case False
    with 1 have "n div 2 < 2 ^ bit_length_nat (n div 2)" by simp
    then have "n < 2 * 2 ^ bit_length_nat (n div 2)" by linarith
    with False show ?thesis by (subst bit_length_nat.simps) simp
  qed
qed

lemma bit_length_nat_lower: "0 < n \<Longrightarrow> 2 ^ (bit_length_nat n - 1) \<le> n"
proof (induction n rule: bit_length_nat.induct)
  case (1 n)
  then have n: "n \<noteq> 0" by simp
  show ?case
  proof (cases "n div 2 = 0")
    case True
    with n show ?thesis
      by (subst bit_length_nat.simps) (simp add: bit_length_nat.simps [of 0])
  next
    case False
    with 1 n have "2 ^ (bit_length_nat (n div 2) - 1) \<le> n div 2" by simp
    then have "2 * 2 ^ (bit_length_nat (n div 2) - 1) \<le> n" by linarith
    moreover from False have "0 < bit_length_nat (n div 2)"
      by (subst bit_length_nat.simps) simp
    then have "2 * (2::nat) ^ (bit_length_nat (n div 2) - 1) = 2 ^ bit_length_nat (n div 2)"
      by (cases "bit_length_nat (n div 2)") simp_all
    ultimately show ?thesis using n by (subst bit_length_nat.simps) simp
  qed
qed

lemma next_power_of_two:
  fixes m :: int
  assumes "1 \<le> m"
  shows "m \<le> 2 ^ bit_length (m - 1)"
    and "m \<le> 2 ^ j \<Longrightarrow> (2::int) ^ bit_length (m - 1) \<le> 2 ^ j"
proof -
  let ?n = "nat (m - 1)"
  from assms have bl: "bit_length (m - 1) = bit_length_nat ?n" by (simp add: bit_length_def)
  have "int ?n < int (2 ^ bit_length_nat ?n)"
    using bit_length_nat_upper [of ?n] by (simp only: of_nat_less_iff)
  then have "int ?n < 2 ^ bit_length_nat ?n" by simp
  with assms show "m \<le> 2 ^ bit_length (m - 1)" unfolding bl by simp
  assume j: "m \<le> 2 ^ j"
  show "(2::int) ^ bit_length (m - 1) \<le> 2 ^ j"
  proof (cases "?n = 0")
    case True
    then show ?thesis unfolding bl by (simp add: bit_length_nat.simps [of 0])
  next
    case False
    then have "0 < ?n" by (simp only: neq0_conv)
    then have "2 ^ (bit_length_nat ?n - 1) \<le> ?n" by (rule bit_length_nat_lower)
    then have "int (2 ^ (bit_length_nat ?n - 1)) \<le> int ?n" by (simp only: of_nat_le_iff)
    then have "(2::int) ^ (bit_length_nat ?n - 1) \<le> int ?n" by simp
    moreover from assms have "int ?n = m - 1" by simp
    ultimately have "(2::int) ^ (bit_length_nat ?n - 1) < 2 ^ j" using j by linarith
    then have "bit_length_nat ?n - 1 < j" by simp
    then have "bit_length_nat ?n \<le> j" by simp
    then show ?thesis unfolding bl by simp
  qed
qed

lemma cl_max_neighbours_least:
  assumes m: "np_max fam = Inr m" and lo: "1 \<le> m" and hi: "m \<le> 2 ^ 30"
  shows "cl_max_neighbours fam = Inr (2 ^ bit_length (m - 1))"
proof -
  from next_power_of_two(2) [OF lo, of 30] hi have "(2::int) ^ bit_length (m - 1) \<le> 2 ^ 30"
    by simp
  moreover have "(0::int) < 2 ^ bit_length (m - 1)" by simp
  ultimately have "np_intc (2 ^ bit_length (m - 1)) = 2 ^ bit_length (m - 1)"
    unfolding np_intc_def by simp
  with m show ?thesis by (simp add: cl_max_neighbours_def)
qed

lemma np_max_Max: "fam \<noteq> [] \<Longrightarrow> np_max fam = Inr (Max (set fam))"
proof (cases fam)
  case Nil
  assume "fam \<noteq> []"
  with Nil show ?thesis by simp
next
  case (Cons a list)
  have "fold max list a = Max (set (a # list))" by (rule Max.set_eq_fold [symmetric])
  with Cons show ?thesis by (simp add: np_max_def)
qed

lemma no_columns_arguments_accepted: "init_arguments example_env example_args_no_columns = Inr (example_integrator,
   \<lparr>dimensions = 2, coords = [[0, 0, 0], [1, 0, 0]],
                   nnodes = 2, horizon = 3 / 2,
                   nregimes = 1, nmaterials = 1, volume = [1, 1],
                   family = [1, 1], max_neighbours = 0, degrees_freedom = 3, tip_types = [],
                   volume_total = None\<rparr>, Scalar 1, Scalar 1, None)"
  by (simp add: init_arguments_def example_args_no_columns_def example_env_def check_integrator_def
      check_dimensions_def stiffness_setup_def py_or_def volume_setup_def family_setup_def)

lemma no_columns_connectivity_accepted: "connectivity_setup example_env self example_integrator h (ConnPair [[], []] [0, 0])
    (CrackList []) = Inr (0, ([[], []], [0, 0]), [])"
  by (simp add: connectivity_setup_def neighbour_list_setup_def example_integrator_def
      np_shape2_def np_intc_def check_power_of_two_def crack_setup_def)


lemma check_power_of_two_positive:
  assumes "0 < n"
  shows "(check_power_of_two n = Inr ()) = (\<exists>k. n = 2 ^ k)"
  using and_pred_int [OF assms] by (simp add: check_power_of_two_def)

lemma check_power_of_two_zero: "check_power_of_two 0 = Inr ()"
  by (simp add: check_power_of_two_def)

lemma cl_width_is_least_power_of_two:
  assumes "np_max fam = Inr m" and "1 \<le> m" and "m \<le> 2 ^ 30"
  shows "\<exists>k. cl_max_neighbours fam = Inr (2 ^ k) \<and> m \<le> 2 ^ k \<and>
           (\<forall>j. m \<le> 2 ^ j \<longrightarrow> (2::int) ^ k \<le> 2 ^ j)"
  using cl_max_neighbours_least [OF assms] next_power_of_two [OF assms(2)] by blast

text \<open>
  Claim C4. The claim says that a supplied connectivity whose neighbour list has a width
  that is no power of two makes the construction raise. The test of lines 378 and 379,
  \<^verbatim>\<open>max_neighbours & (max_neighbours - 1)\<close>, is 0 for the width 0 too: with an
  OpenCL integrator, two nodes, a neighbour list without columns and the arrays per bond
  supplied with that shape, the construction completes with \<open>max_neighbours = 0\<close>.
  (For a width above 0 the test accepts exactly the powers of two, lemma
  \<open>check_power_of_two_positive\<close>; without a supplied connectivity the width is the least
  power of two that is not below the largest family, lemma
  \<open>cl_width_is_least_power_of_two\<close>.)
\<close>

theorem width_zero_accepted:
  "\<exists>b. init example_env example_args_no_columns = Inr b \<and>
       max_neighbours (attributes b) = 0 \<and>
       initial_connectivity b = ([[], []], [0, 0])"
proof -
  let ?self = "\<lparr>dimensions = 2, coords = [[0, 0, 0], [1, 0, 0]],
                   nnodes = 2, horizon = 3 / 2,
                   nregimes = 1, nmaterials = 1, volume = [1, 1],
                   family = [1, 1], max_neighbours = 0, degrees_freedom = 3, tip_types = [],
                   volume_total = None\<rparr>"
  let ?none = "\<lambda>x::real list. PyList [None, None, None]"
  have tot: "total_on ?self ?none" by (simp add: total_on_def three_axes_def)
  have "\<exists>r. set_boundary_conditions ?self (Callable ?none) (Callable ?none) (Callable ?none)
          = Inr r"
    by (rule set_boundary_conditions_returns [OF _ _ _ tot tot tot]) simp_all
  then obtain r where r: "set_boundary_conditions ?self (Callable ?none) (Callable ?none)
      (Callable ?none) = Inr r" ..
  have d: "default_boundary (arg_is_displacement_boundary example_args_no_columns) = Callable ?none"
    "default_boundary (arg_is_forces_boundary example_args_no_columns) = Callable ?none"
    "default_boundary (arg_is_tip example_args_no_columns) = Callable ?none"
    by (simp_all add: default_boundary_def example_args_no_columns_def)
  have a: "arg_connectivity example_args_no_columns = ConnPair [[], []] [0, 0]"
    "arg_initial_crack example_args_no_columns = CrackList []"
    "arg_stiffness_corrections example_args_no_columns = ArgArray [[], []]"
    "arg_material_types example_args_no_columns = ArgArray [[], []]"
    by (simp_all add: example_args_no_columns_def)
  show ?thesis
    by (simp add: init_def no_columns_arguments_accepted family_check_def init_setup_def a no_columns_connectivity_accepted d r
        stiffness_corrections_setup_def material_types_setup_def np_shape2_def)
qed

end
